(* ===== verification/PyPrelude.thy ===== *)
theory PyPrelude
  imports Complex_Main "HOL-Library.AList" "HOL-Library.Sublist"
begin

text \<open>
  Shared vocabulary of the development: the Python exceptions the program raises and
  catches, results as sums, and the handful of built-in operations on byte strings
  that \<^verbatim>\<open>src/osxcollector/osxcollector.py\<close> calls (\<^verbatim>\<open>str.lower\<close>, \<^verbatim>\<open>str.find\<close>,
  \<^verbatim>\<open>str.startswith\<close>, \<^verbatim>\<open>str.split\<close>, \<^verbatim>\<open>str.strip\<close>, \<^verbatim>\<open>int(s)\<close>, \<^verbatim>\<open>float(s)\<close>, sequence
  indexing). A Python 2 \<^verbatim>\<open>str\<close> is a byte string and is modelled by \<^typ>\<open>string\<close>, whose
  characters are bytes. These are models of the interpreter's built-ins, not of
  code of the repository; the component theories translate the repository's code on
  top of them.
\<close>

section \<open>Exceptions and results\<close>

datatype py_error =
    KeyError | IndexError | TypeError | ValueError
  | UnicodeDecodeError | UnicodeEncodeError
  | AttributeError | OverflowError | IOError | RuntimeError
  | UnboundLocalError | DatabaseError | OperationalError string

type_synonym 'a result = "py_error + 'a"

text \<open>
  \<open>is_instance e c\<close> is \<^verbatim>\<open>isinstance(e, c)\<close> for the exception classes above: the two
  Unicode errors are subclasses of \<^verbatim>\<open>ValueError\<close>, \<^verbatim>\<open>sqlite3.OperationalError\<close> is a
  subclass of \<^verbatim>\<open>sqlite3.DatabaseError\<close> and carries its message, every other class only
  has itself.
\<close>

fun is_instance :: "py_error \<Rightarrow> py_error \<Rightarrow> bool" where
  "is_instance UnicodeDecodeError ValueError = True"
| "is_instance UnicodeEncodeError ValueError = True"
| "is_instance (OperationalError m) DatabaseError = True"
| "is_instance (OperationalError m) (OperationalError m') = True"
| "is_instance e c = (e = c)"

definition caught :: "py_error list \<Rightarrow> py_error \<Rightarrow> bool" where
  "caught classes e = list_ex (is_instance e) classes"

definition bind_result :: "'a result \<Rightarrow> ('a \<Rightarrow> 'b result) \<Rightarrow> 'b result" where
  "bind_result r f = (case r of Inl e \<Rightarrow> Inl e | Inr x \<Rightarrow> f x)"

text \<open>\<^verbatim>\<open>try: r  except classes: h\<close> as a combinator on results.\<close>

definition try_except :: "'a result \<Rightarrow> py_error list \<Rightarrow> 'a result \<Rightarrow> 'a result" where
  "try_except r classes h =
     (case r of Inr x \<Rightarrow> Inr x | Inl e \<Rightarrow> if caught classes e then h else Inl e)"

section \<open>Byte strings\<close>

definition is_ascii :: "char \<Rightarrow> bool" where
  "is_ascii c \<longleftrightarrow> (of_char c :: nat) < 128"

definition is_digit :: "char \<Rightarrow> bool" where
  "is_digit c \<longleftrightarrow> 48 \<le> (of_char c :: nat) \<and> (of_char c :: nat) \<le> 57"

definition is_space :: "char \<Rightarrow> bool" where
  "is_space c \<longleftrightarrow> (of_char c :: nat) \<in> {9, 10, 11, 12, 13, 32}"

definition lower_char :: "char \<Rightarrow> char" where
  "lower_char c =
     (let n = (of_char c :: nat) in if 65 \<le> n \<and> n \<le> 90 then char_of (n + 32) else c)"

definition py_lower :: "string \<Rightarrow> string" where
  "py_lower s = map lower_char s"

text \<open>\<open>contains s sub\<close> is \<^verbatim>\<open>-1 != s.find(sub)\<close>.\<close>

fun contains :: "string \<Rightarrow> string \<Rightarrow> bool" where
  "contains [] sub = (sub = [])"
| "contains (c # s) sub = (prefix sub (c # s) \<or> contains s sub)"

definition startswith :: "string \<Rightarrow> string \<Rightarrow> bool" where
  "startswith s p = prefix p s"

definition endswith :: "string \<Rightarrow> string \<Rightarrow> bool" where
  "endswith s p = suffix p s"

text \<open>\<open>split_on sep s\<close> is \<^verbatim>\<open>s.split(sep)\<close> for a one-character separator.\<close>

fun split_on :: "char \<Rightarrow> string \<Rightarrow> string list" where
  "split_on sep [] = [[]]"
| "split_on sep (c # s) =
     (if c = sep then [] # split_on sep s
      else (case split_on sep s of w # ws \<Rightarrow> (c # w) # ws | [] \<Rightarrow> [[c]]))"

fun join_with :: "char \<Rightarrow> string list \<Rightarrow> string" where
  "join_with sep [] = []"
| "join_with sep [w] = w"
| "join_with sep (w # ws) = w @ sep # join_with sep ws"

definition py_strip :: "string \<Rightarrow> string" where
  "py_strip s = rev (dropWhile is_space (rev (dropWhile is_space s)))"

definition digits_value :: "string \<Rightarrow> int" where
  "digits_value ds = foldl (\<lambda>a c. 10 * a + (of_char c - 48)) 0 ds"

text \<open>An optional sign in front of the rest of a numeric literal.\<close>

definition split_sign :: "string \<Rightarrow> bool \<times> string" where
  "split_sign t =
     (case t of
        [] \<Rightarrow> (False, [])
      | c # r \<Rightarrow> if c = CHR ''-'' then (True, r) else if c = CHR ''+'' then (False, r)
                 else (False, t))"

text \<open>
  \<open>py_int s\<close> is \<^verbatim>\<open>int(s)\<close> on a string: surrounding white space is ignored, then an
  optional sign and at least one decimal digit; anything else raises \<^verbatim>\<open>ValueError\<close>,
  which is \<open>None\<close> here.
\<close>

definition py_int :: "string \<Rightarrow> int option" where
  "py_int s =
     (let (neg, ds) = split_sign (py_strip s)
      in if ds \<noteq> [] \<and> list_all is_digit ds
         then Some (if neg then - digits_value ds else digits_value ds)
         else None)"

text \<open>
  A Python float is modelled by the rational it denotes, or one of the three special
  values; the rounding of a decimal literal to the nearest double is not modelled.
\<close>

datatype pyfloat = Finite rat | PosInf | NegInf | NaN

definition parse_exponent :: "string \<Rightarrow> int option" where
  "parse_exponent r =
     (case r of
        [] \<Rightarrow> Some 0
      | c # e \<Rightarrow>
          if c = CHR ''e'' \<or> c = CHR ''E'' then
            (let (neg, ds) = split_sign e
             in if ds \<noteq> [] \<and> list_all is_digit ds
                then Some (if neg then - digits_value ds else digits_value ds)
                else None)
          else None)"

definition parse_decimal :: "string \<Rightarrow> rat option" where
  "parse_decimal u =
     (let ip = takeWhile is_digit u; r1 = dropWhile is_digit u;
          fp = (case r1 of c # r \<Rightarrow> if c = CHR ''.'' then takeWhile is_digit r else [] | [] \<Rightarrow> []);
          r2 = (case r1 of c # r \<Rightarrow> if c = CHR ''.'' then dropWhile is_digit r else r1 | [] \<Rightarrow> [])
      in if ip = [] \<and> fp = [] then None
         else (case parse_exponent r2 of
                 None \<Rightarrow> None
               | Some e \<Rightarrow>
                   Some (of_int (digits_value (ip @ fp)) * 10 powi (e - int (length fp)))))"

text \<open>\<open>py_float s\<close> is \<^verbatim>\<open>float(s)\<close> on a string; \<open>None\<close> is \<^verbatim>\<open>ValueError\<close>.\<close>

definition py_float :: "string \<Rightarrow> pyfloat option" where
  "py_float s =
     (let (neg, u) = split_sign (py_strip s); l = py_lower u
      in if l = ''inf'' \<or> l = ''infinity'' then Some (if neg then NegInf else PosInf)
         else if l = ''nan'' then Some NaN
         else map_option (\<lambda>q. Finite (if neg then - q else q)) (parse_decimal u))"

section \<open>Sequences and dictionaries\<close>

text \<open>
  \<open>py_index xs i\<close> is \<^verbatim>\<open>xs[i]\<close> on a sequence: a negative index counts from the end,
  an index out of range raises \<^verbatim>\<open>IndexError\<close>.
\<close>

definition py_index :: "'a list \<Rightarrow> int \<Rightarrow> 'a result" where
  "py_index xs i =
     (let n = int (length xs); j = (if i < 0 then i + n else i)
      in if 0 \<le> j \<and> j < n then Inr (xs ! nat j) else Inl IndexError)"

text \<open>
  A dictionary with string keys is an association list; \<open>dict_get\<close> is \<^verbatim>\<open>d[k]\<close>, which
  raises \<^verbatim>\<open>KeyError\<close> on a missing key. The order of the list stands for the order in
  which Python iterates over the keys, which the language leaves open; no theorem of
  the development depends on it.
\<close>

type_synonym 'v pydict = "(string \<times> 'v) list"

definition dict_get :: "'v pydict \<Rightarrow> string \<Rightarrow> 'v result" where
  "dict_get d k = (case map_of d k of Some v \<Rightarrow> Inr v | None \<Rightarrow> Inl KeyError)"

text \<open>\<^verbatim>\<open>dict(pairs)\<close>: a later pair replaces an earlier one with the same key.\<close>

definition py_dict :: "(string \<times> 'v) list \<Rightarrow> 'v pydict" where
  "py_dict pairs = foldl (\<lambda>d kv. AList.update (fst kv) (snd kv) d) [] pairs"

text \<open>
  A list comprehension and a loop with an accumulator whose steps can raise: the
  first exception ends the evaluation.
\<close>

fun map_result :: "('a \<Rightarrow> 'b result) \<Rightarrow> 'a list \<Rightarrow> 'b list result" where
  "map_result f [] = Inr []"
| "map_result f (x # xs) =
     bind_result (f x) (\<lambda>y. bind_result (map_result f xs) (\<lambda>ys. Inr (y # ys)))"

fun fold_result :: "('b \<Rightarrow> 'a \<Rightarrow> 'b result) \<Rightarrow> 'a list \<Rightarrow> 'b \<Rightarrow> 'b result" where
  "fold_result f [] acc = Inr acc"
| "fold_result f (x # xs) acc = bind_result (f acc x) (fold_result f xs)"

section \<open>Shared lemmas\<close>

named_theorems result_simps "rewrite rules for results and exception handlers"

lemma bind_result_Inr [simp, result_simps]: "bind_result (Inr x) f = f x"
  by (simp add: bind_result_def)

lemma bind_result_Inl [simp, result_simps]: "bind_result (Inl e) f = Inl e"
  by (simp add: bind_result_def)

lemma bind_result_eq_Inr_iff [result_simps]:
  "bind_result r f = Inr y \<longleftrightarrow> (\<exists>x. r = Inr x \<and> f x = Inr y)"
  by (cases r) simp_all

lemma bind_result_assoc:
  "bind_result (bind_result r f) g = bind_result r (\<lambda>x. bind_result (f x) g)"
  by (cases r) simp_all

lemma try_except_Inr [simp, result_simps]: "try_except (Inr x) cs h = Inr x"
  by (simp add: try_except_def)

lemma try_except_Inl [simp, result_simps]:
  "try_except (Inl e) cs h = (if caught cs e then h else Inl e)"
  by (simp add: try_except_def)

lemma caught_simps [simp, result_simps]:
  "caught [] e = False"
  "caught (c # cs) e = (is_instance e c \<or> caught cs e)"
  by (simp_all add: caught_def)

lemma is_instance_refl [simp]: "is_instance e e"
  by (cases e) simp_all

lemma contains_iff: "contains s sub \<longleftrightarrow> (\<exists>p q. s = p @ sub @ q)"
proof (induction s)
  case Nil
  then show ?case by auto
next
  case (Cons c s)
  show ?case
  proof
    assume "contains (c # s) sub"
    then consider "prefix sub (c # s)" | "contains s sub" by auto
    then show "\<exists>p q. c # s = p @ sub @ q"
    proof cases
      case 1
      then obtain q where "c # s = sub @ q" by (auto simp: prefix_def)
      then have "c # s = [] @ sub @ q" by simp
      then show ?thesis by blast
    next
      case 2
      with Cons.IH obtain p q where "s = p @ sub @ q" by blast
      then have "c # s = (c # p) @ sub @ q" by simp
      then show ?thesis by blast
    qed
  next
    assume "\<exists>p q. c # s = p @ sub @ q"
    then obtain p q where pq: "c # s = p @ sub @ q" by blast
    show "contains (c # s) sub"
    proof (cases p)
      case Nil
      with pq have "prefix sub (c # s)" by (simp add: prefix_def)
      then show ?thesis by simp
    next
      case (Cons a p')
      with pq have "s = p' @ sub @ q" by simp
      with Cons.IH show ?thesis by auto
    qed
  qed
qed

lemma contains_append:
  "contains s sub \<Longrightarrow> contains (p @ s @ q) sub"
  unfolding contains_iff by (metis append.assoc)

lemma split_on_not_Nil [simp]: "split_on sep s \<noteq> []"
  by (induction s) (auto split: list.splits)

lemma join_with_Cons:
  "ws \<noteq> [] \<Longrightarrow> join_with sep (w # ws) = w @ sep # join_with sep ws"
  by (cases ws) simp_all

lemma join_split_on: "join_with sep (split_on sep s) = s"
proof (induction s)
  case Nil
  show ?case by simp
next
  case (Cons c s)
  obtain w ws where ws: "split_on sep s = w # ws"
    using split_on_not_Nil [of sep s] by (cases "split_on sep s") auto
  with Cons show ?case
    by (cases ws) (auto simp: join_with_Cons)
qed

lemma split_on_no_sep: "w \<in> set (split_on sep s) \<Longrightarrow> sep \<notin> set w"
  by (induction s arbitrary: w) (auto split: if_splits list.splits)

lemma split_on_id: "sep \<notin> set s \<Longrightarrow> split_on sep s = [s]"
  by (induction s) auto

lemma split_on_append_sep:
  "sep \<notin> set w \<Longrightarrow> split_on sep (w @ sep # s) = w # split_on sep s"
  by (induction w) auto

lemma split_on_join:
  "ws \<noteq> [] \<Longrightarrow> (\<And>w. w \<in> set ws \<Longrightarrow> sep \<notin> set w) \<Longrightarrow> split_on sep (join_with sep ws) = ws"
proof (induction ws)
  case Nil
  then show ?case by simp
next
  case (Cons w ws)
  then show ?case
    by (cases ws) (simp_all add: split_on_id split_on_append_sep join_with_Cons)
qed

lemma py_index_Inr_iff:
  "py_index xs i = Inr x \<longleftrightarrow>
     - int (length xs) \<le> i \<and> i < int (length xs) \<and>
     x = xs ! nat (if i < 0 then i + int (length xs) else i)"
  by (auto simp: py_index_def Let_def)

lemma py_index_error: "py_index xs i = Inl e \<Longrightarrow> e = IndexError"
  by (auto simp: py_index_def Let_def split: if_splits)

lemma py_index_in_set: "py_index xs i = Inr x \<Longrightarrow> x \<in> set xs"
  by (auto simp: py_index_def Let_def split: if_splits)

lemma py_index_nat [simp]: "n < length xs \<Longrightarrow> py_index xs (int n) = Inr (xs ! n)"
  by (simp add: py_index_def)

lemma dict_get_Inr_iff [result_simps]: "dict_get d k = Inr v \<longleftrightarrow> map_of d k = Some v"
  by (simp add: dict_get_def split: option.splits)

lemma dict_get_Inl_iff [result_simps]:
  "dict_get d k = Inl e \<longleftrightarrow> e = KeyError \<and> k \<notin> fst ` set d"
  by (auto simp: dict_get_def map_of_eq_None_iff weak_map_of_SomeI split: option.splits
      dest: map_of_SomeD intro: rev_image_eqI)

lemma dict_get_in_set: "dict_get d k = Inr v \<Longrightarrow> (k, v) \<in> set d"
  by (auto simp: dict_get_Inr_iff dest: map_of_SomeD)

lemma map_result_total [result_simps]:
  "(\<And>x. x \<in> set xs \<Longrightarrow> f x = Inr (g x)) \<Longrightarrow> map_result f xs = Inr (map g xs)"
  by (induction xs) simp_all

lemma map_result_length: "map_result f xs = Inr ys \<Longrightarrow> length ys = length xs"
  by (induction xs arbitrary: ys) (auto simp: bind_result_def split: sum.splits)

lemma fold_result_total [result_simps]:
  "(\<And>acc x. x \<in> set xs \<Longrightarrow> f acc x = Inr (g acc x)) \<Longrightarrow> fold_result f xs acc = Inr (foldl g acc xs)"
  by (induction xs arbitrary: acc) simp_all

lemma py_dict_keys: "fst ` set (py_dict pairs) = fst ` set pairs"
proof -
  have "fst ` set (foldl (\<lambda>d kv. AList.update (fst kv) (snd kv) d) d0 pairs) = fst ` set d0 \<union> fst ` set pairs"
    for d0 :: "(string \<times> 'a) list"
    by (induction pairs arbitrary: d0) (auto simp: dom_update)
  then show ?thesis by (simp add: py_dict_def)
qed

lemma py_dict_distinct:
  assumes "distinct (map fst pairs)"
  shows "py_dict pairs = pairs"
proof -
  have "distinct (map fst (d0 @ pairs)) \<Longrightarrow>
      foldl (\<lambda>d kv. AList.update (fst kv) (snd kv) d) d0 pairs = d0 @ pairs"
    for d0 :: "(string \<times> 'a) list"
  proof (induction pairs arbitrary: d0)
    case Nil
    then show ?case by simp
  next
    case (Cons kv pairs)
    from Cons.prems have "fst kv \<notin> fst ` set d0" by auto
    then have "AList.update (fst kv) (snd kv) d0 = d0 @ [kv]"
      by (induction d0) auto
    with Cons.IH [of "d0 @ [kv]"] Cons.prems show ?case by simp
  qed
  from this [of "[]"] assms show ?thesis by (simp add: py_dict_def)
qed

end
