(* ===== verification/PyValue.thy ===== *)
theory PyValue
  imports PyPrelude
begin

text \<open>
  The values the collector handles. The program is dynamically typed: what
  \<^verbatim>\<open>_normalize_val\<close>, \<^verbatim>\<open>DictUtils.get_deep\<close> and \<^verbatim>\<open>Logger.log_dict\<close> receive is whatever
  the SQLite and property-list readers return, and each of them branches on the
  run-time type. The type \<open>pyval\<close> has one constructor per type these branches
  distinguish: the Python built-ins (\<^verbatim>\<open>None\<close>, \<^verbatim>\<open>bool\<close>, \<^verbatim>\<open>int\<close>/\<^verbatim>\<open>long\<close>, \<^verbatim>\<open>float\<close>, the byte
  string \<^verbatim>\<open>str\<close>, \<^verbatim>\<open>unicode\<close> as a list of code points, \<^verbatim>\<open>buffer\<close> for SQLite blobs,
  \<^verbatim>\<open>list\<close>, \<^verbatim>\<open>dict\<close>), the Foundation classes the \<^verbatim>\<open>isinstance\<close> tests of
  \<^verbatim>\<open>_normalize_val\<close> name (\<^verbatim>\<open>NSData\<close>, \<^verbatim>\<open>NSArray\<close>, \<^verbatim>\<open>NSDictionary\<close>, \<^verbatim>\<open>NSDate\<close>), and
  \<open>PObject\<close> for an object of any other class, identified by the name of its class.
  Dictionary keys are byte strings.
\<close>

datatype pyval =
    PNone
  | PBool bool
  | PInt int
  | PFloat pyfloat
  | PStr string
  | PUnicode "nat list"
  | PBuffer string
  | PList "pyval list"
  | PDict "(string \<times> pyval) list"
  | NSData string
  | NSArray "pyval list"
  | NSDictionary "(string \<times> pyval) list"
  | NSDate rat
  | PObject string

type_synonym log_record = "pyval pydict"

text \<open>\<open>truthy v\<close> is \<^verbatim>\<open>bool(v)\<close>; objects of other classes are taken to be true.\<close>

fun truthy :: "pyval \<Rightarrow> bool" where
  "truthy PNone = False"
| "truthy (PBool b) = b"
| "truthy (PInt i) = (i \<noteq> 0)"
| "truthy (PFloat f) = (f \<noteq> Finite 0)"
| "truthy (PStr s) = (s \<noteq> [])"
| "truthy (PUnicode u) = (u \<noteq> [])"
| "truthy (PBuffer s) = (s \<noteq> [])"
| "truthy (PList xs) = (xs \<noteq> [])"
| "truthy (PDict d) = (d \<noteq> [])"
| "truthy (NSData s) = (s \<noteq> [])"
| "truthy (NSArray xs) = (xs \<noteq> [])"
| "truthy (NSDictionary d) = (d \<noteq> [])"
| "truthy (NSDate t) = True"
| "truthy (PObject c) = True"

text \<open>\<^verbatim>\<open>isinstance(v, Number)\<close>; a \<^verbatim>\<open>bool\<close> is an \<^verbatim>\<open>int\<close>.\<close>

fun is_number :: "pyval \<Rightarrow> bool" where
  "is_number (PBool b) = True"
| "is_number (PInt i) = True"
| "is_number (PFloat f) = True"
| "is_number v = False"

text \<open>
  The entries of a value that is a mapping: a \<^verbatim>\<open>dict\<close>, or an \<^verbatim>\<open>NSDictionary\<close>, which the
  bridge gives the methods of a \<^verbatim>\<open>dict\<close>.
\<close>

fun dict_items :: "pyval \<Rightarrow> pyval pydict option" where
  "dict_items (PDict d) = Some d"
| "dict_items (NSDictionary d) = Some d"
| "dict_items v = None"

text \<open>
  \<open>decode_ascii s\<close> is \<^verbatim>\<open>unicode(s)\<close> on a byte string, which decodes with the default
  codec \<^verbatim>\<open>ascii\<close> and raises \<^verbatim>\<open>UnicodeDecodeError\<close> on a byte above 127;
  \<open>encode_ascii u\<close> is the implicit \<^verbatim>\<open>u.encode('ascii')\<close> that Python 2 performs when
  \<^verbatim>\<open>decode\<close> is called on a \<^verbatim>\<open>unicode\<close> object.
\<close>

definition decode_ascii :: "string \<Rightarrow> (nat list) result" where
  "decode_ascii s = (if list_all is_ascii s then Inr (map of_char s) else Inl UnicodeDecodeError)"

definition encode_ascii :: "nat list \<Rightarrow> string result" where
  "encode_ascii u = (if list_all (\<lambda>n. n < 128) u then Inr (map char_of u) else Inl UnicodeEncodeError)"

text \<open>
  \<open>decode_utf16le s\<close> is \<^verbatim>\<open>s.decode('utf-16le', errors='ignore')\<close> on bytes below 128,
  the only bytes that reach it: each pair of bytes is one code unit, low byte first,
  and a trailing odd byte is dropped. No pair of such bytes is a surrogate.
\<close>

fun decode_utf16le :: "string \<Rightarrow> nat list" where
  "decode_utf16le (lo # hi # s) = (of_char lo + 256 * of_char hi) # decode_utf16le s"
| "decode_utf16le s = []"

text \<open>
  The well-formedness of a value: the keys of every dictionary in it are distinct.
\<close>

fun wf_val :: "pyval \<Rightarrow> bool" where
  "wf_val (PList xs) = list_all wf_val xs"
| "wf_val (NSArray xs) = list_all wf_val xs"
| "wf_val (PDict d) = (distinct (map fst d) \<and> list_all (\<lambda>kv. wf_val (snd kv)) d)"
| "wf_val (NSDictionary d) = (distinct (map fst d) \<and> list_all (\<lambda>kv. wf_val (snd kv)) d)"
| "wf_val v = True"

text \<open>
  \<open>json_native v\<close>: the value is built from the types \<^verbatim>\<open>json.dumps\<close> encodes (no
  \<^verbatim>\<open>buffer\<close>, no Foundation object, no object of another class) and every byte string
  in it, keys included, is ASCII, so that its implicit decoding cannot fail.
\<close>

fun json_native :: "pyval \<Rightarrow> bool" where
  "json_native PNone = True"
| "json_native (PBool b) = True"
| "json_native (PInt i) = True"
| "json_native (PFloat f) = True"
| "json_native (PStr s) = list_all is_ascii s"
| "json_native (PUnicode u) = True"
| "json_native (PList xs) = list_all json_native xs"
| "json_native (PDict d) = list_all (\<lambda>kv. list_all is_ascii (fst kv) \<and> json_native (snd kv)) d"
| "json_native v = False"

text \<open>
  Library functions the program only calls and whose text is not part of it:
  \<^verbatim>\<open>json.dumps\<close> on a record (it can raise, for instance \<^verbatim>\<open>TypeError\<close> on a value that
  is not serialisable), \<^verbatim>\<open>repr\<close>, and the formatting of an exception with its
  traceback in \<^verbatim>\<open>Logger.log_exception\<close>. The operations of the model take them as a
  parameter, so every theorem holds for whatever these functions compute.
\<close>

record pylib =
  dumps :: "pyval pydict \<Rightarrow> string result"
  repr :: "pyval \<Rightarrow> string"
  format_exception :: "string \<Rightarrow> py_error \<Rightarrow> string"

text \<open>A small instance of these parameters, for concrete runs.\<close>

definition demo_lib :: pylib where
  "demo_lib =
     \<lparr>dumps = (\<lambda>r. if list_all (\<lambda>kv. json_native (snd kv)) r
                   then Inr (''{'' @ concat (map (\<lambda>kv. ''#'') r) @ ''}'') else Inl TypeError),
      repr = (\<lambda>v. ''<object>''),
      format_exception = (\<lambda>m e. m @ '' failed'')\<rparr>"

text \<open>
  What a statement does to a state: the state after it, and the exception it raised,
  if any. The state is kept in both cases, since what was written before an
  exception stays written.
\<close>

type_synonym 's outcome = "py_error option \<times> 's"

text \<open>
  A \<^verbatim>\<open>for\<close> loop over a list whose body can raise: the first exception ends the loop
  and is the loop's.
\<close>

fun for_each :: "('a \<Rightarrow> 's \<Rightarrow> 's outcome) \<Rightarrow> 'a list \<Rightarrow> 's \<Rightarrow> 's outcome" where
  "for_each body [] s = (None, s)"
| "for_each body (x # xs) s =
     (case body x s of
        (None, s') \<Rightarrow> for_each body xs s'
      | (Some e, s') \<Rightarrow> (Some e, s'))"

text \<open>
  \<^verbatim>\<open>iter(v)\<close> as the list of the items a \<^verbatim>\<open>for\<close> loop visits: the elements of a sequence,
  the keys of a mapping, the characters of a string or buffer; a value that is not iterable
  raises \<^verbatim>\<open>TypeError\<close>.
\<close>

fun py_iter :: "pyval \<Rightarrow> pyval list result" where
  "py_iter (PList xs) = Inr xs"
| "py_iter (NSArray xs) = Inr xs"
| "py_iter (PDict d) = Inr (map (\<lambda>kv. PStr (fst kv)) d)"
| "py_iter (NSDictionary d) = Inr (map (\<lambda>kv. PStr (fst kv)) d)"
| "py_iter (PStr s) = Inr (map (\<lambda>c. PStr [c]) s)"
| "py_iter (PUnicode u) = Inr (map (\<lambda>c. PUnicode [c]) u)"
| "py_iter (PBuffer s) = Inr (map (\<lambda>c. PStr [c]) s)"
| "py_iter v = Inl TypeError"

text \<open>
  \<open>py_get v k d\<close> is \<^verbatim>\<open>v.get(k, d)\<close>, a method only dictionaries have; \<open>py_len v\<close> is
  \<^verbatim>\<open>len(v)\<close>, which raises \<^verbatim>\<open>TypeError\<close> on a value without a length.
\<close>

fun py_get :: "pyval \<Rightarrow> string \<Rightarrow> pyval \<Rightarrow> pyval result" where
  "py_get (PDict d) k dflt = Inr (case map_of d k of Some v \<Rightarrow> v | None \<Rightarrow> dflt)"
| "py_get (NSDictionary d) k dflt = Inr (case map_of d k of Some v \<Rightarrow> v | None \<Rightarrow> dflt)"
| "py_get v k dflt = Inl AttributeError"

fun py_len :: "pyval \<Rightarrow> nat result" where
  "py_len (PStr s) = Inr (length s)"
| "py_len (PUnicode u) = Inr (length u)"
| "py_len (PBuffer s) = Inr (length s)"
| "py_len (PList xs) = Inr (length xs)"
| "py_len (PDict d) = Inr (length d)"
| "py_len (NSData s) = Inr (length s)"
| "py_len (NSArray xs) = Inr (length xs)"
| "py_len (NSDictionary d) = Inr (length d)"
| "py_len v = Inl TypeError"

section \<open>Lemmas\<close>

lemma decode_ascii_Inr_iff [result_simps]:
  "decode_ascii s = Inr u \<longleftrightarrow> list_all is_ascii s \<and> u = map of_char s"
  by (auto simp: decode_ascii_def)

lemma decode_ascii_Inl_iff [result_simps]:
  "decode_ascii s = Inl e \<longleftrightarrow> \<not> list_all is_ascii s \<and> e = UnicodeDecodeError"
  by (auto simp: decode_ascii_def)

lemma encode_ascii_Inr_iff [result_simps]:
  "encode_ascii u = Inr s \<longleftrightarrow> list_all (\<lambda>n. n < 128) u \<and> s = map char_of u"
  by (auto simp: encode_ascii_def)

lemma of_char_ascii_less: "is_ascii c \<Longrightarrow> (of_char c :: nat) < 128"
  by (simp add: is_ascii_def)

lemma encode_decode_ascii:
  "decode_ascii s = Inr u \<Longrightarrow> encode_ascii u = Inr s"
  by (auto simp: decode_ascii_def encode_ascii_def list_all_iff of_char_ascii_less
      split: if_splits intro: nth_equalityI)

lemma length_decode_utf16le [simp]: "length (decode_utf16le s) = length s div 2"
  by (induction s rule: decode_utf16le.induct) simp_all

lemma decode_utf16le_bound:
  "list_all is_ascii s \<Longrightarrow> list_all (\<lambda>n. n < 32768) (decode_utf16le s)"
  by (induction s rule: decode_utf16le.induct) (auto simp: is_ascii_def)

lemma for_each_append:
  "for_each body (xs @ ys) s =
     (case for_each body xs s of (None, s') \<Rightarrow> for_each body ys s' | (Some e, s') \<Rightarrow> (Some e, s'))"
  by (induction xs arbitrary: s) (auto split: prod.splits option.splits)

text \<open>A loop whose body keeps an invariant and does not raise under it ends normally.\<close>

lemma for_each_invariant:
  assumes "\<And>x s. x \<in> set xs \<Longrightarrow> I s \<Longrightarrow> \<exists>s'. body x s = (None, s') \<and> I s'" and "I s"
  shows "\<exists>s'. for_each body xs s = (None, s') \<and> I s'"
  using assms
proof (induction xs arbitrary: s)
  case Nil
  then show ?case by simp
next
  case (Cons x xs)
  from Cons.prems obtain s1 where s1: "body x s = (None, s1)" "I s1" by fastforce
  from Cons.IH [OF _ s1(2)] Cons.prems(1) obtain s' where "for_each body xs s1 = (None, s')" "I s'"
    by fastforce
  with s1 show ?case by simp
qed

lemma json_native_wf_free:
  "json_native v \<Longrightarrow> v \<noteq> PBuffer s \<and> v \<noteq> NSData s \<and> v \<noteq> NSDate t \<and> v \<noteq> PObject c"
  by (cases v) simp_all

end
