(* ===== verification/DictUtils.thy ===== *)
theory DictUtils
  imports PyValue
begin

text \<open>
  The deep-path accessor, class \<^verbatim>\<open>DictUtils\<close> of \<^verbatim>\<open>src/osxcollector/osxcollector.py\<close>:
  \<^verbatim>\<open>_link_path_to_chain\<close>, \<^verbatim>\<open>_get_deep_by_chain\<close> and \<^verbatim>\<open>get_deep\<close>. A path is a
  dotted string or a sequence of links; the loop of \<^verbatim>\<open>_get_deep_by_chain\<close> subscripts
  the current value with each link, first with the link as it is and, when that
  raises \<^verbatim>\<open>KeyError\<close> or \<^verbatim>\<open>TypeError\<close>, with \<^verbatim>\<open>int(link)\<close>. The outer handler turns
  \<^verbatim>\<open>KeyError\<close>, \<^verbatim>\<open>TypeError\<close> and \<^verbatim>\<open>ValueError\<close> into the default; any other exception
  leaves the function, so the result is a \<open>pyval result\<close>.
\<close>

section \<open>Paths and chains\<close>

text \<open>
  The three sequence types \<^verbatim>\<open>_link_path_to_chain\<close> passes through unchanged; a set is
  given by its links in iteration order.
\<close>

datatype chain = ChainList "string list" | ChainTuple "string list" | ChainSet "string list"

text \<open>
  What a caller can pass as \<^verbatim>\<open>path\<close>: a string, one of the three sequences, or an
  object of another type (\<^verbatim>\<open>None\<close>, a number), which has no \<^verbatim>\<open>split\<close>.
\<close>

datatype path = PathStr string | PathSeq chain | PathOther

fun links :: "chain \<Rightarrow> string list" where
  "links (ChainList ls) = ls"
| "links (ChainTuple ls) = ls"
| "links (ChainSet ls) = ls"

fun link_path_to_chain :: "path \<Rightarrow> chain result" where
  "link_path_to_chain (PathStr s) =
     (if s = [] then Inr (ChainList []) else Inr (ChainList (split_on CHR ''.'' s)))"
| "link_path_to_chain (PathSeq c) = Inr c"
| "link_path_to_chain PathOther = Inl AttributeError"

section \<open>Subscripting\<close>

text \<open>
  \<open>getitem_str x k\<close> is \<^verbatim>\<open>x[k]\<close> for a string \<open>k\<close>: a dictionary looks the key up,
  every other type refuses a string subscript with \<^verbatim>\<open>TypeError\<close>.
\<close>

fun getitem_str :: "pyval \<Rightarrow> string \<Rightarrow> pyval result" where
  "getitem_str (PDict d) k = dict_get d k"
| "getitem_str (NSDictionary d) k = dict_get d k"
| "getitem_str v k = Inl TypeError"

text \<open>
  \<open>getitem_int x i\<close> is \<^verbatim>\<open>x[i]\<close> for an integer \<open>i\<close>: sequences and strings index
  (\<^verbatim>\<open>IndexError\<close> out of range), a dictionary with string keys has no such key, other
  types cannot be subscripted.
\<close>

fun getitem_int :: "pyval \<Rightarrow> int \<Rightarrow> pyval result" where
  "getitem_int (PList xs) i = py_index xs i"
| "getitem_int (NSArray xs) i = py_index xs i"
| "getitem_int (PStr s) i = map_sum id (\<lambda>c. PStr [c]) (py_index s i)"
| "getitem_int (PUnicode u) i = map_sum id (\<lambda>c. PUnicode [c]) (py_index u i)"
| "getitem_int (PBuffer s) i = map_sum id (\<lambda>c. PStr [c]) (py_index s i)"
| "getitem_int (PDict d) i = Inl KeyError"
| "getitem_int (NSDictionary d) i = Inl KeyError"
| "getitem_int v i = Inl TypeError"

section \<open>The traversal\<close>

text \<open>One iteration of the loop: the inner \<^verbatim>\<open>try\<close> with its fallback to \<^verbatim>\<open>int(link)\<close>.\<close>

definition get_link :: "pyval \<Rightarrow> string \<Rightarrow> pyval result" where
  "get_link x link =
     try_except (getitem_str x link) [KeyError, TypeError]
       (case py_int link of None \<Rightarrow> Inl ValueError | Some i \<Rightarrow> getitem_int x i)"

fun follow_chain :: "pyval \<Rightarrow> string list \<Rightarrow> pyval result" where
  "follow_chain x [] = Inr x"
| "follow_chain x (link # ls) = bind_result (get_link x link) (\<lambda>y. follow_chain y ls)"

definition get_deep_by_chain :: "pyval \<Rightarrow> chain \<Rightarrow> pyval \<Rightarrow> pyval result" where
  "get_deep_by_chain x c dflt =
     (if c = ChainList [] then Inr dflt
      else try_except (follow_chain x (links c)) [KeyError, TypeError, ValueError] (Inr dflt))"

definition get_deep :: "pyval \<Rightarrow> path \<Rightarrow> pyval \<Rightarrow> pyval result" where
  "get_deep x p dflt = bind_result (link_path_to_chain p) (\<lambda>c. get_deep_by_chain x c dflt)"

section \<open>The contract\<close>

text \<open>
  What the accessor promises: follow mapping keys, then sequence indices, and answer
  \<open>None\<close> where a segment matches neither. \<open>seq_items\<close> gives the items of a value
  that can be indexed by position.
\<close>

fun seq_items :: "pyval \<Rightarrow> pyval list option" where
  "seq_items (PList xs) = Some xs"
| "seq_items (NSArray xs) = Some xs"
| "seq_items (PStr s) = Some (map (\<lambda>c. PStr [c]) s)"
| "seq_items (PUnicode u) = Some (map (\<lambda>c. PUnicode [c]) u)"
| "seq_items (PBuffer s) = Some (map (\<lambda>c. PStr [c]) s)"
| "seq_items v = None"

definition lookup_segment :: "pyval \<Rightarrow> string \<Rightarrow> pyval option" where
  "lookup_segment x seg =
     (case Option.bind (dict_items x) (\<lambda>d. map_of d seg) of
        Some v \<Rightarrow> Some v
      | None \<Rightarrow>
          (case (seq_items x, py_int seg) of
             (Some xs, Some i) \<Rightarrow>
               (if - int (length xs) \<le> i \<and> i < int (length xs)
                then Some (xs ! nat (if i < 0 then i + int (length xs) else i)) else None)
           | _ \<Rightarrow> None))"

fun lookup_path :: "pyval \<Rightarrow> string list \<Rightarrow> pyval option" where
  "lookup_path x [] = Some x"
| "lookup_path x (seg # segs) = Option.bind (lookup_segment x seg) (\<lambda>y. lookup_path y segs)"

text \<open>
  \<open>index_in_range x seg\<close>: the segment does not ask a sequence for a position it does
  not have. \<open>chain_in_range\<close> says so for every step of a traversal.
\<close>

definition index_in_range :: "pyval \<Rightarrow> string \<Rightarrow> bool" where
  "index_in_range x seg =
     (case (seq_items x, py_int seg) of
        (Some xs, Some i) \<Rightarrow> - int (length xs) \<le> i \<and> i < int (length xs)
      | _ \<Rightarrow> True)"

fun chain_in_range :: "pyval \<Rightarrow> string list \<Rightarrow> bool" where
  "chain_in_range x [] = True"
| "chain_in_range x (seg # segs) =
     (index_in_range x seg \<and>
      (case lookup_segment x seg of None \<Rightarrow> True | Some y \<Rightarrow> chain_in_range y segs))"

section \<open>One link\<close>

lemma getitem_str_error: "getitem_str x k = Inl e \<Longrightarrow> e = KeyError \<or> e = TypeError"
  by (cases x) (auto simp: dict_get_Inl_iff)

lemma getitem_str_Inr_iff:
  "getitem_str x k = Inr v \<longleftrightarrow> (\<exists>d. dict_items x = Some d \<and> map_of d k = Some v)"
  by (cases x) (auto simp: dict_get_Inr_iff)

lemma getitem_int_seq:
  "seq_items x = Some xs \<Longrightarrow> getitem_int x i = py_index xs i"
  by (cases x) (auto simp: py_index_def Let_def)

lemma getitem_int_not_seq:
  "seq_items x = None \<Longrightarrow> getitem_int x i = Inl e \<longleftrightarrow> e = (if dict_items x = None then TypeError else KeyError)"
  by (cases x) auto

lemma getitem_int_not_seq_Inl:
  "seq_items x = None \<Longrightarrow> \<exists>e. getitem_int x i = Inl e \<and> (e = KeyError \<or> e = TypeError)"
  by (cases x) auto

lemma getitem_int_error:
  "getitem_int x i = Inl e \<Longrightarrow> e = IndexError \<or> e = KeyError \<or> e = TypeError"
  by (cases x) (auto simp: map_sum_def split: sum.splits dest: py_index_error)

lemma get_link_error:
  "get_link x link = Inl e \<Longrightarrow> e \<in> {IndexError, KeyError, TypeError, ValueError}"
  by (cases "getitem_str x link")
    (auto simp: get_link_def split: option.splits if_splits
      dest!: getitem_int_error getitem_str_error)

lemma get_link_eq_lookup:
  assumes "index_in_range x link"
  shows "get_link x link =
     (case lookup_segment x link of
        Some v \<Rightarrow> Inr v
      | None \<Rightarrow> Inl (if py_int link = None then ValueError
                      else if seq_items x = None \<and> dict_items x = None then TypeError
                      else KeyError))"
proof (cases "getitem_str x link")
  case (Inr v)
  then have "get_link x link = Inr v" by (simp add: get_link_def)
  moreover from Inr have "lookup_segment x link = Some v"
    by (auto simp: lookup_segment_def getitem_str_Inr_iff)
  ultimately show ?thesis by simp
next
  case (Inl e)
  then have e: "caught [KeyError, TypeError] e"
    by (auto dest: getitem_str_error)
  from Inl have none: "Option.bind (dict_items x) (\<lambda>d. map_of d link) = None"
    by (cases x) (auto simp: dict_get_def split: option.splits)
  show ?thesis
  proof (cases "py_int link")
    case None
    with Inl e none show ?thesis
      by (simp add: get_link_def lookup_segment_def split: option.splits)
  next
    case (Some i)
    show ?thesis
    proof (cases "seq_items x")
      case None
      then have "dict_items x \<noteq> None \<Longrightarrow> getitem_int x i = Inl KeyError"
        and "dict_items x = None \<Longrightarrow> getitem_int x i = Inl TypeError"
        by (cases x; simp)+
      with Inl e none Some None show ?thesis
        by (auto simp: get_link_def lookup_segment_def)
    next
      case (Some xs)
      with assms \<open>py_int link = Some i\<close>
      have "- int (length xs) \<le> i" "i < int (length xs)"
        by (simp_all add: index_in_range_def)
      with Inl e none Some \<open>py_int link = Some i\<close> show ?thesis
        by (simp add: get_link_def lookup_segment_def getitem_int_seq py_index_def Let_def)
    qed
  qed
qed

lemma get_link_caught_or_found:
  "index_in_range x link \<Longrightarrow>
     (\<exists>v. get_link x link = Inr v \<and> lookup_segment x link = Some v) \<or>
     (\<exists>e. get_link x link = Inl e \<and> lookup_segment x link = None \<and>
          caught [KeyError, TypeError, ValueError] e)"
  by (auto simp: get_link_eq_lookup split: option.splits)

section \<open>Whole chains\<close>

lemma follow_chain_error:
  "follow_chain x ls = Inl e \<Longrightarrow> e \<in> {IndexError, KeyError, TypeError, ValueError}"
proof (induction ls arbitrary: x)
  case Nil
  then show ?case by simp
next
  case (Cons link ls)
  show ?case
  proof (cases "get_link x link")
    case (Inl e')
    with Cons.prems show ?thesis by (auto dest: get_link_error)
  next
    case (Inr y)
    with Cons show ?thesis by simp
  qed
qed

lemma follow_chain_append:
  "follow_chain x (ls @ ms) = bind_result (follow_chain x ls) (\<lambda>y. follow_chain y ms)"
  by (induction ls arbitrary: x) (simp_all add: bind_result_assoc)

lemma follow_chain_in_range:
  "chain_in_range x ls \<Longrightarrow>
     (\<exists>v. follow_chain x ls = Inr v \<and> lookup_path x ls = Some v) \<or>
     (\<exists>e. follow_chain x ls = Inl e \<and> lookup_path x ls = None \<and>
          caught [KeyError, TypeError, ValueError] e)"
proof (induction ls arbitrary: x)
  case Nil
  then show ?case by simp
next
  case (Cons link ls)
  then have r: "index_in_range x link" by simp
  from get_link_caught_or_found [OF r] show ?case
  proof (elim disjE exE conjE)
    fix v assume v: "get_link x link = Inr v" "lookup_segment x link = Some v"
    with Cons.prems have "chain_in_range v ls" by simp
    from Cons.IH [OF this] v show ?thesis by simp
  next
    fix e assume "get_link x link = Inl e" "lookup_segment x link = None"
      "caught [KeyError, TypeError, ValueError] e"
    then show ?thesis by simp
  qed
qed

lemma get_deep_by_chain_error:
  "get_deep_by_chain x c dflt = Inl e \<Longrightarrow> e = IndexError"
  by (cases "follow_chain x (links c)")
    (auto simp: get_deep_by_chain_def split: if_splits dest!: follow_chain_error)

lemma get_deep_refines_lookup_path_aux:
  assumes "s \<noteq> []" and "chain_in_range x (split_on CHR ''.'' s)"
  shows "\<exists>v. get_deep x (PathStr s) dflt = Inr v"
proof -
  have ne: "ChainList (split_on CHR ''.'' s) \<noteq> ChainList []" by simp
  from follow_chain_in_range [OF assms(2)] show ?thesis
    using assms(1) ne by (auto simp: get_deep_def get_deep_by_chain_def)
qed

lemma get_link_out_of_range:
  assumes "seq_items y = Some xs" and "py_int seg = Some i"
    and "\<not> (- int (length xs) \<le> i \<and> i < int (length xs))"
  shows "get_link y seg = Inl IndexError"
proof -
  from assms(1) have "getitem_str y seg = Inl TypeError"
    by (cases y) simp_all
  moreover from assms have "getitem_int y i = Inl IndexError"
    by (auto simp: getitem_int_seq py_index_def Let_def)
  ultimately show ?thesis
    using assms(2) by (simp add: get_link_def)
qed

lemmas get_deep_eval =
  get_deep_def get_deep_by_chain_def get_link_def dict_get_def py_index_def
  py_int_def py_strip_def split_sign_def is_space_def is_digit_def digits_value_def
  lookup_segment_def index_in_range_def

section \<open>Properties of the accessor\<close>

text \<open>
  C2: \<^verbatim>\<open>DictUtils.get_deep\<close> refines the contract: on a dotted path whose integer
  segments stay within the sequences they index, it returns the value \<open>lookup_path\<close>
  finds, and the default where \<open>lookup_path\<close> finds none.
\<close>

theorem get_deep_refines_lookup_path:
  assumes "s \<noteq> []" and "chain_in_range x (split_on CHR ''.'' s)"
  shows "get_deep x (PathStr s) dflt =
     Inr (case lookup_path x (split_on CHR ''.'' s) of Some v \<Rightarrow> v | None \<Rightarrow> dflt)"
proof -
  have ne: "ChainList (split_on CHR ''.'' s) \<noteq> ChainList []" by simp
  from follow_chain_in_range [OF assms(2)] show ?thesis
    using assms(1) ne by (auto simp: get_deep_def get_deep_by_chain_def)
qed

theorem get_deep_refines_lookup_path_witness:
  "get_deep (PDict [(''a'', PDict [(''b'', PList [PInt 10, PInt 20, PInt 30])])])
     (PathStr ''a.b.1'') PNone = Inr (PInt 20)"
  using get_deep_refines_lookup_path
    [of "''a.b.1''" "PDict [(''a'', PDict [(''b'', PList [PInt 10, PInt 20, PInt 30])])]" PNone]
  by (simp add: get_deep_eval)

text \<open>
  C9: the exception that does leave \<^verbatim>\<open>_get_deep_by_chain\<close>: when the traversal has
  reached a sequence and the next link is an integer outside its range, the call
  raises \<^verbatim>\<open>IndexError\<close>, whatever the default and whatever links follow.
\<close>

theorem get_deep_by_chain_index_error:
  assumes "follow_chain x ls = Inr y" and "seq_items y = Some xs"
    and "py_int seg = Some i"
    and "\<not> (- int (length xs) \<le> i \<and> i < int (length xs))"
  shows "get_deep_by_chain x (ChainList (ls @ seg # ms)) dflt = Inl IndexError"
proof -
  have "follow_chain x (ls @ seg # ms) = Inl IndexError"
    using assms by (simp add: follow_chain_append get_link_out_of_range)
  then show ?thesis by (simp add: get_deep_by_chain_def)
qed

theorem get_deep_by_chain_index_error_witness:
  "get_deep_by_chain (PDict [(''a'', PList [PInt 1])]) (ChainList ([''a''] @ ''5'' # [])) PNone
     = Inl IndexError"
  using get_deep_by_chain_index_error
    [of "PDict [(''a'', PList [PInt 1])]" "[''a'']" "PList [PInt 1]" "[PInt 1]" "''5''" 5 "[]" PNone]
  by (simp add: get_deep_eval)

text \<open>
  C22: with a dotted string path, \<^verbatim>\<open>IndexError\<close> is the only exception
  \<^verbatim>\<open>DictUtils.get_deep\<close> can raise.
\<close>

theorem get_deep_raises_only_IndexError:
  "get_deep x (PathStr s) dflt = Inl e \<Longrightarrow> e = IndexError"
  by (auto simp: get_deep_def split: if_splits dest: get_deep_by_chain_error)

theorem get_deep_raises_only_IndexError_witness:
  "get_deep (PDict [(''a'', PList [PInt 1])]) (PathStr ''a.5'') PNone = Inl IndexError
   \<and> IndexError = IndexError"
  using get_deep_raises_only_IndexError
    [of "PDict [(''a'', PList [PInt 1])]" "''a.5''" PNone IndexError]
  by (simp add: get_deep_eval)

text \<open>
  C39: a path none of whose segments reads as an integer never raises: such a call
  of \<^verbatim>\<open>DictUtils.get_deep\<close> returns a value or the default.
\<close>

theorem get_deep_total_without_indices:
  assumes "list_all (\<lambda>seg. py_int seg = None) (split_on CHR ''.'' s)"
  shows "\<exists>v. get_deep x (PathStr s) dflt = Inr v"
proof (cases "s = []")
  case True
  then show ?thesis by (simp add: get_deep_def get_deep_by_chain_def)
next
  case False
  have "list_all (\<lambda>seg. py_int seg = None) segs \<Longrightarrow> chain_in_range y segs" for y segs
    by (induction segs arbitrary: y) (auto simp: index_in_range_def split: option.splits)
  from this [OF assms] get_deep_refines_lookup_path_aux [OF False] show ?thesis by blast
qed

theorem get_deep_total_without_indices_witness:
  "\<exists>v. get_deep (PDict [(''a'', PInt 1)]) (PathStr ''a.b'') PNone = Inr v"
  using get_deep_total_without_indices [of "''a.b''" "PDict [(''a'', PInt 1)]" PNone]
  by (simp add: get_deep_eval)

text \<open>
  C40: the empty paths. The empty string and the empty list give the default; the
  empty tuple and the empty set are not equal to \<^verbatim>\<open>[]\<close>, the loop runs zero times,
  and \<^verbatim>\<open>DictUtils.get_deep\<close> returns the container itself.
\<close>

theorem get_deep_empty_paths:
  "(get_deep x (PathStr []) dflt = Inr dflt)
   \<and> (get_deep x (PathSeq (ChainList [])) dflt = Inr dflt)
   \<and> (get_deep x (PathSeq (ChainTuple [])) dflt = Inr x)
   \<and> (get_deep x (PathSeq (ChainSet [])) dflt = Inr x)"
  by (simp add: get_deep_def get_deep_by_chain_def)

text \<open>
  C30: a dotted path is read back as the keys it was written from. For keys without
  a dot, of which there is at least one and not just the empty key,
  \<^verbatim>\<open>_link_path_to_chain\<close> of the keys joined with dots is the list of the keys, and
  \<^verbatim>\<open>DictUtils.get_deep\<close> finds the same under the string as under the list.
\<close>

theorem link_path_round_trip:
  assumes "ls \<noteq> []" and "ls \<noteq> [[]]" and "\<forall>l \<in> set ls. CHR ''.'' \<notin> set l"
  shows "link_path_to_chain (PathStr (join_with CHR ''.'' ls)) = Inr (ChainList ls)
     \<and> get_deep x (PathStr (join_with CHR ''.'' ls)) dflt = get_deep x (PathSeq (ChainList ls)) dflt"
proof -
  from assms(1,2) have "join_with CHR ''.'' ls \<noteq> []"
    by (cases "(CHR ''.'', ls)" rule: join_with.cases) auto
  with split_on_join [OF assms(1), of "CHR ''.''"] assms(3) show ?thesis
    by (simp add: get_deep_def)
qed

theorem link_path_round_trip_witness:
  "link_path_to_chain (PathStr ''SessionItems.CustomListItems'')
     = Inr (ChainList [''SessionItems'', ''CustomListItems''])
   \<and> get_deep (PDict [(''SessionItems'', PDict [(''CustomListItems'', PList [PInt 1])])])
       (PathStr ''SessionItems.CustomListItems'') (PList [])
     = get_deep (PDict [(''SessionItems'', PDict [(''CustomListItems'', PList [PInt 1])])])
         (PathSeq (ChainList [''SessionItems'', ''CustomListItems''])) (PList [])"
  using link_path_round_trip [of "[''SessionItems'', ''CustomListItems'']"
      "PDict [(''SessionItems'', PDict [(''CustomListItems'', PList [PInt 1])])]" "PList []"]
  by simp

text \<open>
  The documented examples of the accessor: an index into a nested list, and a
  key looked up in a number, which gives the default without an exception.
\<close>

theorem get_deep_examples:
  "get_deep (PDict [(''a'', PDict [(''b'', PList [PInt 10, PInt 20, PInt 30])])])
     (PathStr ''a.b.-1'') PNone = Inr (PInt 30)"
  "get_deep (PDict [(''a'', PInt 1)]) (PathStr ''a.b'') PNone = Inr PNone"
  "get_deep (PDict [(''a'', PStr ''xyz'')]) (PathStr ''a.1'') PNone = Inr (PStr ''y'')"
  "get_deep (PDict []) PathOther PNone = Inl AttributeError"
  by (simp_all add: get_deep_eval)

end
