(* ===== verification/Logger.thy ===== *)
theory Logger
  imports PyValue
begin

text \<open>
  Class \<^verbatim>\<open>Logger\<close> of \<^verbatim>\<open>src/osxcollector/osxcollector.py\<close> and its context manager
  \<^verbatim>\<open>Logger.Extra\<close>. The class attributes \<^verbatim>\<open>output_file\<close>, \<^verbatim>\<open>lines_written\<close> and
  \<^verbatim>\<open>Extra.extras\<close>, the global \<^verbatim>\<open>DEBUG_MODE\<close> and the standard error stream form one
  state record; each class method is a function from states to outcomes. The output
  file is a sink that records what was written and can refuse a call, so that the
  \<^verbatim>\<open>except\<close> branch of \<^verbatim>\<open>log_dict\<close> is reachable in the model as it is in the code.
\<close>

section \<open>The output file\<close>

text \<open>
  \<open>written\<close> is the text accepted so far, \<open>ops\<close> counts the calls of \<^verbatim>\<open>write\<close> and
  \<^verbatim>\<open>flush\<close>, and \<open>fails n\<close> tells whether call number \<open>n\<close> raises \<^verbatim>\<open>IOError\<close> (a full
  disk is \<open>\<lambda>n. True\<close>, a healthy file \<open>\<lambda>n. False\<close>).
\<close>

record sink =
  written :: string
  ops :: nat
  fails :: "nat \<Rightarrow> bool"

definition sink_write :: "string \<Rightarrow> sink \<Rightarrow> sink outcome" where
  "sink_write text s =
     (if fails s (ops s) then (Some IOError, s\<lparr>ops := Suc (ops s)\<rparr>)
      else (None, s\<lparr>written := written s @ text, ops := Suc (ops s)\<rparr>))"

definition sink_flush :: "sink \<Rightarrow> sink outcome" where
  "sink_flush s =
     (if fails s (ops s) then (Some IOError, s\<lparr>ops := Suc (ops s)\<rparr>)
      else (None, s\<lparr>ops := Suc (ops s)\<rparr>))"

section \<open>The state of the logger\<close>

text \<open>
  What is written to standard error, as events: the two kinds of diagnostic lines
  with the message and the extras they print, the echo of a new extra in debug
  mode, the report of the outer handler of \<^verbatim>\<open>_normalize_val\<close>, and the last words of
  \<^verbatim>\<open>main\<close> with the number of lines and the incident.
\<close>

datatype stderr_event =
    WarnLine string "pyval pydict"
  | ErrorLine string "pyval pydict"
  | DebugEcho string
  | NormalizeError py_error
  | Summary nat string

record logger =
  output_file :: sink
  lines_written :: nat
  extras :: "pyval pydict"
  stderr :: "stderr_event list"
  debug_mode :: bool

definition newline :: string where
  "newline = [CHR 0x0A]"

definition set_output_file :: "sink \<Rightarrow> logger \<Rightarrow> logger" where
  "set_output_file f L = L\<lparr>output_file := f\<rparr>"

section \<open>Writing a record\<close>

text \<open>
  \<^verbatim>\<open>record.update(Logger.Extra.extras)\<close>: the record that is written is the caller's
  with every extra laid over it.
\<close>

definition merged_record :: "pyval pydict \<Rightarrow> logger \<Rightarrow> pyval pydict" where
  "merged_record r L = AList.merge r (extras L)"

text \<open>
  The body of the \<^verbatim>\<open>try\<close> in \<^verbatim>\<open>log_dict\<close> up to the counter: \<^verbatim>\<open>dumps\<close>, two writes and
  a flush, each of which can raise.
\<close>

definition write_line :: "pylib \<Rightarrow> pyval pydict \<Rightarrow> sink \<Rightarrow> sink outcome" where
  "write_line lib r s =
     (case dumps lib r of
        Inl e \<Rightarrow> (Some e, s)
      | Inr text \<Rightarrow>
          (case sink_write text s of
             (Some e, s1) \<Rightarrow> (Some e, s1)
           | (None, s1) \<Rightarrow>
               (case sink_write newline s1 of
                  (Some e, s2) \<Rightarrow> (Some e, s2)
                | (None, s2) \<Rightarrow> sink_flush s2)))"

text \<open>
  \<^verbatim>\<open>log_dict\<close>, \<^verbatim>\<open>log_exception\<close> and \<^verbatim>\<open>log_error\<close> call each other: a record that cannot
  be written is reported by \<^verbatim>\<open>log_exception\<close>, which calls \<^verbatim>\<open>log_error\<close>, which calls
  \<^verbatim>\<open>log_dict\<close> with an error record. Nothing in the code bounds this recursion, the
  interpreter does: the first argument is the number of stack frames left, and a
  call with none left raises \<^verbatim>\<open>RuntimeError\<close> (maximum recursion depth exceeded).
  \<^verbatim>\<open>record.update\<close> is outside the \<^verbatim>\<open>try\<close>, so a record that is no mapping raises
  \<^verbatim>\<open>AttributeError\<close> to the caller.
\<close>

fun log_dict :: "pylib \<Rightarrow> nat \<Rightarrow> pyval \<Rightarrow> logger \<Rightarrow> logger outcome"
  and log_exception :: "pylib \<Rightarrow> nat \<Rightarrow> py_error \<Rightarrow> string \<Rightarrow> logger \<Rightarrow> logger outcome"
  and log_error :: "pylib \<Rightarrow> nat \<Rightarrow> string \<Rightarrow> logger \<Rightarrow> logger outcome"
where
  "log_dict lib 0 v L = (Some RuntimeError, L)"
| "log_dict lib (Suc n) v L =
     (case dict_items v of
        None \<Rightarrow> (Some AttributeError, L)
      | Some r \<Rightarrow>
          (case write_line lib (merged_record r L) (output_file L) of
             (None, s) \<Rightarrow> (None, L\<lparr>output_file := s, lines_written := Suc (lines_written L)\<rparr>)
           | (Some e, s) \<Rightarrow> log_exception lib n e [] (L\<lparr>output_file := s\<rparr>)))"
| "log_exception lib 0 e message L = (Some RuntimeError, L)"
| "log_exception lib (Suc n) e message L = log_error lib n (format_exception lib message e) L"
| "log_error lib 0 message L = (Some RuntimeError, L)"
| "log_error lib (Suc n) message L =
     (case log_dict lib n (PDict [(''osxcollector_error'', PStr message)]) L of
        (None, L') \<Rightarrow> (None, L'\<lparr>stderr := stderr L' @ [ErrorLine message (extras L')]\<rparr>)
      | (Some e, L') \<Rightarrow> (Some e, L'))"

definition log_warning :: "pylib \<Rightarrow> nat \<Rightarrow> string \<Rightarrow> logger \<Rightarrow> logger outcome" where
  "log_warning lib n message L =
     (case n of
        0 \<Rightarrow> (Some RuntimeError, L)
      | Suc m \<Rightarrow>
          (case log_dict lib m (PDict [(''osxcollector_warn'', PStr message)]) L of
             (None, L') \<Rightarrow>
               (None, if debug_mode L'
                      then L'\<lparr>stderr := stderr L' @ [WarnLine message (extras L')]\<rparr> else L')
           | (Some e, L') \<Rightarrow> (Some e, L')))"

section \<open>The context manager\<close>

text \<open>
  \<^verbatim>\<open>Extra.__enter__\<close> stores the value under the key and, in debug mode, echoes it
  through \<^verbatim>\<open>dumps\<close>, which can raise after the store. \<^verbatim>\<open>Extra.__exit__\<close> deletes the
  key and raises \<^verbatim>\<open>KeyError\<close> when it is not there.
\<close>

definition extra_enter :: "pylib \<Rightarrow> string \<Rightarrow> pyval \<Rightarrow> logger \<Rightarrow> logger outcome" where
  "extra_enter lib key val L =
     (let L1 = L\<lparr>extras := AList.update key val (extras L)\<rparr>
      in if debug_mode L1 then
           (case dumps lib [(key, val)] of
              Inl e \<Rightarrow> (Some e, L1)
            | Inr text \<Rightarrow> (None, L1\<lparr>stderr := stderr L1 @ [DebugEcho text, DebugEcho newline]\<rparr>))
         else (None, L1))"

definition extra_exit :: "string \<Rightarrow> logger \<Rightarrow> logger outcome" where
  "extra_exit key L =
     (if key \<in> fst ` set (extras L) then (None, L\<lparr>extras := AList.delete key (extras L)\<rparr>)
      else (Some KeyError, L))"

text \<open>
  \<^verbatim>\<open>with Logger.Extra(key, val): body\<close>. When \<^verbatim>\<open>__enter__\<close> raises, neither the body nor
  \<^verbatim>\<open>__exit__\<close> runs. Otherwise \<^verbatim>\<open>__exit__\<close> runs however the body ended; it returns
  \<^verbatim>\<open>None\<close>, so an exception of the body propagates, unless \<^verbatim>\<open>__exit__\<close> itself raises.
\<close>

definition with_extra ::
  "pylib \<Rightarrow> string \<Rightarrow> pyval \<Rightarrow> (logger \<Rightarrow> logger outcome) \<Rightarrow> logger \<Rightarrow> logger outcome" where
  "with_extra lib key val body L =
     (case extra_enter lib key val L of
        (Some e, L1) \<Rightarrow> (Some e, L1)
      | (None, L1) \<Rightarrow>
          (case body L1 of
             (r, L2) \<Rightarrow>
               (case extra_exit key L2 of
                  (Some e, L3) \<Rightarrow> (Some e, L3)
                | (None, L3) \<Rightarrow> (r, L3))))"

section \<open>Conditions on the environment\<close>

text \<open>
  A healthy output file accepts every call, a broken one (a full disk, a closed file)
  refuses every call. \<^verbatim>\<open>json.dumps\<close> without \<^verbatim>\<open>indent\<close> escapes line breaks, which
  \<open>one_line_dumps\<close> states of the parameter.
\<close>

definition healthy :: "sink \<Rightarrow> bool" where
  "healthy s \<longleftrightarrow> (\<forall>k. \<not> fails s k)"

definition broken :: "sink \<Rightarrow> bool" where
  "broken s \<longleftrightarrow> (\<forall>k. fails s k)"

definition one_line_dumps :: "pylib \<Rightarrow> bool" where
  "one_line_dumps lib \<longleftrightarrow> (\<forall>r out. dumps lib r = Inr out \<longrightarrow> CHR 0x0A \<notin> set out)"

definition newline_count :: "string \<Rightarrow> nat" where
  "newline_count s = count_list s (CHR 0x0A)"

text \<open>An initial state, for concrete runs.\<close>

definition demo_logger :: logger where
  "demo_logger =
     \<lparr>output_file = \<lparr>written = [], ops = 0, fails = (\<lambda>n. False)\<rparr>,
      lines_written = 0, extras = [], stderr = [], debug_mode = False\<rparr>"

section \<open>The contract of the context stack\<close>

text \<open>
  What the scoped annotations promise: every key has a stack of values, a push
  shadows, a release restores the layer below, and a record shows the top of every
  stack that is not empty.
\<close>

datatype ctx_event = Enter string pyval | Exit string

type_synonym ctx_stacks = "string \<Rightarrow> pyval list"

fun ctx_step :: "ctx_stacks \<Rightarrow> ctx_event \<Rightarrow> ctx_stacks" where
  "ctx_step st (Enter k v) = st(k := v # st k)"
| "ctx_step st (Exit k) = st(k := tl (st k))"

definition ctx_view :: "ctx_stacks \<Rightarrow> string \<Rightarrow> pyval option" where
  "ctx_view st k = (case st k of [] \<Rightarrow> None | v # vs \<Rightarrow> Some v)"

text \<open>
  A run of scope events on the logger, with the code's \<^verbatim>\<open>__enter__\<close> and \<^verbatim>\<open>__exit__\<close>;
  it stops at the first exception.
\<close>

fun run_events :: "pylib \<Rightarrow> ctx_event list \<Rightarrow> logger \<Rightarrow> logger outcome" where
  "run_events lib [] L = (None, L)"
| "run_events lib (Enter k v # evs) L =
     (case extra_enter lib k v L of
        (None, L') \<Rightarrow> run_events lib evs L'
      | (Some e, L') \<Rightarrow> (Some e, L'))"
| "run_events lib (Exit k # evs) L =
     (case extra_exit k L of
        (None, L') \<Rightarrow> run_events lib evs L'
      | (Some e, L') \<Rightarrow> (Some e, L'))"

text \<open>
  \<open>unshadowed st evs\<close>: the events are scoped (a release only of a key that is set)
  and never push a key that is already set.
\<close>

fun unshadowed :: "ctx_stacks \<Rightarrow> ctx_event list \<Rightarrow> bool" where
  "unshadowed st [] = True"
| "unshadowed st (Enter k v # evs) = (st k = [] \<and> unshadowed (ctx_step st (Enter k v)) evs)"
| "unshadowed st (Exit k # evs) = (st k \<noteq> [] \<and> unshadowed (ctx_step st (Exit k)) evs)"

definition flat :: "ctx_stacks \<Rightarrow> bool" where
  "flat st \<longleftrightarrow> (\<forall>k. length (st k) \<le> 1)"

section \<open>Frame lemmas\<close>

named_theorems logger_frame "what an operation of the logger leaves unchanged"

lemma sink_write_frame [logger_frame]:
  "sink_write text s = (r, s') \<Longrightarrow> fails s' = fails s \<and> ops s' = Suc (ops s)"
  by (auto simp: sink_write_def split: if_splits)

lemma sink_flush_frame [logger_frame]:
  "sink_flush s = (r, s') \<Longrightarrow> fails s' = fails s \<and> ops s' = Suc (ops s) \<and> written s' = written s"
  by (auto simp: sink_flush_def split: if_splits)

lemma write_line_fails [logger_frame]:
  "write_line lib r s = (res, s') \<Longrightarrow> fails s' = fails s"
  by (auto simp: write_line_def split: sum.splits prod.splits option.splits
      dest!: sink_write_frame sink_flush_frame)

lemma log_frame:
  "log_dict lib n v L = (r, L') \<Longrightarrow>
     extras L' = extras L \<and> debug_mode L' = debug_mode L \<and>
     fails (output_file L') = fails (output_file L)"
  "log_exception lib n e m L = (r, L') \<Longrightarrow>
     extras L' = extras L \<and> debug_mode L' = debug_mode L \<and>
     fails (output_file L') = fails (output_file L)"
  "log_error lib n m L = (r, L') \<Longrightarrow>
     extras L' = extras L \<and> debug_mode L' = debug_mode L \<and>
     fails (output_file L') = fails (output_file L)"
proof (induction lib n v L and lib n e m L and lib n m L
    arbitrary: r L' and r L' and r L' rule: log_dict_log_exception_log_error.induct)
  case (2 lib n v L)
  show ?case
  proof (cases "dict_items v")
    case None
    with 2 show ?thesis by auto
  next
    case (Some d)
    obtain res s where w: "write_line lib (merged_record d L) (output_file L) = (res, s)"
      by (cases "write_line lib (merged_record d L) (output_file L)")
    show ?thesis
    proof (cases res)
      case None
      with 2 Some w show ?thesis by (auto dest: write_line_fails)
    next
      case (Some e)
      with "2.prems" \<open>dict_items v = Some d\<close> w
      have "log_exception lib n e [] (L\<lparr>output_file := s\<rparr>) = (r, L')" by simp
      from "2.IH" [OF \<open>dict_items v = Some d\<close> w [symmetric] _ this] Some w show ?thesis
        by (auto dest: write_line_fails)
    qed
  qed
next
  case (6 lib n m L)
  then show ?case by (auto split: prod.splits option.splits)
qed auto

section \<open>The context stack refines its contract\<close>

text \<open>However a call ends, it has added at most one to the count of lines.\<close>

lemma log_lines_bound:
  "log_dict lib n v L = (r, L') \<Longrightarrow>
     lines_written L \<le> lines_written L' \<and> lines_written L' \<le> Suc (lines_written L)"
  "log_exception lib n e m L = (r, L') \<Longrightarrow>
     lines_written L \<le> lines_written L' \<and> lines_written L' \<le> Suc (lines_written L)"
  "log_error lib n m L = (r, L') \<Longrightarrow>
     lines_written L \<le> lines_written L' \<and> lines_written L' \<le> Suc (lines_written L)"
proof (induction lib n v L and lib n e m L and lib n m L
    arbitrary: r L' and r L' and r L' rule: log_dict_log_exception_log_error.induct)
  case (2 lib n v L)
  show ?case
  proof (cases "dict_items v")
    case None
    with 2 show ?thesis by auto
  next
    case (Some d)
    obtain res s where w: "write_line lib (merged_record d L) (output_file L) = (res, s)"
      by (cases "write_line lib (merged_record d L) (output_file L)")
    show ?thesis
    proof (cases res)
      case None
      with 2 Some w show ?thesis by auto
    next
      case (Some e)
      with "2.prems" \<open>dict_items v = Some d\<close> w
      have "log_exception lib n e [] (L\<lparr>output_file := s\<rparr>) = (r, L')" by simp
      from "2.IH" [OF \<open>dict_items v = Some d\<close> w [symmetric] _ this] Some show ?thesis by simp
    qed
  qed
next
  case (6 lib n m L)
  then show ?case by (auto split: prod.splits option.splits)
qed auto

lemma extra_enter_plain:
  "\<not> debug_mode L \<Longrightarrow> extra_enter lib k v L = (None, L\<lparr>extras := AList.update k v (extras L)\<rparr>)"
  by (simp add: extra_enter_def)

lemma ctx_view_push: "ctx_view (st(k := v # st k)) = (ctx_view st)(k \<mapsto> v)"
  by (auto simp: ctx_view_def fun_eq_iff)

lemma ctx_view_release_flat:
  "length (st k) \<le> 1 \<Longrightarrow> ctx_view (st(k := tl (st k))) = (ctx_view st)(k := None)"
  by (cases "st k") (auto simp: ctx_view_def fun_eq_iff)

lemma ctx_view_dom: "ctx_view st k = None \<longleftrightarrow> st k = []"
  by (simp add: ctx_view_def split: list.splits)

lemma flat_step:
  "flat st \<Longrightarrow> unshadowed st (ev # evs) \<Longrightarrow> flat (ctx_step st ev)"
  by (cases ev) (auto simp: flat_def)

lemma unshadowed_tail: "unshadowed st (ev # evs) \<Longrightarrow> unshadowed (ctx_step st ev) evs"
  by (cases ev) auto

lemma run_events_step_refines:
  assumes "\<not> debug_mode L" and "map_of (extras L) = ctx_view st"
    and "flat st" and "unshadowed st (ev # evs)"
  shows "\<exists>L1. run_events lib (ev # evs) L = run_events lib evs L1 \<and> \<not> debug_mode L1 \<and>
     map_of (extras L1) = ctx_view (ctx_step st ev)"
proof (cases ev)
  case (Enter k v)
  let ?L = "L\<lparr>extras := AList.update k v (extras L)\<rparr>"
  have "map_of (extras ?L) = ctx_view (ctx_step st ev)"
    using assms(2) Enter by (simp add: update_conv' ctx_view_push)
  moreover have "run_events lib (ev # evs) L = run_events lib evs ?L"
    using assms(1) Enter by (simp add: extra_enter_plain)
  ultimately show ?thesis using assms(1) by (intro exI [of _ ?L]) simp
next
  case (Exit k)
  let ?L = "L\<lparr>extras := AList.delete k (extras L)\<rparr>"
  from assms(4) Exit have "st k \<noteq> []" by simp
  with assms(2) have dom: "k \<in> fst ` set (extras L)"
    by (metis ctx_view_dom map_of_eq_None_iff)
  from assms(3) have "length (st k) \<le> 1" by (simp add: flat_def)
  then have "map_of (extras ?L) = ctx_view (ctx_step st ev)"
    using assms(2) Exit by (simp add: delete_conv' ctx_view_release_flat)
  moreover have "run_events lib (ev # evs) L = run_events lib evs ?L"
    using dom Exit by (simp add: extra_exit_def)
  ultimately show ?thesis using assms(1) by (intro exI [of _ ?L]) simp
qed

lemma run_events_refines:
  assumes "\<not> debug_mode L" and "map_of (extras L) = ctx_view st"
    and "flat st" and "unshadowed st evs"
  shows "\<exists>L'. run_events lib evs L = (None, L') \<and>
     map_of (extras L') = ctx_view (foldl ctx_step st evs)"
  using assms
proof (induction evs arbitrary: L st)
  case Nil
  then show ?case by simp
next
  case (Cons ev evs)
  from run_events_step_refines [OF Cons.prems, of lib]
  obtain L1 where L1: "run_events lib (ev # evs) L = run_events lib evs L1"
    "\<not> debug_mode L1" "map_of (extras L1) = ctx_view (ctx_step st ev)" by blast
  from Cons.IH [OF L1(2,3) flat_step [OF Cons.prems(3,4)] unshadowed_tail [OF Cons.prems(4)]]
  show ?case using L1(1) by simp
qed

lemma newline_count_append [simp]:
  "newline_count (s @ t) = newline_count s + newline_count t"
  by (simp add: newline_count_def)

lemma newline_count_newline [simp]: "newline_count newline = 1"
  by (simp add: newline_count_def newline_def)

lemma newline_count_0: "CHR 0x0A \<notin> set t \<Longrightarrow> newline_count t = 0"
  by (simp add: newline_count_def)

lemma write_line_ok:
  assumes "dumps lib r = Inr text"
    and "\<not> fails s (ops s)" "\<not> fails s (Suc (ops s))" "\<not> fails s (Suc (Suc (ops s)))"
  shows "write_line lib r s =
     (None, s\<lparr>written := written s @ text @ newline, ops := ops s + 3\<rparr>)"
  using assms by (simp add: write_line_def sink_write_def sink_flush_def)

lemma write_line_dumps_error:
  "dumps lib r = Inl e \<Longrightarrow> write_line lib r s = (Some e, s)"
  by (simp add: write_line_def)

lemma write_line_broken:
  "broken s \<Longrightarrow> \<exists>e s'. write_line lib r s = (Some e, s') \<and> written s' = written s \<and> broken s'"
  by (cases "dumps lib r") (auto simp: write_line_def sink_write_def broken_def)

lemma write_line_healthy:
  assumes "healthy s" and "one_line_dumps lib"
  shows "(\<exists>e. write_line lib r s = (Some e, s)) \<or>
     (\<exists>s'. write_line lib r s = (None, s') \<and> healthy s' \<and>
        newline_count (written s') = Suc (newline_count (written s)))"
proof (cases "dumps lib r")
  case (Inl e)
  then show ?thesis by (simp add: write_line_def)
next
  case (Inr out)
  with assms(2) have "newline_count out = 0"
    by (auto simp: one_line_dumps_def intro: newline_count_0)
  with Inr assms(1) show ?thesis
    by (simp add: write_line_ok healthy_def)
qed

lemma log_broken:
  "broken (output_file L) \<Longrightarrow>
     \<exists>e L'. log_dict lib n v L = (Some e, L') \<and> (dict_items v \<noteq> None \<longrightarrow> e = RuntimeError) \<and>
        lines_written L' = lines_written L \<and> stderr L' = stderr L \<and>
        written (output_file L') = written (output_file L)"
  "broken (output_file L) \<Longrightarrow>
     \<exists>L'. log_exception lib n e m L = (Some RuntimeError, L') \<and>
        lines_written L' = lines_written L \<and> stderr L' = stderr L \<and>
        written (output_file L') = written (output_file L)"
  "broken (output_file L) \<Longrightarrow>
     \<exists>L'. log_error lib n m L = (Some RuntimeError, L') \<and>
        lines_written L' = lines_written L \<and> stderr L' = stderr L \<and>
        written (output_file L') = written (output_file L)"
proof (induction lib n v L and lib n e m L and lib n m L
    rule: log_dict_log_exception_log_error.induct)
  case (2 lib n v L)
  show ?case
  proof (cases "dict_items v")
    case None
    then show ?thesis by simp
  next
    case (Some d)
    from write_line_broken [OF "2.prems"]
    obtain e s where w: "write_line lib (merged_record d L) (output_file L) = (Some e, s)"
      "written s = written (output_file L)" "broken s" by blast
    from "2.IH" [OF Some w(1) [symmetric] refl] w(3)
    obtain L' where "log_exception lib n e [] (L\<lparr>output_file := s\<rparr>) = (Some RuntimeError, L')"
      "lines_written L' = lines_written L" "stderr L' = stderr L"
      "written (output_file L') = written s" by auto
    with Some w show ?thesis by simp
  qed
next
  case (6 lib n m L)
  from "6.IH" [OF "6.prems"] show ?case by auto
qed simp_all

lemma log_counts_lines:
  "healthy (output_file L) \<Longrightarrow> one_line_dumps lib \<Longrightarrow> log_dict lib n v L = (r, L') \<Longrightarrow>
     healthy (output_file L') \<and>
     lines_written L' + newline_count (written (output_file L)) =
     lines_written L + newline_count (written (output_file L'))"
  "healthy (output_file L) \<Longrightarrow> one_line_dumps lib \<Longrightarrow> log_exception lib n e m L = (r, L') \<Longrightarrow>
     healthy (output_file L') \<and>
     lines_written L' + newline_count (written (output_file L)) =
     lines_written L + newline_count (written (output_file L'))"
  "healthy (output_file L) \<Longrightarrow> one_line_dumps lib \<Longrightarrow> log_error lib n m L = (r, L') \<Longrightarrow>
     healthy (output_file L') \<and>
     lines_written L' + newline_count (written (output_file L)) =
     lines_written L + newline_count (written (output_file L'))"
proof (induction lib n v L and lib n e m L and lib n m L
    arbitrary: r L' and r L' and r L' rule: log_dict_log_exception_log_error.induct)
  case (2 lib n v L)
  show ?case
  proof (cases "dict_items v")
    case None
    with 2 show ?thesis by auto
  next
    case (Some d)
    from write_line_healthy [OF "2.prems"(1,2), of "merged_record d L"]
    show ?thesis
    proof (elim disjE exE conjE)
      fix e assume w: "write_line lib (merged_record d L) (output_file L) = (Some e, output_file L)"
      with "2.prems" Some have "log_exception lib n e [] L = (r, L')" by simp
      with "2.IH" [OF Some w [symmetric] refl, of r L'] "2.prems"(1,2) show ?thesis by simp
    next
      fix s' assume "write_line lib (merged_record d L) (output_file L) = (None, s')"
        "healthy s'" "newline_count (written s') = Suc (newline_count (written (output_file L)))"
      with "2.prems" Some show ?thesis by auto
    qed
  qed
next
  case (6 lib n m L)
  obtain r1 L1 where l: "log_dict lib n (PDict [(''osxcollector_error'', PStr m)]) L = (r1, L1)"
    by (cases "log_dict lib n (PDict [(''osxcollector_error'', PStr m)]) L")
  from "6.IH" [OF "6.prems"(1,2) l] "6.prems"(3) l show ?case
    by (cases r1) auto
qed auto

text \<open>
  Reporting an exception takes three stack frames and one line, when \<^verbatim>\<open>dumps\<close> accepts
  the error record and the file accepts the calls.
\<close>

lemma log_exception_ok:
  assumes "dumps lib (merged_record [(''osxcollector_error'', PStr (format_exception lib m e))] L) = Inr out"
    and "healthy (output_file L)"
  shows "log_exception lib (Suc (Suc (Suc n))) e m L =
     (None, L\<lparr>output_file := (output_file L)\<lparr>written := written (output_file L) @ out @ newline,
                                               ops := ops (output_file L) + 3\<rparr>,
               lines_written := Suc (lines_written L),
               stderr := stderr L @ [ErrorLine (format_exception lib m e) (extras L)]\<rparr>)"
  using assms by (simp add: write_line_ok healthy_def)

lemma with_extra_plain:
  assumes "\<not> debug_mode L" and "key \<notin> fst ` set (extras L)"
    and "body (L\<lparr>extras := AList.update key val (extras L)\<rparr>) = (r, L2)"
    and "extras L2 = AList.update key val (extras L)"
  shows "with_extra lib key val body L = (r, L2\<lparr>extras := extras L\<rparr>)"
  using assms
  by (simp add: with_extra_def extra_enter_plain extra_exit_def dom_update delete_update_same)

lemma one_line_dumps_demo: "one_line_dumps demo_lib"
  by (auto simp: one_line_dumps_def demo_lib_def split: if_splits)

section \<open>Properties of the logger\<close>

lemmas logger_eval =
  demo_lib_def demo_logger_def merged_record_def write_line_def sink_write_def sink_flush_def
  extra_enter_def extra_exit_def with_extra_def is_ascii_def newline_def

text \<open>
  C1: from an empty context and outside debug mode, a run of scope events that never
  pushes a key that is already set raises nothing, and the extras a record is merged
  with are then exactly the tops of the contract's stacks.
\<close>

theorem extras_refine_context_stack:
  assumes "\<not> debug_mode L" and "extras L = []" and "unshadowed (\<lambda>k. []) evs"
  shows "\<exists>L'. run_events lib evs L = (None, L') \<and>
     map_of (extras L') = ctx_view (foldl ctx_step (\<lambda>k. []) evs)"
proof (rule run_events_refines [OF assms(1) _ _ assms(3)])
  show "map_of (extras L) = ctx_view (\<lambda>k. [])"
    using assms(2) by (simp add: ctx_view_def fun_eq_iff)
  show "flat (\<lambda>k. [])" by (simp add: flat_def)
qed

theorem extras_refine_context_stack_witness:
  "\<exists>L'. run_events demo_lib
       [Enter ''section'' (PStr ''chrome''), Enter ''user'' (PStr ''alice''), Exit ''user'']
       demo_logger = (None, L') \<and>
     map_of (extras L') ''section'' = Some (PStr ''chrome'') \<and> map_of (extras L') ''user'' = None"
  using extras_refine_context_stack [of demo_logger
      "[Enter ''section'' (PStr ''chrome''), Enter ''user'' (PStr ''alice''), Exit ''user'']" demo_lib]
  by (auto simp: demo_logger_def ctx_view_def)

lemma nested_scopes_extras:
  assumes "\<not> debug_mode L"
  shows "run_events lib [Enter k v, Enter k w, Exit k] L =
     (None, L\<lparr>extras := AList.delete k (extras L)\<rparr>)"
  using assms by (simp add: extra_enter_plain extra_exit_def dom_update delete_notin_dom delete_update_same)

lemma nested_with_extra:
  assumes "\<not> debug_mode L"
    and "body (L\<lparr>extras := AList.update k w (AList.update k v (extras L))\<rparr>) = (r, L2)"
    and "extras L2 = AList.update k w (AList.update k v (extras L))"
  shows "with_extra lib k v (with_extra lib k w body) L =
     (Some KeyError, L2\<lparr>extras := AList.delete k (extras L)\<rparr>)"
  using assms
  by (simp add: with_extra_def extra_enter_plain extra_exit_def dom_update delete_notin_dom delete_update_same
      split: option.split)

text \<open>
  C8: nesting the same key is where \<^verbatim>\<open>Logger.Extra\<close> leaves the contract, for every key,
  every pair of values and every logger outside debug mode. After a push of \<open>v\<close>, a push
  of \<open>w\<close> and one release the contract shows \<open>v\<close> again; the code has deleted the key, so
  the next record carries no value for it, and the release of the outer scope raises
  \<^verbatim>\<open>KeyError\<close>. As nested \<^verbatim>\<open>with\<close> blocks: whatever the body does, return or raise,
  as long as it leaves the extras alone, the outer block ends in \<^verbatim>\<open>KeyError\<close>, which
  replaces an exception of the body.
\<close>

theorem nested_key_is_not_restored:
  assumes "\<not> debug_mode L"
    and "body (L\<lparr>extras := AList.update k w (AList.update k v (extras L))\<rparr>) = (r, L2)"
    and "extras L2 = AList.update k w (AList.update k v (extras L))"
  shows "ctx_view (foldl ctx_step st [Enter k v, Enter k w, Exit k]) k = Some v
     \<and> (\<exists>L'. run_events lib [Enter k v, Enter k w, Exit k] L = (None, L')
            \<and> map_of (extras L') k = None)
     \<and> fst (run_events lib [Enter k v, Enter k w, Exit k, Exit k] L) = Some KeyError
     \<and> with_extra lib k v (with_extra lib k w body) L =
         (Some KeyError, L2\<lparr>extras := AList.delete k (extras L)\<rparr>)"
proof -
  have "ctx_view (foldl ctx_step st [Enter k v, Enter k w, Exit k]) k = Some v"
    by (simp add: ctx_view_def)
  moreover from assms(1) have "map_of (AList.delete k (extras L)) k = None"
    by (simp add: delete_conv')
  moreover from assms(1)
  have "fst (run_events lib [Enter k v, Enter k w, Exit k, Exit k] L) = Some KeyError"
    by (simp add: extra_enter_plain extra_exit_def dom_update delete_notin_dom delete_update_same)
  ultimately show ?thesis
    using nested_scopes_extras [OF assms(1)] nested_with_extra [where body = body and lib = lib, OF assms]
    by simp
qed

theorem nested_key_is_not_restored_witness:
  "ctx_view (foldl ctx_step (\<lambda>k. [])
       [Enter ''user'' (PStr ''alice''), Enter ''user'' (PStr ''bob''), Exit ''user'']) ''user''
     = Some (PStr ''alice'')
   \<and> map_of (extras (snd (run_events demo_lib
       [Enter ''user'' (PStr ''alice''), Enter ''user'' (PStr ''bob''), Exit ''user'']
       demo_logger))) ''user'' = None
   \<and> fst (run_events demo_lib
       [Enter ''user'' (PStr ''alice''), Enter ''user'' (PStr ''bob''), Exit ''user'', Exit ''user'']
       demo_logger) = Some KeyError
   \<and> fst (with_extra demo_lib ''user'' (PStr ''alice'')
       (with_extra demo_lib ''user'' (PStr ''bob'') (\<lambda>L. (Some IOError, L))) demo_logger)
     = Some KeyError"
  using nested_key_is_not_restored [of demo_logger "\<lambda>L. (Some IOError, L)" "''user''"
      "PStr ''bob''" "PStr ''alice''" "Some IOError"
      "demo_logger\<lparr>extras := AList.update ''user'' (PStr ''bob'')
         (AList.update ''user'' (PStr ''alice'') (extras demo_logger))\<rparr>" "\<lambda>k. []" demo_lib]
  by (auto simp: demo_logger_def)

text \<open>
  C21: scoped acquisition. Outside debug mode, for a key that is not set and a body
  that leaves the extras as it found them, \<^verbatim>\<open>with Logger.Extra(key, val)\<close> ends with the
  extras it started with, whether the body returned or raised, and passes the body's
  exception on.
\<close>

theorem with_extra_restores_extras:
  assumes "\<not> debug_mode L" and "key \<notin> fst ` set (extras L)"
    and "body (L\<lparr>extras := AList.update key val (extras L)\<rparr>) = (r, L2)"
    and "extras L2 = AList.update key val (extras L)"
  shows "fst (with_extra lib key val body L) = r \<and>
     extras (snd (with_extra lib key val body L)) = extras L"
  using with_extra_plain [of L key body val r L2 lib] assms by simp

theorem with_extra_restores_extras_witness:
  "fst (with_extra demo_lib ''user'' (PStr ''alice'') (\<lambda>L. (Some ValueError, L)) demo_logger)
     = Some ValueError \<and>
   extras (snd (with_extra demo_lib ''user'' (PStr ''alice'') (\<lambda>L. (Some ValueError, L)) demo_logger))
     = []"
  using with_extra_restores_extras [of demo_logger "''user''" "\<lambda>L. (Some ValueError, L)"
      "PStr ''alice''" "Some ValueError"
      "demo_logger\<lparr>extras := AList.update ''user'' (PStr ''alice'') (extras demo_logger)\<rparr>" demo_lib]
  by (simp add: demo_logger_def)

text \<open>
  C32: in debug mode \<^verbatim>\<open>Extra.__enter__\<close> stores the key before it echoes the pair
  through \<^verbatim>\<open>dumps\<close>. When \<^verbatim>\<open>dumps\<close> raises, the \<^verbatim>\<open>with\<close> statement neither runs its body
  nor \<^verbatim>\<open>__exit__\<close>: the exception leaves with the key still set.
\<close>

theorem with_extra_enter_failure_leaks_key:
  assumes "debug_mode L" and "dumps lib [(key, val)] = Inl e"
  shows "with_extra lib key val body L = (Some e, L\<lparr>extras := AList.update key val (extras L)\<rparr>)"
  using assms by (simp add: with_extra_def extra_enter_def)

theorem with_extra_enter_failure_leaks_key_witness:
  "with_extra demo_lib ''path'' (PBuffer ''x'') (\<lambda>L. (None, L)) (demo_logger\<lparr>debug_mode := True\<rparr>)
     = (Some TypeError, demo_logger\<lparr>debug_mode := True, extras := [(''path'', PBuffer ''x'')]\<rparr>)"
  using with_extra_enter_failure_leaks_key [of "demo_logger\<lparr>debug_mode := True\<rparr>" demo_lib
      "''path''" "PBuffer ''x''" TypeError "\<lambda>L. (None, L)"]
  by (simp add: demo_logger_def demo_lib_def)

text \<open>
  C14: a successful \<^verbatim>\<open>Logger.log_dict\<close>: when \<^verbatim>\<open>dumps\<close> accepts the merged record and
  the file accepts the next three calls, the call returns, exactly the serialised
  record and one line terminator are appended, and \<^verbatim>\<open>lines_written\<close> grows by one.
\<close>

theorem log_dict_writes_one_line:
  assumes "dumps lib (merged_record r L) = Inr out"
    and "\<not> fails (output_file L) (ops (output_file L))"
    and "\<not> fails (output_file L) (Suc (ops (output_file L)))"
    and "\<not> fails (output_file L) (Suc (Suc (ops (output_file L))))"
  shows "log_dict lib (Suc n) (PDict r) L =
     (None, L\<lparr>output_file := (output_file L)\<lparr>written := written (output_file L) @ out @ newline,
                                               ops := ops (output_file L) + 3\<rparr>,
               lines_written := Suc (lines_written L)\<rparr>)"
  using assms by (simp add: write_line_ok)

theorem log_dict_writes_one_line_witness:
  "log_dict demo_lib (Suc 0) (PDict [(''k'', PStr ''v'')])
      (demo_logger\<lparr>extras := [(''phase'', PStr ''x'')]\<rparr>) =
     (None, demo_logger\<lparr>extras := [(''phase'', PStr ''x'')],
        output_file := \<lparr>written = ''{##}'' @ newline, ops = 3, fails = (\<lambda>n. False)\<rparr>,
        lines_written := 1\<rparr>)"
  using log_dict_writes_one_line [of demo_lib "[(''k'', PStr ''v'')]"
      "demo_logger\<lparr>extras := [(''phase'', PStr ''x'')]\<rparr>" "''{##}''" 0]
  by (simp add: demo_lib_def demo_logger_def merged_record_def is_ascii_def)

text \<open>
  The record that is written carries every extra, and an extra wins over a field
  of the caller with the same key.
\<close>

theorem merged_record_overlays_extras:
  "map_of (merged_record r L) k =
     (case map_of (extras L) k of Some v \<Rightarrow> Some v | None \<Rightarrow> map_of r k)"
  by (simp add: merged_record_def merge_conv' map_add_def)

text \<open>
  C27: a record that \<^verbatim>\<open>dumps\<close> refuses is reported, not lost silently: when the error
  record can be written, \<^verbatim>\<open>Logger.log_dict\<close> returns normally, the output gains the
  line of the error record, the counter grows by one, and the message goes to
  standard error. This takes four stack frames.
\<close>

theorem log_dict_reports_failed_record:
  assumes "dumps lib (merged_record r L) = Inl e"
    and "dumps lib (merged_record [(''osxcollector_error'', PStr (format_exception lib [] e))] L)
           = Inr out"
    and "\<not> fails (output_file L) (ops (output_file L))"
    and "\<not> fails (output_file L) (Suc (ops (output_file L)))"
    and "\<not> fails (output_file L) (Suc (Suc (ops (output_file L))))"
  shows "log_dict lib (Suc (Suc (Suc (Suc n)))) (PDict r) L =
     (None, L\<lparr>output_file := (output_file L)\<lparr>written := written (output_file L) @ out @ newline,
                                               ops := ops (output_file L) + 3\<rparr>,
               lines_written := Suc (lines_written L),
               stderr := stderr L @ [ErrorLine (format_exception lib [] e) (extras L)]\<rparr>)"
  using assms by (simp add: write_line_ok write_line_dumps_error)

theorem log_dict_reports_failed_record_witness:
  "log_dict demo_lib (Suc (Suc (Suc (Suc 0)))) (PDict [(''when'', NSDate 0)]) demo_logger =
     (None, demo_logger\<lparr>
        output_file := \<lparr>written = ''{#}'' @ newline, ops = 3, fails = (\<lambda>n. False)\<rparr>,
        lines_written := 1, stderr := [ErrorLine '' failed'' []]\<rparr>)"
  using log_dict_reports_failed_record [of demo_lib "[(''when'', NSDate 0)]" demo_logger
      TypeError "''{#}''" 0]
  by (simp add: demo_lib_def demo_logger_def merged_record_def is_ascii_def)

text \<open>
  C10: a file that refuses every call defeats the logger. \<^verbatim>\<open>log_dict\<close> reports the
  failure through \<^verbatim>\<open>log_exception\<close> and \<^verbatim>\<open>log_error\<close>, which calls \<^verbatim>\<open>log_dict\<close> again,
  and so on until the stack is used up: whatever the number of frames, the call
  raises \<^verbatim>\<open>RuntimeError\<close> to its caller, and nothing is written or counted.
\<close>

theorem log_dict_broken_file_raises:
  assumes "broken (output_file L)"
  shows "\<exists>L'. log_dict lib n (PDict r) L = (Some RuntimeError, L') \<and>
     lines_written L' = lines_written L \<and> stderr L' = stderr L \<and>
     written (output_file L') = written (output_file L)"
  using log_broken(1) [OF assms, of lib n "PDict r"] by auto

theorem log_dict_broken_file_raises_witness:
  "\<exists>L'. log_dict demo_lib 1000 (PDict [(''k'', PStr ''v'')])
       (demo_logger\<lparr>output_file := \<lparr>written = [], ops = 0, fails = (\<lambda>n. True)\<rparr>\<rparr>)
     = (Some RuntimeError, L') \<and> lines_written L' = 0 \<and> written (output_file L') = []"
  using log_dict_broken_file_raises
    [of "demo_logger\<lparr>output_file := \<lparr>written = [], ops = 0, fails = (\<lambda>n. True)\<rparr>\<rparr>"
      demo_lib 1000 "[(''k'', PStr ''v'')]"]
  by (auto simp: broken_def demo_logger_def)

text \<open>
  C28: with a healthy file and a \<^verbatim>\<open>dumps\<close> that emits no line break, \<^verbatim>\<open>lines_written\<close>
  counts lines: however \<^verbatim>\<open>Logger.log_dict\<close> ends, including through its error path,
  the counter has grown by the number of line terminators added to the output.
\<close>

theorem lines_written_counts_newlines:
  assumes "healthy (output_file L)" and "one_line_dumps lib"
  shows "lines_written (snd (log_dict lib n v L)) + newline_count (written (output_file L)) =
     lines_written L + newline_count (written (output_file (snd (log_dict lib n v L))))"
  using log_counts_lines(1) [OF assms, of n v "fst (log_dict lib n v L)" "snd (log_dict lib n v L)"]
  by simp

theorem lines_written_counts_newlines_witness:
  "lines_written (snd (log_dict demo_lib (Suc 0) (PDict [(''k'', PInt 1)]) demo_logger)) + 0 = 0 + 1"
  using lines_written_counts_newlines [of demo_logger demo_lib "Suc 0" "PDict [(''k'', PInt 1)]"]
    one_line_dumps_demo
  by (simp add: healthy_def logger_eval newline_count_def)

text \<open>
  \<^verbatim>\<open>Logger.log_warning\<close> writes the warning record like any record and adds the
  line on standard error in debug mode only.
\<close>

theorem log_warning_writes_record:
  assumes "dumps lib (merged_record [(''osxcollector_warn'', PStr message)] L) = Inr out"
    and "\<not> fails (output_file L) (ops (output_file L))"
    and "\<not> fails (output_file L) (Suc (ops (output_file L)))"
    and "\<not> fails (output_file L) (Suc (Suc (ops (output_file L))))"
  shows "log_warning lib (Suc (Suc n)) message L =
     (None, L\<lparr>output_file := (output_file L)\<lparr>written := written (output_file L) @ out @ newline,
                                               ops := ops (output_file L) + 3\<rparr>,
               lines_written := Suc (lines_written L),
               stderr := stderr L @ (if debug_mode L then [WarnLine message (extras L)] else [])\<rparr>)"
  using assms by (simp add: log_warning_def write_line_ok)

theorem log_warning_writes_record_witness:
  "log_warning demo_lib (Suc (Suc 0)) ''Directory not found'' demo_logger =
     (None, demo_logger\<lparr>
        output_file := \<lparr>written = ''{#}'' @ newline, ops = 3, fails = (\<lambda>n. False)\<rparr>,
        lines_written := 1\<rparr>)"
  using log_warning_writes_record [of demo_lib "''Directory not found''" demo_logger "''{#}''" 0]
  by (simp add: demo_lib_def demo_logger_def merged_record_def is_ascii_def)

text \<open>
  C29: one call of \<^verbatim>\<open>Logger.log_dict\<close> adds at most one to \<^verbatim>\<open>lines_written\<close> and never
  takes from it, for every record, every number of stack frames, every \<^verbatim>\<open>dumps\<close> and
  every pattern of failures of the output file: the calls of \<^verbatim>\<open>log_exception\<close>,
  \<^verbatim>\<open>log_error\<close> and \<^verbatim>\<open>log_dict\<close> that follow a failure end with the first record that
  is written.
\<close>

theorem lines_written_bounds:
  "lines_written L \<le> lines_written (snd (log_dict lib n v L))
   \<and> lines_written (snd (log_dict lib n v L)) \<le> lines_written L + 1"
  using log_lines_bound(1) [of lib n v L "fst (log_dict lib n v L)" "snd (log_dict lib n v L)"]
  by simp

end
