(* ===== verification/Actions.thy ===== *)
theory Actions
  imports Logger
begin

text \<open>
  Statements that act on the logger, and how to reason about their composition. An
  \<open>action\<close> is a statement: it returns the logger after it together with the
  exception it raised, if any. A \<open>comp\<close> is an expression with an effect on the logger:
  it returns a value or raises. The methods of class \<^verbatim>\<open>Collector\<close> are built from the
  operations of \<open>Logger\<close> with sequencing, \<^verbatim>\<open>for\<close> loops, \<^verbatim>\<open>with\<close> blocks and \<^verbatim>\<open>try\<close> blocks;
  for each of these there is one rule for each of three judgements about an
  invariant \<open>I\<close> of the logger:
  \<^item> \<open>keeps I act\<close>: the invariant holds afterwards, whether \<open>act\<close> returns or raises;
  \<^item> \<open>returns I act\<close>: under the invariant \<open>act\<close> returns normally and keeps it;
  \<^item> \<open>writes I k act\<close>: moreover it adds exactly \<open>k\<close> to \<^verbatim>\<open>Logger.lines_written\<close>.
\<close>

section \<open>Actions and their composition\<close>

type_synonym action = "logger \<Rightarrow> logger outcome"

type_synonym 'a comp = "logger \<Rightarrow> 'a result \<times> logger"

text \<open>\<^verbatim>\<open>pass\<close>, \<^verbatim>\<open>raise e\<close>, and one statement after another.\<close>

definition skip :: action where
  "skip L = (None, L)"

definition raise :: "py_error \<Rightarrow> action" where
  "raise e L = (Some e, L)"

definition then_do :: "action \<Rightarrow> action \<Rightarrow> action" where
  "then_do a b L = (case a L of (None, L') \<Rightarrow> b L' | (Some e, L') \<Rightarrow> (Some e, L'))"

text \<open>\<^verbatim>\<open>x = m(); f(x)\<close>, and an expression without effect used where a \<open>comp\<close> is expected.\<close>

definition with_result :: "'a comp \<Rightarrow> ('a \<Rightarrow> action) \<Rightarrow> action" where
  "with_result m f L = (case m L of (Inr x, L') \<Rightarrow> f x L' | (Inl e, L') \<Rightarrow> (Some e, L'))"

definition pure :: "'a result \<Rightarrow> 'a comp" where
  "pure r L = (r, L)"

text \<open>
  \<^verbatim>\<open>y = m(); return f(y)\<close> for expressions, a statement followed by \<^verbatim>\<open>return x\<close>, and
  \<^verbatim>\<open>try: act  except Exception as e: handler(e)\<close>.
\<close>

definition bind_comp :: "'a comp \<Rightarrow> ('a \<Rightarrow> 'b comp) \<Rightarrow> 'b comp" where
  "bind_comp m f L = (case m L of (Inr x, L') \<Rightarrow> f x L' | (Inl e, L') \<Rightarrow> (Inl e, L'))"

definition returning :: "action \<Rightarrow> 'a \<Rightarrow> 'a comp" where
  "returning act x L = (case act L of (None, L') \<Rightarrow> (Inr x, L') | (Some e, L') \<Rightarrow> (Inl e, L'))"

definition try_catch :: "action \<Rightarrow> (py_error \<Rightarrow> action) \<Rightarrow> action" where
  "try_catch act handler L =
     (case act L of (None, L') \<Rightarrow> (None, L') | (Some e, L') \<Rightarrow> handler e L')"

text \<open>
  \<^verbatim>\<open>with Logger.Extra(key, val):\<close> around a body whose value is used afterwards: as
  \<open>with_extra\<close>, with the value of the body handed on when \<^verbatim>\<open>__exit__\<close> returns.
\<close>

definition with_extra_value :: "pylib \<Rightarrow> string \<Rightarrow> pyval \<Rightarrow> 'a comp \<Rightarrow> 'a comp" where
  "with_extra_value lib key val body L =
     (case extra_enter lib key val L of
        (Some e, L1) \<Rightarrow> (Inl e, L1)
      | (None, L1) \<Rightarrow>
          (case body L1 of
             (r, L2) \<Rightarrow>
               (case extra_exit key L2 of
                  (Some e, L3) \<Rightarrow> (Inl e, L3)
                | (None, L3) \<Rightarrow> (r, L3))))"

section \<open>The environment and the invariant\<close>

text \<open>
  \<open>total_dumps\<close> says that \<^verbatim>\<open>dumps\<close> accepts every record. A logger is \<open>steady\<close> at given
  extras when debug mode is off, the output file accepts every call, and its extras
  are the given ones.
\<close>

definition total_dumps :: "pylib \<Rightarrow> bool" where
  "total_dumps lib \<longleftrightarrow> (\<forall>r. \<exists>out. dumps lib r = Inr out)"

definition steady :: "pyval pydict \<Rightarrow> logger \<Rightarrow> bool" where
  "steady ex L \<longleftrightarrow> \<not> debug_mode L \<and> healthy (output_file L) \<and> extras L = ex"

section \<open>Judgements\<close>

definition keeps :: "(logger \<Rightarrow> bool) \<Rightarrow> action \<Rightarrow> bool" where
  "keeps I act \<longleftrightarrow> (\<forall>L r L'. I L \<longrightarrow> act L = (r, L') \<longrightarrow> I L')"

definition returns :: "(logger \<Rightarrow> bool) \<Rightarrow> action \<Rightarrow> bool" where
  "returns I act \<longleftrightarrow> (\<forall>L. I L \<longrightarrow> (\<exists>L'. act L = (None, L') \<and> I L'))"

definition writes :: "(logger \<Rightarrow> bool) \<Rightarrow> nat \<Rightarrow> action \<Rightarrow> bool" where
  "writes I k act \<longleftrightarrow>
     (\<forall>L. I L \<longrightarrow> (\<exists>L'. act L = (None, L') \<and> I L' \<and> lines_written L' = lines_written L + k))"

text \<open>The same for expressions: the logger's invariant is kept, and a value comes back.\<close>

definition keeps_comp :: "(logger \<Rightarrow> bool) \<Rightarrow> 'a comp \<Rightarrow> bool" where
  "keeps_comp I m \<longleftrightarrow> (\<forall>L r L'. I L \<longrightarrow> m L = (r, L') \<longrightarrow> I L')"

definition yields :: "(logger \<Rightarrow> bool) \<Rightarrow> 'a comp \<Rightarrow> bool" where
  "yields I m \<longleftrightarrow> (\<forall>L. I L \<longrightarrow> (\<exists>v L'. m L = (Inr v, L') \<and> I L'))"

section \<open>Rules\<close>

named_theorems keeps_intros "rules that an action keeps an invariant"
named_theorems returns_intros "rules that an action returns normally under an invariant"
named_theorems writes_intros "rules for the number of lines an action writes"

lemma keepsI: "(\<And>L r L'. I L \<Longrightarrow> act L = (r, L') \<Longrightarrow> I L') \<Longrightarrow> keeps I act"
  by (simp add: keeps_def)

lemma keepsD: "keeps I act \<Longrightarrow> I L \<Longrightarrow> act L = (r, L') \<Longrightarrow> I L'"
  by (auto simp: keeps_def)

lemma returnsD: "returns I act \<Longrightarrow> I L \<Longrightarrow> \<exists>L'. act L = (None, L') \<and> I L'"
  by (simp add: returns_def)

lemma writesD:
  "writes I k act \<Longrightarrow> I L \<Longrightarrow>
     \<exists>L'. act L = (None, L') \<and> I L' \<and> lines_written L' = lines_written L + k"
  by (simp add: writes_def)

lemma writes_returns: "writes I k act \<Longrightarrow> returns I act"
  by (fastforce simp: writes_def returns_def)

lemma returns_keeps: "returns I act \<Longrightarrow> keeps I act"
  by (fastforce simp: returns_def keeps_def)

lemma writes_keeps: "writes I k act \<Longrightarrow> keeps I act"
  by (simp add: writes_returns returns_keeps)

lemma yields_keeps_comp: "yields I m \<Longrightarrow> keeps_comp I m"
  by (fastforce simp: yields_def keeps_comp_def)

subsection \<open>Sequencing\<close>

lemma skip_rules [keeps_intros, returns_intros, writes_intros]:
  "keeps I skip" "returns I skip" "writes I 0 skip"
  by (simp_all add: keeps_def returns_def writes_def skip_def)

lemma keeps_raise [keeps_intros]: "keeps I (raise e)"
  by (simp add: keeps_def raise_def)

lemma then_do_None [simp]: "a L = (None, L1) \<Longrightarrow> then_do a b L = b L1"
  by (simp add: then_do_def)

lemma then_do_Some [simp]: "a L = (Some e, L1) \<Longrightarrow> then_do a b L = (Some e, L1)"
  by (simp add: then_do_def)

lemma with_result_Inr [simp]: "m L = (Inr x, L1) \<Longrightarrow> with_result m f L = f x L1"
  by (simp add: with_result_def)

lemma with_result_Inl [simp]: "m L = (Inl e, L1) \<Longrightarrow> with_result m f L = (Some e, L1)"
  by (simp add: with_result_def)

lemma with_result_pure [simp]:
  "with_result (pure (Inr x)) f = f x" "with_result (pure (Inl e)) f = raise e"
  by (rule ext, simp add: with_result_def pure_def raise_def)+

lemma keeps_then_do [keeps_intros]:
  assumes "keeps I a" and "keeps I b"
  shows "keeps I (then_do a b)"
proof (rule keepsI)
  fix L r L' assume I: "I L" and t: "then_do a b L = (r, L')"
  obtain ra L1 where a: "a L = (ra, L1)" by (cases "a L")
  from keepsD [OF assms(1) I a] have I1: "I L1" .
  show "I L'"
  proof (cases ra)
    case None
    with a t have "b L1 = (r, L')" by simp
    from keepsD [OF assms(2) I1 this] show ?thesis .
  next
    case (Some e)
    with a t I1 show ?thesis by simp
  qed
qed

lemma writes_then_do [writes_intros]:
  assumes "writes I j a" and "writes I k b"
  shows "writes I (j + k) (then_do a b)"
  unfolding writes_def
proof (intro allI impI)
  fix L assume "I L"
  from writesD [OF assms(1) this] obtain L1
    where 1: "a L = (None, L1)" "I L1" "lines_written L1 = lines_written L + j" by blast
  from writesD [OF assms(2) 1(2)] obtain L2
    where 2: "b L1 = (None, L2)" "I L2" "lines_written L2 = lines_written L1 + k" by blast
  from 1 2 show "\<exists>L'. then_do a b L = (None, L') \<and> I L' \<and> lines_written L' = lines_written L + (j + k)"
    by simp
qed

lemma returns_then_do [returns_intros]:
  assumes "returns I a" and "returns I b"
  shows "returns I (then_do a b)"
  unfolding returns_def
proof (intro allI impI)
  fix L assume "I L"
  from returnsD [OF assms(1) this] obtain L1 where 1: "a L = (None, L1)" "I L1" by blast
  from returnsD [OF assms(2) 1(2)] 1(1) show "\<exists>L'. then_do a b L = (None, L') \<and> I L'" by simp
qed

lemma keeps_with_result [keeps_intros]:
  assumes "keeps_comp I m" and "\<And>x. keeps I (f x)"
  shows "keeps I (with_result m f)"
proof (rule keepsI)
  fix L r L' assume I: "I L" and t: "with_result m f L = (r, L')"
  obtain rm L1 where m: "m L = (rm, L1)" by (cases "m L")
  with assms(1) I have I1: "I L1" unfolding keeps_comp_def by blast
  show "I L'"
  proof (cases rm)
    case (Inr x)
    with m t have "f x L1 = (r, L')" by simp
    from keepsD [OF assms(2) I1 this] show ?thesis .
  next
    case (Inl e)
    with m t I1 show ?thesis by simp
  qed
qed

lemma returns_with_result [returns_intros]:
  assumes "yields I m" and "\<And>x. returns I (f x)"
  shows "returns I (with_result m f)"
  unfolding returns_def
proof (intro allI impI)
  fix L assume "I L"
  with assms(1) obtain x L1 where 1: "m L = (Inr x, L1)" "I L1" unfolding yields_def by blast
  from returnsD [OF assms(2) 1(2)] 1(1) show "\<exists>L'. with_result m f L = (None, L') \<and> I L'" by simp
qed

lemma pure_rules [keeps_intros, returns_intros]:
  "keeps_comp I (pure r)" "yields I (pure (Inr x))"
  by (simp_all add: keeps_comp_def yields_def pure_def)

lemma keeps_compD: "keeps_comp I m \<Longrightarrow> I L \<Longrightarrow> m L = (r, L') \<Longrightarrow> I L'"
  by (auto simp: keeps_comp_def)

lemma keeps_comp_bind [keeps_intros]:
  assumes "keeps_comp I m" and "\<And>x. keeps_comp I (f x)"
  shows "keeps_comp I (bind_comp m f)"
  unfolding keeps_comp_def
proof (intro allI impI)
  fix L r L' assume I: "I L" and t: "bind_comp m f L = (r, L')"
  obtain rm L1 where m: "m L = (rm, L1)" by (cases "m L")
  from keeps_compD [OF assms(1) I m] have I1: "I L1" .
  show "I L'"
  proof (cases rm)
    case (Inr x)
    with m t have "f x L1 = (r, L')" by (simp add: bind_comp_def)
    from keeps_compD [OF assms(2) I1 this] show ?thesis .
  next
    case (Inl e)
    with m t I1 show ?thesis by (simp add: bind_comp_def)
  qed
qed

lemma keeps_comp_returning [keeps_intros]: "keeps I act \<Longrightarrow> keeps_comp I (returning act x)"
  unfolding keeps_comp_def keeps_def returning_def
  by (auto split: prod.splits option.splits)

lemma yields_returning [returns_intros]: "returns I act \<Longrightarrow> yields I (returning act x)"
  unfolding yields_def returns_def returning_def by fastforce

lemma keeps_try_catch [keeps_intros]:
  assumes "keeps I act" and "\<And>e. keeps I (handler e)"
  shows "keeps I (try_catch act handler)"
proof (rule keepsI)
  fix L r L' assume I: "I L" and t: "try_catch act handler L = (r, L')"
  obtain ra L1 where a: "act L = (ra, L1)" by (cases "act L")
  from keepsD [OF assms(1) I a] have I1: "I L1" .
  show "I L'"
  proof (cases ra)
    case None
    with a t I1 show ?thesis by (simp add: try_catch_def)
  next
    case (Some e)
    with a t have "handler e L1 = (r, L')" by (simp add: try_catch_def)
    from keepsD [OF assms(2) I1 this] show ?thesis .
  qed
qed

text \<open>A \<^verbatim>\<open>try\<close> block whose handler returns normally does so itself, whatever its body does.\<close>

lemma returns_try_catch [returns_intros]:
  assumes "keeps I act" and "\<And>e. returns I (handler e)"
  shows "returns I (try_catch act handler)"
  unfolding returns_def
proof (intro allI impI)
  fix L assume I: "I L"
  obtain ra L1 where a: "act L = (ra, L1)" by (cases "act L")
  from keepsD [OF assms(1) I a] have I1: "I L1" .
  show "\<exists>L'. try_catch act handler L = (None, L') \<and> I L'"
  proof (cases ra)
    case None
    with a I1 show ?thesis by (simp add: try_catch_def)
  next
    case (Some e)
    with a returnsD [OF assms(2) I1, of e] show ?thesis by (simp add: try_catch_def)
  qed
qed

lemma try_catch_raise [simp]: "try_catch (raise e) handler = handler e"
  by (rule ext) (simp add: try_catch_def raise_def)

lemma writes_try_catch [writes_intros]: "writes I k act \<Longrightarrow> writes I k (try_catch act handler)"
  unfolding writes_def try_catch_def by fastforce

text \<open>Loop bodies and continuations that take a pair or a triple apart.\<close>

lemma keeps_case_prod [keeps_intros]:
  "(\<And>a b. p = (a, b) \<Longrightarrow> keeps I (f a b)) \<Longrightarrow> keeps I (case p of (a, b) \<Rightarrow> f a b)"
  by (cases p) simp

lemma returns_case_prod [returns_intros]:
  "(\<And>a b. p = (a, b) \<Longrightarrow> returns I (f a b)) \<Longrightarrow> returns I (case p of (a, b) \<Rightarrow> f a b)"
  by (cases p) simp

lemma writes_case_prod [writes_intros]:
  "(\<And>a b. p = (a, b) \<Longrightarrow> writes I (k a b) (f a b)) \<Longrightarrow>
     writes I (case p of (a, b) \<Rightarrow> k a b) (case p of (a, b) \<Rightarrow> f a b)"
  by (cases p) simp

lemma keeps_case_option [keeps_intros]:
  "(v = None \<Longrightarrow> keeps I a) \<Longrightarrow> (\<And>x. v = Some x \<Longrightarrow> keeps I (f x)) \<Longrightarrow>
     keeps I (case v of None \<Rightarrow> a | Some x \<Rightarrow> f x)"
  by (cases v) simp_all

lemma keeps_case_list [keeps_intros]:
  "(xs = [] \<Longrightarrow> keeps I a) \<Longrightarrow> (\<And>y ys. xs = y # ys \<Longrightarrow> keeps I (f y ys)) \<Longrightarrow>
     keeps I (case xs of [] \<Rightarrow> a | y # ys \<Rightarrow> f y ys)"
  by (cases xs) simp_all

lemma keeps_if [keeps_intros]:
  "(c \<Longrightarrow> keeps I a) \<Longrightarrow> (\<not> c \<Longrightarrow> keeps I b) \<Longrightarrow> keeps I (if c then a else b)"
  by simp

lemma returns_if [returns_intros]:
  "(c \<Longrightarrow> returns I a) \<Longrightarrow> (\<not> c \<Longrightarrow> returns I b) \<Longrightarrow> returns I (if c then a else b)"
  by simp

lemma keeps_if_fun [keeps_intros]:
  "(c \<Longrightarrow> keeps I a) \<Longrightarrow> (\<not> c \<Longrightarrow> keeps I b) \<Longrightarrow> keeps I (\<lambda>L. if c then a L else b L)"
  by (cases c) (simp_all add: keeps_def)

lemma returns_if_fun [returns_intros]:
  "(c \<Longrightarrow> returns I a) \<Longrightarrow> (\<not> c \<Longrightarrow> returns I b) \<Longrightarrow> returns I (\<lambda>L. if c then a L else b L)"
  by (cases c) (simp_all add: returns_def)

lemmas skip_rules_fun [keeps_intros, returns_intros, writes_intros] = skip_rules [unfolded skip_def]

subsection \<open>Loops\<close>

lemma for_each_as_then_do: "for_each body (x # xs) = then_do (body x) (for_each body xs)"
  by (rule ext) (simp add: then_do_def)

lemma for_each_Nil_skip: "for_each body [] = skip"
  by (rule ext) (simp add: skip_def)

lemma keeps_for_each [keeps_intros]:
  assumes "\<And>x. x \<in> set xs \<Longrightarrow> keeps I (body x)"
  shows "keeps I (for_each body xs)"
  using assms
  by (induction xs) (simp_all only: for_each_Nil_skip for_each_as_then_do skip_rules keeps_then_do list.set_intros)

lemma returns_for_each [returns_intros]:
  assumes "\<And>x. x \<in> set xs \<Longrightarrow> returns I (body x)"
  shows "returns I (for_each body xs)"
  using assms
  by (induction xs) (simp_all only: for_each_Nil_skip for_each_as_then_do skip_rules returns_then_do list.set_intros)

lemma writes_for_each [writes_intros]:
  assumes "\<And>x. x \<in> set xs \<Longrightarrow> writes I (k x) (body x)"
  shows "writes I (sum_list (map k xs)) (for_each body xs)"
  using assms
proof (induction xs)
  case Nil
  then show ?case by (simp add: for_each_Nil_skip skip_rules)
next
  case (Cons x xs)
  then have "writes I (k x) (body x)" "writes I (sum_list (map k xs)) (for_each body xs)"
    by simp_all
  then show ?case by (simp add: for_each_as_then_do writes_then_do)
qed

lemma sum_list_ones [simp]: "sum_list (map (\<lambda>x. Suc 0) xs) = length xs"
  by (induction xs) simp_all

text \<open>A loop whose body writes one line for every item.\<close>

lemma writes_for_each_one:
  assumes "\<And>x. x \<in> set xs \<Longrightarrow> writes I 1 (body x)"
  shows "writes I (length xs) (for_each body xs)"
  using writes_for_each [of xs I "\<lambda>x. 1" body] assms by simp

subsection \<open>The operations of the logger\<close>

lemma steady_frame:
  assumes "steady ex L" and "extras L' = extras L" and "debug_mode L' = debug_mode L"
    and "fails (output_file L') = fails (output_file L)"
  shows "steady ex L'"
  using assms by (simp add: steady_def healthy_def)

lemma keeps_log [keeps_intros]:
  "keeps (steady ex) (log_dict lib n v)"
  "keeps (steady ex) (log_exception lib n e m)"
  "keeps (steady ex) (log_error lib n m)"
  by (rule keepsI, drule log_frame, erule steady_frame, simp_all)+

lemma keeps_log_warning [keeps_intros]: "keeps (steady ex) (log_warning lib n m)"
proof (rule keepsI)
  fix L r L' assume s: "steady ex L" and w: "log_warning lib n m L = (r, L')"
  show "steady ex L'"
  proof (cases n)
    case 0
    with w s show ?thesis by (simp add: log_warning_def)
  next
    case (Suc k)
    obtain r1 L1 where d: "log_dict lib k (PDict [(''osxcollector_warn'', PStr m)]) L = (r1, L1)"
      by (cases "log_dict lib k (PDict [(''osxcollector_warn'', PStr m)]) L")
    from keepsD [OF keeps_log(1) s d] have "steady ex L1" .
    with w Suc d show ?thesis
      by (cases r1) (auto simp: log_warning_def steady_def split: if_splits)
  qed
qed

lemma writes_log_dict [writes_intros]:
  assumes "total_dumps lib"
  shows "writes (steady ex) 1 (log_dict lib (Suc n) (PDict r))"
  unfolding writes_def
proof (intro allI impI)
  fix L assume s: "steady ex L"
  from assms obtain out where "dumps lib (merged_record r L) = Inr out"
    unfolding total_dumps_def by blast
  with s show "\<exists>L'. log_dict lib (Suc n) (PDict r) L = (None, L') \<and> steady ex L'
      \<and> lines_written L' = lines_written L + 1"
    by (simp add: write_line_ok steady_def healthy_def)
qed

lemma writes_log_exception [writes_intros]:
  assumes "total_dumps lib"
  shows "writes (steady ex) 1 (log_exception lib (n + 3) e m)"
  unfolding writes_def
proof (intro allI impI)
  fix L assume s: "steady ex L"
  from assms obtain out
    where "dumps lib (merged_record [(''osxcollector_error'', PStr (format_exception lib m e))] L) = Inr out"
    unfolding total_dumps_def by blast
  from log_exception_ok [OF this, of n] s
  show "\<exists>L'. log_exception lib (n + 3) e m L = (None, L') \<and> steady ex L'
      \<and> lines_written L' = lines_written L + 1"
    by (simp add: steady_def healthy_def numeral_3_eq_3)
qed

lemma writes_log_error [writes_intros]:
  assumes "total_dumps lib"
  shows "writes (steady ex) 1 (log_error lib (n + 2) m)"
  unfolding writes_def
proof (intro allI impI)
  fix L assume s: "steady ex L"
  from writesD [OF writes_log_dict [OF assms] s, of n "[(''osxcollector_error'', PStr m)]"]
  show "\<exists>L'. log_error lib (n + 2) m L = (None, L') \<and> steady ex L'
      \<and> lines_written L' = lines_written L + 1"
    by (auto simp: steady_def)
qed

lemma writes_log_warning [writes_intros]:
  assumes "total_dumps lib"
  shows "writes (steady ex) 1 (log_warning lib (n + 2) m)"
  unfolding writes_def
proof (intro allI impI)
  fix L assume s: "steady ex L"
  from writesD [OF writes_log_dict [OF assms] s, of n "[(''osxcollector_warn'', PStr m)]"] s
  show "\<exists>L'. log_warning lib (n + 2) m L = (None, L') \<and> steady ex L'
      \<and> lines_written L' = lines_written L + 1"
    by (auto simp: steady_def log_warning_def)
qed

text \<open>With three stack frames or more, every operation of the logger writes its line.\<close>

lemma writes_log:
  assumes "total_dumps lib"
  shows "writes (steady ex) 1 (log_dict lib (n + 3) (PDict r))"
    and "writes (steady ex) 1 (log_exception lib (n + 3) e m)"
    and "writes (steady ex) 1 (log_error lib (n + 3) m)"
    and "writes (steady ex) 1 (log_warning lib (n + 3) m)"
proof -
  have *: "n + 3 = Suc (n + 2)" "n + 3 = (n + 1) + 2" by simp_all
  show "writes (steady ex) 1 (log_dict lib (n + 3) (PDict r))"
    unfolding *(1) by (rule writes_log_dict [OF assms])
  show "writes (steady ex) 1 (log_exception lib (n + 3) e m)"
    by (rule writes_log_exception [OF assms])
  show "writes (steady ex) 1 (log_error lib (n + 3) m)"
    unfolding *(2) by (rule writes_log_error [OF assms])
  show "writes (steady ex) 1 (log_warning lib (n + 3) m)"
    unfolding *(2) by (rule writes_log_warning [OF assms])
qed

lemmas returns_log [returns_intros] = writes_log [THEN writes_returns]

subsection \<open>The context manager\<close>

lemma with_extra_steady:
  assumes "k \<notin> fst ` set ex" and "steady ex L"
    and "body (L\<lparr>extras := AList.update k v ex\<rparr>) = (r, L2)" and "steady (AList.update k v ex) L2"
  shows "with_extra lib k v body L = (r, L2\<lparr>extras := ex\<rparr>) \<and> steady ex (L2\<lparr>extras := ex\<rparr>)"
proof -
  from assms(1,2) have "\<not> debug_mode L" "k \<notin> fst ` set (extras L)" by (simp_all add: steady_def)
  from with_extra_plain [of L k body v r L2 lib, OF this] assms(2,3,4) show ?thesis
    by (simp add: steady_def)
qed

lemma steady_update: "steady ex L \<Longrightarrow> steady ex' (L\<lparr>extras := ex'\<rparr>)"
  by (simp add: steady_def)

lemma keeps_with_extra [keeps_intros]:
  assumes "k \<notin> fst ` set ex" and "keeps (steady (AList.update k v ex)) body"
  shows "keeps (steady ex) (with_extra lib k v body)"
proof (rule keepsI)
  fix L r L' assume s: "steady ex L" and w: "with_extra lib k v body L = (r, L')"
  obtain r2 L2 where b: "body (L\<lparr>extras := AList.update k v ex\<rparr>) = (r2, L2)"
    by (cases "body (L\<lparr>extras := AList.update k v ex\<rparr>)")
  from keepsD [OF assms(2) steady_update [OF s] b] have "steady (AList.update k v ex) L2" .
  from with_extra_steady [where body = body and lib = lib, OF assms(1) s b this] w show "steady ex L'" by simp
qed

lemma writes_with_extra [writes_intros]:
  assumes "k \<notin> fst ` set ex" and "writes (steady (AList.update k v ex)) j body"
  shows "writes (steady ex) j (with_extra lib k v body)"
  unfolding writes_def
proof (intro allI impI)
  fix L assume s: "steady ex L"
  from writesD [OF assms(2) steady_update [OF s]] obtain L2
    where b: "body (L\<lparr>extras := AList.update k v ex\<rparr>) = (None, L2)"
      and 2: "steady (AList.update k v ex) L2" "lines_written L2 = lines_written L + j"
    by auto
  from with_extra_steady [where body = body and lib = lib, OF assms(1) s b 2(1)] 2(2)
  show "\<exists>L'. with_extra lib k v body L = (None, L') \<and> steady ex L'
      \<and> lines_written L' = lines_written L + j"
    by simp
qed

lemma returns_with_extra [returns_intros]:
  assumes "k \<notin> fst ` set ex" and "returns (steady (AList.update k v ex)) body"
  shows "returns (steady ex) (with_extra lib k v body)"
  unfolding returns_def
proof (intro allI impI)
  fix L assume s: "steady ex L"
  from returnsD [OF assms(2) steady_update [OF s]] obtain L2
    where b: "body (L\<lparr>extras := AList.update k v ex\<rparr>) = (None, L2)"
      and 2: "steady (AList.update k v ex) L2"
    by auto
  from with_extra_steady [where body = body and lib = lib, OF assms(1) s b 2]
  show "\<exists>L'. with_extra lib k v body L = (None, L') \<and> steady ex L'" by simp
qed

lemma keeps_comp_with_extra_value [keeps_intros]:
  assumes "k \<notin> fst ` set ex" and "keeps_comp (steady (AList.update k v ex)) body"
  shows "keeps_comp (steady ex) (with_extra_value lib k v body)"
  unfolding keeps_comp_def
proof (intro allI impI)
  fix L r L' assume s: "steady ex L" and w: "with_extra_value lib k v body L = (r, L')"
  obtain r2 L2 where b: "body (L\<lparr>extras := AList.update k v ex\<rparr>) = (r2, L2)"
    by (cases "body (L\<lparr>extras := AList.update k v ex\<rparr>)")
  from keeps_compD [OF assms(2) steady_update [OF s] b] have "steady (AList.update k v ex) L2" .
  with s w b assms(1) show "steady ex L'"
    by (auto simp: with_extra_value_def extra_enter_plain extra_exit_def steady_def dom_update
        delete_update_same)
qed

end
