(* ===== verification/PyDatetime.thy ===== *)
theory PyDatetime
  imports PyValue
begin

text \<open>
  A model of the part of Python's \<^verbatim>\<open>datetime\<close>, \<^verbatim>\<open>calendar\<close> and \<^verbatim>\<open>time\<close> modules that
  \<^verbatim>\<open>src/osxcollector/osxcollector.py\<close> calls: naive \<^verbatim>\<open>datetime\<close> values, \<^verbatim>\<open>timedelta\<close>
  built from a number of seconds or microseconds, their sum, \<^verbatim>\<open>timetuple\<close> with
  \<^verbatim>\<open>calendar.timegm\<close>, \<^verbatim>\<open>datetime.fromtimestamp\<close>, \<^verbatim>\<open>datetime.now\<close> and \<^verbatim>\<open>strftime\<close>.
  A naive \<^verbatim>\<open>datetime\<close> is represented by the number of microseconds since
  0001-01-01 00:00:00 in the proleptic Gregorian calendar, which orders like the
  fields do; the fields are computed from it with the algorithm of the library
  (\<^verbatim>\<open>_ord2ymd\<close>). The local clock and time zone are a parameter.
\<close>

section \<open>The calendar\<close>

definition is_leap :: "int \<Rightarrow> bool" where
  "is_leap y \<longleftrightarrow> y mod 4 = 0 \<and> (y mod 100 \<noteq> 0 \<or> y mod 400 = 0)"

definition days_before_year :: "int \<Rightarrow> int" where
  "days_before_year y = (let y1 = y - 1 in y1 * 365 + y1 div 4 - y1 div 100 + y1 div 400)"

definition days_in_month :: "bool \<Rightarrow> int \<Rightarrow> int" where
  "days_in_month leap m =
     (if m = 2 then (if leap then 29 else 28)
      else if m = 4 \<or> m = 6 \<or> m = 9 \<or> m = 11 then 30 else 31)"

definition days_before_month :: "bool \<Rightarrow> int \<Rightarrow> int" where
  "days_before_month leap m =
     [0, 0, 31, 59, 90, 120, 151, 181, 212, 243, 273, 304, 334] ! nat m
       + (if 2 < m \<and> leap then 1 else 0)"

definition ymd2ord :: "int \<Rightarrow> int \<Rightarrow> int \<Rightarrow> int" where
  "ymd2ord y m d = days_before_year y + days_before_month (is_leap y) m + d"

text \<open>The year of a day number, and the whole date: \<^verbatim>\<open>_ord2ymd\<close>.\<close>

definition ord_year :: "int \<Rightarrow> int" where
  "ord_year n = (let n0 = n - 1;
       n400 = n0 div 146097; r400 = n0 mod 146097;
       n100 = r400 div 36524; r100 = r400 mod 36524;
       n4 = r100 div 1461; r4 = r100 mod 1461;
       n1 = r4 div 365;
       year = n400 * 400 + 1 + n100 * 100 + n4 * 4 + n1
     in if n1 = 4 \<or> n100 = 4 then year - 1 else year)"

definition ord2ymd :: "int \<Rightarrow> int \<times> int \<times> int" where
  "ord2ymd n = (let n0 = n - 1;
       r400 = n0 mod 146097;
       n100 = r400 div 36524; r100 = r400 mod 36524;
       n4 = r100 div 1461; r4 = r100 mod 1461;
       n1 = r4 div 365; nd = r4 mod 365
     in if n1 = 4 \<or> n100 = 4 then (ord_year n, 12, 31)
        else (let leap = (n1 = 3 \<and> (n4 \<noteq> 24 \<or> n100 = 3));
                  m = (nd + 50) div 32;
                  preceding = days_before_month leap m
              in if preceding > nd
                 then (ord_year n, m - 1, nd - (preceding - days_in_month leap (m - 1)) + 1)
                 else (ord_year n, m, nd - preceding + 1)))"

section \<open>Naive datetimes\<close>

type_synonym datetime = int

definition us_per_second :: int where
  "us_per_second = 1000000"

definition us_per_day :: int where
  "us_per_day = 86400000000"

definition dt_valid :: "datetime \<Rightarrow> bool" where
  "dt_valid t \<longleftrightarrow> 0 \<le> t \<and> t < 3652059 * us_per_day"

definition mk_datetime :: "int \<Rightarrow> int \<Rightarrow> int \<Rightarrow> datetime" where
  "mk_datetime y m d = (ymd2ord y m d - 1) * us_per_day"

definition dt_year :: "datetime \<Rightarrow> int" where
  "dt_year t = ord_year (t div us_per_day + 1)"

definition dt_month :: "datetime \<Rightarrow> int" where
  "dt_month t = fst (snd (ord2ymd (t div us_per_day + 1)))"

definition dt_day :: "datetime \<Rightarrow> int" where
  "dt_day t = snd (snd (ord2ymd (t div us_per_day + 1)))"

definition dt_hour :: "datetime \<Rightarrow> int" where
  "dt_hour t = (t mod us_per_day) div 3600000000"

definition dt_minute :: "datetime \<Rightarrow> int" where
  "dt_minute t = (t mod 3600000000) div 60000000"

definition dt_second :: "datetime \<Rightarrow> int" where
  "dt_second t = (t mod 60000000) div us_per_second"

section \<open>Durations\<close>

text \<open>
  \<^verbatim>\<open>timedelta(seconds=x)\<close> and \<^verbatim>\<open>timedelta(microseconds=x)\<close> as a number of
  microseconds. A float is rounded to the nearest microsecond, halves away from
  zero; a duration of a thousand million days or more raises \<^verbatim>\<open>OverflowError\<close>, a
  value that is no number \<^verbatim>\<open>TypeError\<close>.
\<close>

definition round_half_away :: "rat \<Rightarrow> int" where
  "round_half_away q = (if 0 \<le> q then \<lfloor>q + 1 / 2\<rfloor> else - \<lfloor>- q + 1 / 2\<rfloor>)"

definition check_timedelta :: "int \<Rightarrow> int result" where
  "check_timedelta us =
     (if \<bar>us div us_per_day\<bar> \<le> 999999999 then Inr us else Inl OverflowError)"

fun timedelta :: "int \<Rightarrow> pyval \<Rightarrow> int result" where
  "timedelta unit (PInt n) = check_timedelta (n * unit)"
| "timedelta unit (PBool b) = check_timedelta ((if b then 1 else 0) * unit)"
| "timedelta unit (PFloat (Finite q)) = check_timedelta (round_half_away (q * of_int unit))"
| "timedelta unit (PFloat NaN) = Inl ValueError"
| "timedelta unit (PFloat f) = Inl OverflowError"
| "timedelta unit v = Inl TypeError"

definition dt_add :: "datetime \<Rightarrow> int \<Rightarrow> datetime result" where
  "dt_add t d = (if dt_valid (t + d) then Inr (t + d) else Inl OverflowError)"

section \<open>Time stamps and the local clock\<close>

text \<open>
  \<open>now\<close> is what \<^verbatim>\<open>datetime.now()\<close> returns, \<open>utcoffset s\<close> the offset of local time
  from UTC, in seconds, at \<open>s\<close> seconds after the epoch.
\<close>

record clock =
  now :: datetime
  utcoffset :: "int \<Rightarrow> int"

definition epoch_seconds :: int where
  "epoch_seconds = 62135596800"

text \<open>\<^verbatim>\<open>calendar.timegm(dt.timetuple())\<close>: whole seconds since 1970, microseconds dropped.\<close>

definition timegm :: "datetime \<Rightarrow> int" where
  "timegm t = t div us_per_second - epoch_seconds"

text \<open>
  \<^verbatim>\<open>datetime.fromtimestamp(s)\<close>: the local wall-clock time of an instant, which exists
  only within the years 1 to 9999.
\<close>

definition local_time :: "clock \<Rightarrow> int \<Rightarrow> datetime" where
  "local_time clk s = (s + utcoffset clk s + epoch_seconds) * us_per_second"

definition fromtimestamp :: "clock \<Rightarrow> int \<Rightarrow> datetime result" where
  "fromtimestamp clk s =
     (if dt_valid (local_time clk s) then Inr (local_time clk s) else Inl ValueError)"

text \<open>
  \<^verbatim>\<open>datetime.fromtimestamp(x)\<close> on a float, as \<^verbatim>\<open>os.path.getmtime\<close> returns one: the
  fraction is rounded to the nearest microsecond.
\<close>

definition fromtimestamp_float :: "clock \<Rightarrow> rat \<Rightarrow> datetime result" where
  "fromtimestamp_float clk x =
     (let us = round_half_away (x * 1000000);
          t = local_time clk (us div us_per_second) + us mod us_per_second
      in if dt_valid t then Inr t else Inl ValueError)"

section \<open>Formatting\<close>

fun show_nat :: "nat \<Rightarrow> string" where
  "show_nat n = (if n < 10 then [char_of (48 + n)] else show_nat (n div 10) @ [char_of (48 + n mod 10)])"

definition pad0 :: "nat \<Rightarrow> int \<Rightarrow> string" where
  "pad0 w i = (let ds = show_nat (nat i) in replicate (w - length ds) CHR ''0'' @ ds)"

text \<open>
  \<^verbatim>\<open>dt.strftime('%Y-%m-%d %H:%M:%S')\<close>; Python 2 raises \<^verbatim>\<open>ValueError\<close> for a year before
  1900.
\<close>

definition strftime :: "datetime \<Rightarrow> string result" where
  "strftime t =
     (if dt_year t < 1900 then Inl ValueError
      else Inr (pad0 4 (dt_year t) @ ''-'' @ pad0 2 (dt_month t) @ ''-'' @ pad0 2 (dt_day t) @ '' '' @
                pad0 2 (dt_hour t) @ '':'' @ pad0 2 (dt_minute t) @ '':'' @ pad0 2 (dt_second t)))"

declare show_nat.simps [simp del]

section \<open>The year of a day number\<close>

lemma div_pred_int:
  fixes y m :: int
  assumes "0 < m"
  shows "(y - 1) div m = y div m - (if y mod m = 0 then 1 else 0)"
proof -
  have y: "y = m * (y div m) + y mod m" by simp
  have r: "0 \<le> y mod m" "y mod m < m" using assms by simp_all
  show ?thesis
  proof (cases "y mod m = 0")
    case True
    have "y - 1 = m * (y div m - 1) + (m - 1)" using y True by (simp add: algebra_simps)
    then have "(y - 1) div m = y div m - 1"
      using assms by (intro int_div_pos_eq [where r = "m - 1"]) auto
    with True show ?thesis by simp
  next
    case False
    have "y - 1 = m * (y div m) + (y mod m - 1)" using y by simp
    then have "(y - 1) div m = y div m"
      using assms r False by (intro int_div_pos_eq [where r = "y mod m - 1"]) auto
    with False show ?thesis by simp
  qed
qed

lemma dby_Suc: "days_before_year (y + 1) = days_before_year y + (if is_leap y then 366 else 365)"
proof -
  have "100 dvd y \<Longrightarrow> 4 dvd y" "400 dvd y \<Longrightarrow> 100 dvd y" by presburger+
  then show ?thesis
    unfolding days_before_year_def is_leap_def Let_def
    by (simp add: div_pred_int [of 4 y] div_pred_int [of 100 y] div_pred_int [of 400 y] mod_eq_0_iff_dvd)
qed

lemma dby_mono_step: "days_before_year y + 365 \<le> days_before_year (y + 1)"
  by (simp add: dby_Suc)

lemma dby_strict_mono: "y < z \<Longrightarrow> days_before_year y + 365 * (z - y) \<le> days_before_year z"
proof (induction "nat (z - y)" arbitrary: z)
  case 0
  then show ?case by simp
next
  case (Suc k)
  show ?case
  proof (cases "z - 1 = y")
    case True
    with dby_mono_step [of y] show ?thesis by (simp add: algebra_simps)
  next
    case False
    with Suc.prems have "y < z - 1" by simp
    moreover from Suc.hyps(2) have "k = nat (z - 1 - y)" by simp
    ultimately have "days_before_year y + 365 * (z - 1 - y) \<le> days_before_year (z - 1)"
      by (rule Suc.hyps(1) [rotated])
    with dby_mono_step [of "z - 1"] show ?thesis by (simp add: algebra_simps)
  qed
qed

lemma dby_decomp:
  assumes "0 \<le> b" "b < 4" "0 \<le> c" "c < 25" "0 \<le> d" "d < 4"
  shows "days_before_year (400 * a + 100 * b + 4 * c + d + 1) = 146097 * a + 36524 * b + 1461 * c + 365 * d"
proof -
  let ?y = "400 * a + 100 * b + 4 * c + d"
  have "?y div 4 = 100 * a + 25 * b + c" using assms by (intro int_div_pos_eq [where r = d]) auto
  moreover have "?y div 100 = 4 * a + b" using assms by (intro int_div_pos_eq [where r = "4 * c + d"]) auto
  moreover have "?y div 400 = a" using assms by (intro int_div_pos_eq [where r = "100 * b + 4 * c + d"]) auto
  ultimately show ?thesis by (simp add: days_before_year_def)
qed

text \<open>
  The digits of a day number in the mixed radix of 400, 100, 4 and 1 years, as
  \<^verbatim>\<open>_ord2ymd\<close> computes them, and the year it reads off them.
\<close>

lemma ord_year_digits:
  obtains a b c d e where
    "n = 146097 * a + 36524 * b + 1461 * c + 365 * d + e + 1"
    "0 \<le> b" "b \<le> 4" "0 \<le> c" "c \<le> 24" "0 \<le> d" "d \<le> 4" "0 \<le> e" "e < 365"
    "b = 4 \<longrightarrow> c = 0 \<and> d = 0 \<and> e = 0" "d = 4 \<longrightarrow> e = 0 \<and> c < 24 \<or> b = 4"
    "ord_year n = (if d = 4 \<or> b = 4 then 400 * a + 100 * b + 4 * c + d
                   else 400 * a + 100 * b + 4 * c + d + 1)"
proof -
  define n0 where "n0 = n - 1"
  define a where "a = n0 div 146097"
  define r400 where "r400 = n0 mod 146097"
  define b where "b = r400 div 36524"
  define r100 where "r100 = r400 mod 36524"
  define c where "c = r100 div 1461"
  define r4 where "r4 = r100 mod 1461"
  define d where "d = r4 div 365"
  define e where "e = r4 mod 365"
  have n0: "n0 = 146097 * a + r400" and r400: "0 \<le> r400" "r400 < 146097"
    by (simp_all add: a_def r400_def)
  have r400': "r400 = 36524 * b + r100" and r100: "0 \<le> r100" "r100 < 36524"
    by (simp_all add: b_def r100_def)
  have r100': "r100 = 1461 * c + r4" and r4: "0 \<le> r4" "r4 < 1461"
    by (simp_all add: c_def r4_def)
  have r4': "r4 = 365 * d + e" and e: "0 \<le> e" "e < 365"
    by (simp_all add: d_def e_def)
  have b: "0 \<le> b" "b \<le> 4" using r400 by (simp_all add: b_def)
  have c: "0 \<le> c" "c \<le> 24" using r100 by (simp_all add: c_def)
  have d: "0 \<le> d" "d \<le> 4" using r4 by (simp_all add: d_def)
  have "r100 = 0" if "b = 4" using that r400' r400 r100 by simp
  then have b4: "b = 4 \<longrightarrow> c = 0 \<and> d = 0 \<and> e = 0"
    by (simp add: c_def r4_def d_def e_def)
  have d4: "d = 4 \<longrightarrow> e = 0 \<and> c < 24 \<or> b = 4"
    using r4' r4 e r100' r100 by auto
  have "ord_year n = (if d = 4 \<or> b = 4 then 400 * a + 100 * b + 4 * c + d
                      else 400 * a + 100 * b + 4 * c + d + 1)"
    by (simp add: ord_year_def Let_def n0_def a_def r400_def b_def r100_def c_def r4_def d_def)
  moreover have "n = 146097 * a + 36524 * b + 1461 * c + 365 * d + e + 1"
    using n0 r400' r100' r4' by (simp add: n0_def)
  ultimately show ?thesis using that b c d e b4 d4 by blast
qed

text \<open>A year that ends a cycle of four years, but not one of a hundred, is a leap year.\<close>

lemma leap_year_of_digits:
  assumes "0 \<le> c" "c < 24"
  shows "is_leap (400 * a + 100 * b + 4 * c + 3 + 1)"
proof -
  let ?y = "400 * a + 100 * b + 4 * c + 3 + 1"
  have "?y = 4 * (100 * a + 25 * b + c + 1)" by simp
  then have "?y mod 4 = 0" by (simp only: mod_mult_self1_is_0)
  moreover have "?y mod 100 \<noteq> 0"
  proof -
    have "?y = (4 * c + 4) + 100 * (4 * a + b)" by simp
    then have "?y mod 100 = (4 * c + 4) mod 100" by (simp only: mod_mult_self2)
    also have "\<dots> = 4 * c + 4" using assms by simp
    finally show ?thesis using assms by simp
  qed
  ultimately show ?thesis by (simp add: is_leap_def)
qed

text \<open>The year of an ordinal lies between the first days of that year and of the next.\<close>

lemma ord_year_bounds:
  "days_before_year (ord_year n) < n \<and> n \<le> days_before_year (ord_year n + 1)"
proof -
  obtain a b c d e where n: "n = 146097 * a + 36524 * b + 1461 * c + 365 * d + e + 1"
    and b: "0 \<le> b" "b \<le> 4" and c: "0 \<le> c" "c \<le> 24" and d: "0 \<le> d" "d \<le> 4"
    and e: "0 \<le> e" "e < 365"
    and b4: "b = 4 \<longrightarrow> c = 0 \<and> d = 0 \<and> e = 0" and d4: "d = 4 \<longrightarrow> e = 0 \<and> c < 24 \<or> b = 4"
    and yr: "ord_year n = (if d = 4 \<or> b = 4 then 400 * a + 100 * b + 4 * c + d
                           else 400 * a + 100 * b + 4 * c + d + 1)"
    by (rule ord_year_digits [of n])
  show ?thesis
  proof (cases "b = 4")
    case True
    have "days_before_year (400 * a + 100 * 3 + 4 * 24 + 3 + 1) = 146097 * a + 36524 * 3 + 1461 * 24 + 365 * 3"
      by (rule dby_decomp) simp_all
    moreover have "is_leap (400 * (a + 1))" by (simp add: is_leap_def)
    ultimately show ?thesis
      using n True b4 yr dby_Suc [of "400 * (a + 1)"] by (simp add: algebra_simps)
  next
    case b4': False
    with b have b3: "b < 4" by simp
    show ?thesis
    proof (cases "d = 4")
      case True
      with d4 b4' have e0: "e = 0" and c23: "c < 24" by simp_all
      let ?y = "400 * a + 100 * b + 4 * c + 3 + 1"
      have dy: "days_before_year ?y = 146097 * a + 36524 * b + 1461 * c + 365 * 3"
        using b b3 c by (intro dby_decomp) simp_all
      from leap_year_of_digits [OF c(1) c23, of a b] dby_Suc [of ?y] dy yr n True e0
      show ?thesis by (simp add: algebra_simps)
    next
      case False
      with d have d3: "d < 4" by simp
      let ?y = "400 * a + 100 * b + 4 * c + d + 1"
      have "days_before_year ?y = 146097 * a + 36524 * b + 1461 * c + 365 * d"
        using b b3 c d d3 by (intro dby_decomp) simp_all
      with dby_mono_step [of ?y] yr False b4' n e show ?thesis by simp
    qed
  qed
qed

lemma ord_year_ge_iff: "y \<le> ord_year n \<longleftrightarrow> days_before_year y < n"
proof
  assume "y \<le> ord_year n"
  then have "days_before_year y \<le> days_before_year (ord_year n)"
    using dby_strict_mono [of y "ord_year n"] by (cases "y = ord_year n") auto
  with ord_year_bounds [of n] show "days_before_year y < n" by simp
next
  assume a: "days_before_year y < n"
  show "y \<le> ord_year n"
  proof (rule ccontr)
    assume "\<not> y \<le> ord_year n"
    then have "ord_year n + 1 \<le> y" by simp
    then have "days_before_year (ord_year n + 1) \<le> days_before_year y"
      using dby_strict_mono [of "ord_year n + 1" y] by (cases "ord_year n + 1 = y") auto
    with ord_year_bounds [of n] a show False by simp
  qed
qed

lemma le_div_iff_int:
  fixes a t d :: int
  assumes "0 < d"
  shows "a \<le> t div d \<longleftrightarrow> a * d \<le> t"
proof
  assume "a \<le> t div d"
  then have 1: "a * d \<le> (t div d) * d" using assms by (simp add: mult_right_mono)
  have 2: "0 \<le> t mod d" using assms by simp
  have 3: "t = (t div d) * d + t mod d" by simp
  from 1 2 3 show "a * d \<le> t" by linarith
next
  assume a: "a * d \<le> t"
  show "a \<le> t div d"
  proof (rule ccontr)
    assume "\<not> a \<le> t div d"
    then have "t div d + 1 \<le> a" by simp
    then have "(t div d + 1) * d \<le> a * d" using assms by (simp add: mult_right_mono)
    then have 1: "d * (t div d) + d \<le> a * d" by (simp add: algebra_simps)
    have 2: "t mod d < d" using assms by simp
    have 3: "t = d * (t div d) + t mod d" by simp
    from 1 2 3 a show False by linarith
  qed
qed

lemma dt_year_ge_iff: "y \<le> dt_year t \<longleftrightarrow> days_before_year y * us_per_day \<le> t"
proof -
  have "0 < us_per_day" by (simp add: us_per_day_def)
  from le_div_iff_int [OF this, of "days_before_year y" t] show ?thesis
    by (simp add: dt_year_def ord_year_ge_iff)
qed

lemma dt_year_less_iff: "dt_year t < y \<longleftrightarrow> t < days_before_year y * us_per_day"
  using dt_year_ge_iff [of y t] by auto

end
