(* ===== verification/Timestamps.thy ===== *)
theory Timestamps
  imports PyDatetime
begin

text \<open>
  The time stamp heuristic of \<^verbatim>\<open>src/osxcollector/osxcollector.py\<close>: the constants
  \<^verbatim>\<open>DATETIME_2001\<close>, \<^verbatim>\<open>DATETIME_1970\<close>, \<^verbatim>\<open>DATETIME_1601\<close> and \<^verbatim>\<open>MIN_YEAR\<close>, the decorators
  \<^verbatim>\<open>_timestamp_errorhandling\<close> and \<^verbatim>\<open>_convert_to_local\<close>, the four decorated converters,
  \<^verbatim>\<open>_value_to_datetime\<close>, which tries them in a fixed order, and \<^verbatim>\<open>_datetime_to_string\<close>.
  A decorator is a function from functions to functions, as in the source; the
  undecorated bodies return a result, since \<^verbatim>\<open>timedelta\<close> and the addition can raise.
\<close>

section \<open>Constants\<close>

definition DATETIME_2001 :: datetime where
  "DATETIME_2001 = mk_datetime 2001 1 1"

definition DATETIME_1970 :: datetime where
  "DATETIME_1970 = mk_datetime 1970 1 1"

definition DATETIME_1601 :: datetime where
  "DATETIME_1601 = mk_datetime 1601 1 1"

definition MIN_YEAR :: int where
  "MIN_YEAR = 2004"

section \<open>The decorators\<close>

text \<open>
  \<^verbatim>\<open>_timestamp_errorhandling\<close>: any exception of the wrapped function, or of computing
  \<^verbatim>\<open>tomorrow\<close>, gives \<^verbatim>\<open>None\<close>, and so does a date before \<^verbatim>\<open>MIN_YEAR\<close> or after tomorrow.
\<close>

definition timestamp_errorhandling ::
  "clock \<Rightarrow> (pyval \<Rightarrow> datetime result) \<Rightarrow> pyval \<Rightarrow> datetime option" where
  "timestamp_errorhandling clk func v =
     (case func v of
        Inl e \<Rightarrow> None
      | Inr dt \<Rightarrow>
          (case dt_add (now clk) us_per_day of
             Inl e \<Rightarrow> None
           | Inr tomorrow \<Rightarrow> if dt_year dt < MIN_YEAR \<or> dt > tomorrow then None else Some dt))"

text \<open>
  \<^verbatim>\<open>_convert_to_local\<close>: the wrapped function's date is read as UTC, turned into
  seconds since the epoch, and those into local time.
\<close>

definition convert_to_local ::
  "clock \<Rightarrow> (pyval \<Rightarrow> datetime result) \<Rightarrow> pyval \<Rightarrow> datetime result" where
  "convert_to_local clk func v = bind_result (func v) (\<lambda>dt. fromtimestamp clk (timegm dt))"

section \<open>The four interpretations\<close>

definition seconds_since_2001 :: "pyval \<Rightarrow> datetime result" where
  "seconds_since_2001 seconds =
     bind_result (timedelta us_per_second seconds) (dt_add DATETIME_2001)"

definition seconds_since_epoch :: "pyval \<Rightarrow> datetime result" where
  "seconds_since_epoch seconds =
     bind_result (timedelta us_per_second seconds) (dt_add DATETIME_1970)"

definition microseconds_since_epoch :: "pyval \<Rightarrow> datetime result" where
  "microseconds_since_epoch microseconds =
     bind_result (timedelta 1 microseconds) (dt_add DATETIME_1970)"

definition microseconds_since_1601 :: "pyval \<Rightarrow> datetime result" where
  "microseconds_since_1601 microseconds =
     bind_result (timedelta 1 microseconds) (dt_add DATETIME_1601)"

definition seconds_since_2001_to_datetime :: "clock \<Rightarrow> pyval \<Rightarrow> datetime option" where
  "seconds_since_2001_to_datetime clk =
     timestamp_errorhandling clk (convert_to_local clk seconds_since_2001)"

definition seconds_since_epoch_to_datetime :: "clock \<Rightarrow> pyval \<Rightarrow> datetime option" where
  "seconds_since_epoch_to_datetime clk =
     timestamp_errorhandling clk (convert_to_local clk seconds_since_epoch)"

definition microseconds_since_epoch_to_datetime :: "clock \<Rightarrow> pyval \<Rightarrow> datetime option" where
  "microseconds_since_epoch_to_datetime clk =
     timestamp_errorhandling clk (convert_to_local clk microseconds_since_epoch)"

definition microseconds_since_1601_to_datetime :: "clock \<Rightarrow> pyval \<Rightarrow> datetime option" where
  "microseconds_since_1601_to_datetime clk =
     timestamp_errorhandling clk (convert_to_local clk microseconds_since_1601)"

section \<open>The heuristic\<close>

text \<open>
  The first step of \<^verbatim>\<open>_value_to_datetime\<close>: a string is replaced by \<^verbatim>\<open>float(val)\<close>, and
  the function returns \<^verbatim>\<open>None\<close> when that raises; any other value goes on as it is.
  A \<^verbatim>\<open>unicode\<close> string is read through its ASCII encoding.
\<close>

fun string_to_float :: "pyval \<Rightarrow> pyval option" where
  "string_to_float (PStr s) = map_option PFloat (py_float s)"
| "string_to_float (PUnicode u) =
     (case encode_ascii u of Inl e \<Rightarrow> None | Inr s \<Rightarrow> map_option PFloat (py_float s))"
| "string_to_float v = Some v"

text \<open>\<^verbatim>\<open>a or b\<close> on optional dates: a date is always true, \<^verbatim>\<open>None\<close> never.\<close>

definition or_else :: "'a option \<Rightarrow> 'a option \<Rightarrow> 'a option" where
  "or_else a b = (case a of Some x \<Rightarrow> Some x | None \<Rightarrow> b)"

definition value_to_datetime :: "clock \<Rightarrow> pyval \<Rightarrow> datetime option" where
  "value_to_datetime clk val =
     (case string_to_float val of
        None \<Rightarrow> None
      | Some v \<Rightarrow>
          or_else (microseconds_since_epoch_to_datetime clk v)
            (or_else (microseconds_since_1601_to_datetime clk v)
               (or_else (seconds_since_epoch_to_datetime clk v)
                  (seconds_since_2001_to_datetime clk v))))"

definition datetime_to_string :: "datetime \<Rightarrow> string option" where
  "datetime_to_string dt = (case strftime dt of Inr s \<Rightarrow> Some s | Inl e \<Rightarrow> None)"

section \<open>The contract\<close>

text \<open>
  What the heuristic promises: a date is \<open>plausible\<close> when its year is at least
  \<^verbatim>\<open>MIN_YEAR\<close> and it is no later than a day after now. The theorems about the order of
  the interpretations need a clock whose tomorrow exists and whose offset from UTC
  is at most a day.
\<close>

definition plausible :: "clock \<Rightarrow> datetime \<Rightarrow> bool" where
  "plausible clk t \<longleftrightarrow> MIN_YEAR \<le> dt_year t \<and> t \<le> now clk + us_per_day"

definition sane_clock :: "clock \<Rightarrow> bool" where
  "sane_clock clk \<longleftrightarrow> dt_valid (now clk + us_per_day) \<and> (\<forall>s. \<bar>utcoffset clk s\<bar> \<le> 86400)"

text \<open>Two clocks for the worked examples: Pacific daylight time in 2014, and UTC in 2040.\<close>

definition demo_clock :: clock where
  "demo_clock = \<lparr>now = mk_datetime 2014 6 1, utcoffset = (\<lambda>s. - 25200)\<rparr>"

definition late_clock :: clock where
  "late_clock = \<lparr>now = mk_datetime 2040 1 1, utcoffset = (\<lambda>s. 0)\<rparr>"

section \<open>The decorators and the four interpretations\<close>

lemma base_values:
  "DATETIME_1970 = 62135596800000000"
  "DATETIME_2001 = 63113904000000000"
  "DATETIME_1601 = 50491123200000000"
  by (simp_all add: DATETIME_1970_def DATETIME_2001_def DATETIME_1601_def mk_datetime_def
      ymd2ord_def days_before_year_def days_before_month_def is_leap_def us_per_day_def)

lemma min_year_start: "days_before_year MIN_YEAR * us_per_day = 63208512000000000"
  by (simp add: MIN_YEAR_def days_before_year_def us_per_day_def)

lemma plausible_iff:
  "plausible clk t \<longleftrightarrow> 63208512000000000 \<le> t \<and> t \<le> now clk + us_per_day"
  by (simp add: plausible_def dt_year_ge_iff min_year_start)

lemma errorhandling_Some_iff:
  "timestamp_errorhandling clk f v = Some t \<longleftrightarrow>
     f v = Inr t \<and> dt_valid (now clk + us_per_day) \<and> plausible clk t"
  by (auto simp: timestamp_errorhandling_def dt_add_def plausible_def split: sum.splits)

lemma convert_to_local_Inr_iff:
  "convert_to_local clk f v = Inr t \<longleftrightarrow>
     (\<exists>u. f v = Inr u \<and> t = local_time clk (timegm u) \<and> dt_valid t)"
  by (auto simp: convert_to_local_def fromtimestamp_def bind_result_eq_Inr_iff)

lemma small_duration:
  assumes "dt_valid B" "dt_valid (B + d)"
  shows "\<bar>d div us_per_day\<bar> \<le> 999999999"
proof -
  have pos: "0 < us_per_day" by (simp add: us_per_day_def)
  from assms have "- (3652059 * us_per_day) \<le> d" "d < 3652059 * us_per_day"
    by (simp_all add: dt_valid_def)
  then have "- 3652059 \<le> d div us_per_day" "\<not> 3652059 \<le> d div us_per_day"
    by (simp_all add: le_div_iff_int [OF pos])
  then show ?thesis by simp
qed

lemma offset_int_Inr_iff:
  assumes "dt_valid B"
  shows "bind_result (check_timedelta d) (dt_add B) = Inr u \<longleftrightarrow> u = B + d \<and> dt_valid u"
  using small_duration [OF assms, of d]
  by (auto simp: bind_result_eq_Inr_iff check_timedelta_def dt_add_def)

lemma decorated_int:
  assumes "dt_valid (now clk + us_per_day)" "dt_valid B"
  shows "timestamp_errorhandling clk (convert_to_local clk (\<lambda>v. bind_result (timedelta unit v) (dt_add B))) (PInt n) = Some t
     \<longleftrightarrow> dt_valid (B + n * unit) \<and> t = local_time clk (timegm (B + n * unit)) \<and> plausible clk t"
proof -
  have "plausible clk t \<Longrightarrow> dt_valid t"
    using assms(1) by (auto simp: plausible_iff dt_valid_def)
  then show ?thesis
    using assms by (auto simp: errorhandling_Some_iff convert_to_local_Inr_iff offset_int_Inr_iff)
qed


lemma timegm_base:
  "timegm (b * us_per_second + n * us_per_second) = b + n - epoch_seconds"
  "timegm (b * us_per_second + n * 1) = b + n div us_per_second - epoch_seconds"
  by (simp_all add: timegm_def us_per_second_def)

lemma base_valid: "dt_valid DATETIME_1970" "dt_valid DATETIME_2001" "dt_valid DATETIME_1601"
  by (simp_all add: base_values dt_valid_def us_per_day_def)

lemma converters_int:
  assumes "dt_valid (now clk + us_per_day)"
  shows "seconds_since_epoch_to_datetime clk (PInt n) = Some t \<longleftrightarrow>
           dt_valid (DATETIME_1970 + n * us_per_second) \<and> t = local_time clk n \<and> plausible clk t"
    and "seconds_since_2001_to_datetime clk (PInt n) = Some t \<longleftrightarrow>
           dt_valid (DATETIME_2001 + n * us_per_second) \<and> t = local_time clk (n + 978307200) \<and> plausible clk t"
    and "microseconds_since_epoch_to_datetime clk (PInt n) = Some t \<longleftrightarrow>
           dt_valid (DATETIME_1970 + n) \<and> t = local_time clk (n div us_per_second) \<and> plausible clk t"
    and "microseconds_since_1601_to_datetime clk (PInt n) = Some t \<longleftrightarrow>
           dt_valid (DATETIME_1601 + n) \<and> t = local_time clk (n div us_per_second - 11644473600) \<and> plausible clk t"
  using decorated_int [OF assms base_valid(1), of us_per_second n t] timegm_base(1) [of epoch_seconds n]
    decorated_int [OF assms base_valid(2), of us_per_second n t] timegm_base(1) [of "epoch_seconds + 978307200" n]
    decorated_int [OF assms base_valid(1), of 1 n t] timegm_base(2) [of epoch_seconds n]
    decorated_int [OF assms base_valid(3), of 1 n t] timegm_base(2) [of "epoch_seconds - 11644473600" n]
  by (simp_all add: seconds_since_epoch_to_datetime_def seconds_since_epoch_def [abs_def]
        seconds_since_2001_to_datetime_def seconds_since_2001_def [abs_def]
        microseconds_since_epoch_to_datetime_def microseconds_since_epoch_def [abs_def]
        microseconds_since_1601_to_datetime_def microseconds_since_1601_def [abs_def]
        base_values epoch_seconds_def us_per_second_def ac_simps)

lemma plausible_local_bounds:
  assumes "sane_clock clk" "plausible clk (local_time clk s)"
  shows "1072828800 \<le> s" "s * 1000000 \<le> now clk + us_per_day - 62135510400000000"
proof -
  from assms(1) have "- 86400 \<le> utcoffset clk s" "utcoffset clk s \<le> 86400"
    by (simp_all add: sane_clock_def abs_le_iff minus_le_iff)
  with assms(2) show "1072828800 \<le> s" "s * 1000000 \<le> now clk + us_per_day - 62135510400000000"
    by (simp_all add: plausible_iff local_time_def epoch_seconds_def us_per_second_def)
qed

lemma or_else_Some_iff: "or_else a b = Some t \<longleftrightarrow> a = Some t \<or> (a = None \<and> b = Some t)"
  by (cases a) (simp_all add: or_else_def)

lemma or_else_None_iff: "or_else a b = None \<longleftrightarrow> a = None \<and> b = None"
  by (cases a) (simp_all add: or_else_def)

lemma accept_windows:
  assumes "sane_clock clk"
  shows "microseconds_since_epoch_to_datetime clk (PInt n) \<noteq> None \<Longrightarrow>
           1072828800000000 \<le> n \<and> n < now clk + us_per_day - 62135510399000000"
    and "microseconds_since_1601_to_datetime clk (PInt n) \<noteq> None \<Longrightarrow>
           12717302400000000 \<le> n \<and> n < now clk + us_per_day - 50491036799000000"
    and "seconds_since_epoch_to_datetime clk (PInt n) \<noteq> None \<Longrightarrow>
           1072828800 \<le> n \<and> n * 1000000 \<le> now clk + us_per_day - 62135510400000000"
    and "seconds_since_2001_to_datetime clk (PInt n) \<noteq> None \<Longrightarrow>
           94521600 \<le> n \<and> n * 1000000 \<le> now clk + us_per_day - 63113817600000000"
proof -
  have v: "dt_valid (now clk + us_per_day)" using assms by (simp add: sane_clock_def)
  have d: "n = 1000000 * (n div 1000000) + n mod 1000000" "0 \<le> n mod 1000000" "n mod 1000000 < 1000000"
    by simp_all
  note b = plausible_local_bounds [OF assms]
  show "microseconds_since_epoch_to_datetime clk (PInt n) \<noteq> None \<Longrightarrow>
           1072828800000000 \<le> n \<and> n < now clk + us_per_day - 62135510399000000"
    using b [of "n div us_per_second"] d by (auto simp: converters_int [OF v] us_per_second_def)
  show "microseconds_since_1601_to_datetime clk (PInt n) \<noteq> None \<Longrightarrow>
           12717302400000000 \<le> n \<and> n < now clk + us_per_day - 50491036799000000"
    using b [of "n div us_per_second - 11644473600"] d by (auto simp: converters_int [OF v] us_per_second_def)
  show "seconds_since_epoch_to_datetime clk (PInt n) \<noteq> None \<Longrightarrow>
           1072828800 \<le> n \<and> n * 1000000 \<le> now clk + us_per_day - 62135510400000000"
    using b [of n] by (auto simp: converters_int [OF v])
  show "seconds_since_2001_to_datetime clk (PInt n) \<noteq> None \<Longrightarrow>
           94521600 \<le> n \<and> n * 1000000 \<le> now clk + us_per_day - 63113817600000000"
    using b [of "n + 978307200"] by (auto simp: converters_int [OF v])
qed

lemma timedelta_Inr_number: "timedelta unit v = Inr d \<Longrightarrow> is_number v"
  by (induction unit v rule: timedelta.induct) simp_all

lemma decorated_Some:
  assumes "timestamp_errorhandling clk (convert_to_local clk (\<lambda>v. bind_result (timedelta unit v) (dt_add B))) v = Some t"
  shows "plausible clk t \<and> (\<exists>s. t = local_time clk s) \<and> is_number v"
  using assms
  by (auto simp: errorhandling_Some_iff convert_to_local_Inr_iff bind_result_eq_Inr_iff
      dest: timedelta_Inr_number)

lemma value_to_datetime_Some:
  assumes "value_to_datetime clk val = Some t"
  shows "\<exists>v. string_to_float val = Some v \<and> is_number v \<and> plausible clk t \<and> (\<exists>s. t = local_time clk s)"
proof -
  from assms obtain v where v: "string_to_float val = Some v"
    and "microseconds_since_epoch_to_datetime clk v = Some t \<or> microseconds_since_1601_to_datetime clk v = Some t
       \<or> seconds_since_epoch_to_datetime clk v = Some t \<or> seconds_since_2001_to_datetime clk v = Some t"
    by (auto simp: value_to_datetime_def or_else_Some_iff split: option.splits)
  then have "plausible clk t \<and> (\<exists>s. t = local_time clk s) \<and> is_number v"
    using decorated_Some [of clk 1 DATETIME_1970 v t] decorated_Some [of clk 1 DATETIME_1601 v t]
      decorated_Some [of clk us_per_second DATETIME_1970 v t] decorated_Some [of clk us_per_second DATETIME_2001 v t]
    by (auto simp: seconds_since_epoch_to_datetime_def seconds_since_epoch_def [abs_def]
        seconds_since_2001_to_datetime_def seconds_since_2001_def [abs_def]
        microseconds_since_epoch_to_datetime_def microseconds_since_epoch_def [abs_def]
        microseconds_since_1601_to_datetime_def microseconds_since_1601_def [abs_def])
  with v show ?thesis by simp
qed

section \<open>Evaluation\<close>

lemma demo_clock_sane: "sane_clock demo_clock" "sane_clock late_clock"
  by (simp_all add: sane_clock_def demo_clock_def late_clock_def dt_valid_def mk_datetime_def ymd2ord_def
      days_before_year_def days_before_month_def is_leap_def us_per_day_def)

lemmas timestamp_eval = demo_clock_def late_clock_def mk_datetime_def ymd2ord_def
  days_before_year_def days_before_month_def is_leap_def us_per_day_def us_per_second_def
  sane_clock_def dt_valid_def plausible_iff local_time_def epoch_seconds_def base_values

lemma epoch_seconds_late:
  "seconds_since_epoch_to_datetime late_clock (PInt 1073001600) = Some 63208598400000000"
  "seconds_since_2001_to_datetime late_clock (PInt 1073001600) = Some 64186905600000000"
  using demo_clock_sane(2) by (simp_all add: converters_int timestamp_eval)

lemma value_to_datetime_demo:
  "value_to_datetime demo_clock (PInt 1400000000) = Some 63535571600000000"
  "value_to_datetime demo_clock (PStr ''1400000000.5'') = Some 63535571600000000"
  "value_to_datetime demo_clock (PUnicode [49, 52, 48, 48, 48, 48, 48, 48, 48, 48]) = Some 63535571600000000"
  "value_to_datetime demo_clock (PInt 421692800) = Some 63535571600000000"
  by code_simp+

section \<open>Properties\<close>

text \<open>
  C12: whatever \<^verbatim>\<open>_value_to_datetime\<close> returns is plausible: its year is at least
  \<^verbatim>\<open>MIN_YEAR\<close> (2004) and it is not later than one day after the current local time.
  This holds for every value, every clock and every time zone.
\<close>

theorem value_to_datetime_plausible:
  assumes "value_to_datetime clk val = Some t"
  shows "MIN_YEAR \<le> dt_year t \<and> t \<le> now clk + us_per_day"
  using value_to_datetime_Some [OF assms] by (auto simp: plausible_def)

theorem value_to_datetime_plausible_witness:
  "value_to_datetime demo_clock (PInt 1400000000) = Some 63535571600000000
   \<and> MIN_YEAR \<le> dt_year 63535571600000000 \<and> 63535571600000000 \<le> now demo_clock + us_per_day"
  using value_to_datetime_plausible [OF value_to_datetime_demo(1)] value_to_datetime_demo(1) by simp

text \<open>
  C5: the order of the interpretations. On a clock whose offset from UTC is at most a
  day, an integer that \<^verbatim>\<open>_seconds_since_epoch_to_datetime\<close> accepts is rejected by both
  microsecond interpretations, so \<^verbatim>\<open>_value_to_datetime\<close> returns the seconds-since-1970
  reading, also when \<^verbatim>\<open>_seconds_since_2001_to_datetime\<close> accepts the integer too.
\<close>

theorem value_to_datetime_prefers_epoch_seconds:
  assumes "sane_clock clk" and "seconds_since_epoch_to_datetime clk (PInt n) = Some t"
  shows "value_to_datetime clk (PInt n) = Some t"
proof -
  have v: "now clk + us_per_day < 3652059 * us_per_day"
    using assms(1) by (simp add: sane_clock_def dt_valid_def)
  from accept_windows(3) [OF assms(1), of n] assms(2) v have n: "n < 1000000000000"
    by (simp add: us_per_day_def)
  have "microseconds_since_epoch_to_datetime clk (PInt n) = None"
    using accept_windows(1) [OF assms(1), of n] n by (cases "microseconds_since_epoch_to_datetime clk (PInt n)") auto
  moreover have "microseconds_since_1601_to_datetime clk (PInt n) = None"
    using accept_windows(2) [OF assms(1), of n] n by (cases "microseconds_since_1601_to_datetime clk (PInt n)") auto
  ultimately show ?thesis
    using assms(2) by (simp add: value_to_datetime_def or_else_def)
qed

theorem value_to_datetime_prefers_epoch_seconds_witness:
  "sane_clock late_clock
   \<and> seconds_since_2001_to_datetime late_clock (PInt 1073001600) = Some 64186905600000000
   \<and> value_to_datetime late_clock (PInt 1073001600) = Some 63208598400000000"
  using value_to_datetime_prefers_epoch_seconds [OF demo_clock_sane(2) epoch_seconds_late(1)]
    demo_clock_sane(2) epoch_seconds_late(2) by simp

text \<open>
  C13: before 2034-12-29 the order of the interpretations cannot matter for an integer:
  on a clock whose offset from UTC is at most a day, at most one of the four
  interpretations accepts it. The comment in \<^verbatim>\<open>_value_to_datetime\<close>, that a time stamp may
  be valid under several of them, is about later clocks or about fractions.
\<close>

theorem integer_interpretations_exclusive:
  assumes "sane_clock clk" and "now clk < mk_datetime 2034 12 29"
  shows "length (filter (\<lambda>r. r \<noteq> None)
           [microseconds_since_epoch_to_datetime clk (PInt n),
            microseconds_since_1601_to_datetime clk (PInt n),
            seconds_since_epoch_to_datetime clk (PInt n),
            seconds_since_2001_to_datetime clk (PInt n)]) \<le> 1"
proof -
  have "mk_datetime 2034 12 29 = 64186560000000000"
    by (simp add: mk_datetime_def ymd2ord_def days_before_year_def days_before_month_def is_leap_def us_per_day_def)
  with assms(2) have w: "now clk + us_per_day < 64186646400000000" by (simp add: us_per_day_def)
  note a = accept_windows [OF assms(1), of n]
  have "microseconds_since_epoch_to_datetime clk (PInt n) = None \<or> microseconds_since_1601_to_datetime clk (PInt n) = None"
    using a(1,2) w by linarith
  moreover have "microseconds_since_epoch_to_datetime clk (PInt n) = None \<or> seconds_since_epoch_to_datetime clk (PInt n) = None"
    using a(1,3) w by linarith
  moreover have "microseconds_since_epoch_to_datetime clk (PInt n) = None \<or> seconds_since_2001_to_datetime clk (PInt n) = None"
    using a(1,4) w by linarith
  moreover have "microseconds_since_1601_to_datetime clk (PInt n) = None \<or> seconds_since_epoch_to_datetime clk (PInt n) = None"
    using a(2,3) w by linarith
  moreover have "microseconds_since_1601_to_datetime clk (PInt n) = None \<or> seconds_since_2001_to_datetime clk (PInt n) = None"
    using a(2,4) w by linarith
  moreover have "seconds_since_epoch_to_datetime clk (PInt n) = None \<or> seconds_since_2001_to_datetime clk (PInt n) = None"
    using a(3,4) w by linarith
  ultimately show ?thesis by auto
qed

theorem integer_interpretations_exclusive_witness:
  "sane_clock demo_clock \<and> now demo_clock < mk_datetime 2034 12 29
   \<and> length (filter (\<lambda>r. r \<noteq> None)
           [microseconds_since_epoch_to_datetime demo_clock (PInt 1400000000),
            microseconds_since_1601_to_datetime demo_clock (PInt 1400000000),
            seconds_since_epoch_to_datetime demo_clock (PInt 1400000000),
            seconds_since_2001_to_datetime demo_clock (PInt 1400000000)]) \<le> 1"
proof -
  have "now demo_clock < mk_datetime 2034 12 29" by (simp add: timestamp_eval)
  with integer_interpretations_exclusive [OF demo_clock_sane(1) this, of 1400000000] demo_clock_sane(1)
  show ?thesis by simp
qed

text \<open>
  A date returned by \<^verbatim>\<open>_value_to_datetime\<close> is a whole number of seconds (the
  conversion through \<^verbatim>\<open>calendar.timegm\<close> drops the microseconds), and
  \<^verbatim>\<open>_datetime_to_string\<close> formats it: \<^verbatim>\<open>strftime\<close> does not raise on it.
\<close>

theorem value_to_datetime_whole_seconds:
  assumes "value_to_datetime clk val = Some t"
  shows "t mod us_per_second = 0 \<and> datetime_to_string t \<noteq> None"
proof -
  from value_to_datetime_Some [OF assms] have "plausible clk t" "t mod us_per_second = 0"
    by (auto simp: local_time_def)
  moreover from this(1) have "\<not> dt_year t < 1900" by (simp add: plausible_def MIN_YEAR_def)
  ultimately show ?thesis by (simp add: datetime_to_string_def strftime_def)
qed

theorem value_to_datetime_whole_seconds_witness:
  "value_to_datetime demo_clock (PStr ''1400000000.5'') = Some 63535571600000000
   \<and> 63535571600000000 mod us_per_second = 0 \<and> datetime_to_string 63535571600000000 \<noteq> None"
  using value_to_datetime_whole_seconds [OF value_to_datetime_demo(2)] value_to_datetime_demo(2) by simp

text \<open>
  \<^verbatim>\<open>_value_to_datetime\<close> returns a date only for a number, or for a string that
  \<^verbatim>\<open>float\<close> parses: \<^verbatim>\<open>None\<close>, lists, dictionaries, binary data and text that is no
  number give \<^verbatim>\<open>None\<close>, without an exception.
\<close>

theorem value_to_datetime_numeric_only:
  assumes "value_to_datetime clk val = Some t"
  shows "is_number val \<or> (\<exists>s q. (val = PStr s \<or> (\<exists>u. val = PUnicode u \<and> encode_ascii u = Inr s)) \<and> py_float s = Some q)"
  using value_to_datetime_Some [OF assms]
  by (cases val) (auto split: sum.splits)

theorem value_to_datetime_numeric_only_witness:
  "value_to_datetime demo_clock (PUnicode [49, 52, 48, 48, 48, 48, 48, 48, 48, 48]) = Some 63535571600000000
   \<and> (is_number (PUnicode [49, 52, 48, 48, 48, 48, 48, 48, 48, 48])
      \<or> (\<exists>s q. (PUnicode [49, 52, 48, 48, 48, 48, 48, 48, 48, 48] = PStr s
            \<or> (\<exists>u. PUnicode [49, 52, 48, 48, 48, 48, 48, 48, 48, 48] = PUnicode u \<and> encode_ascii u = Inr s))
          \<and> py_float s = Some q))"
  using value_to_datetime_numeric_only [OF value_to_datetime_demo(3)] value_to_datetime_demo(3) by simp

text \<open>
  The four encodings of one instant. 2014-05-13 16:53:20 UTC as seconds since
  1970, seconds since 2001, microseconds since 1970 and microseconds since 1601 all
  become the same local date string, and text that is no number becomes nothing.
\<close>

theorem value_to_datetime_examples:
  "map_option datetime_to_string (value_to_datetime demo_clock (PInt 1400000000))
     = Some (Some ''2014-05-13 09:53:20'')"
  "map_option datetime_to_string (value_to_datetime demo_clock (PInt 421692800))
     = Some (Some ''2014-05-13 09:53:20'')"
  "map_option datetime_to_string (value_to_datetime demo_clock (PInt 1400000000000000))
     = Some (Some ''2014-05-13 09:53:20'')"
  "map_option datetime_to_string (value_to_datetime demo_clock (PInt 13044473600000000))
     = Some (Some ''2014-05-13 09:53:20'')"
  "value_to_datetime demo_clock (PStr ''yesterday'') = None"
  by code_simp+

end
