(* ===== verification/Normalize.thy ===== *)
theory Normalize
  imports Timestamps
begin

text \<open>
  \<^verbatim>\<open>_normalize_val\<close> of \<^verbatim>\<open>src/osxcollector/osxcollector.py\<close>: the conversion of a value
  read from SQLite or from a property list into a value \<^verbatim>\<open>json.dumps\<close> accepts. The
  function returns the normalised value together with the exceptions its outer
  handler reported on \<^verbatim>\<open>sys.stderr\<close>, in the order they were written. It does not
  raise: every branch that can is inside the \<^verbatim>\<open>try\<close>. \<^verbatim>\<open>debugbreak\<close> is a no-op outside
  debug mode, the only mode modelled here.
\<close>

section \<open>The time stamp hint\<close>

definition timestamp_hints :: "string list" where
  "timestamp_hints = [''time'', ''utc'', ''date'', ''accessed'']"

definition key_hints_timestamp :: "string option \<Rightarrow> bool" where
  "key_hints_timestamp key =
     (case key of
        None \<Rightarrow> False
      | Some k \<Rightarrow> k \<noteq> [] \<and> list_ex (\<lambda>hint. contains (py_lower k) hint) timestamp_hints)"

text \<open>
  The first statement of \<^verbatim>\<open>_normalize_val\<close>: under a hinting key, a value that
  \<^verbatim>\<open>_value_to_datetime\<close> accepts is returned as what \<^verbatim>\<open>_datetime_to_string\<close> makes of it,
  which is \<^verbatim>\<open>None\<close> when \<^verbatim>\<open>strftime\<close> raises.
\<close>

definition hinted_date :: "clock \<Rightarrow> pyval \<Rightarrow> string option \<Rightarrow> pyval option" where
  "hinted_date clk val key =
     (if key_hints_timestamp key
      then map_option (\<lambda>ts. case datetime_to_string ts of Some s \<Rightarrow> PStr s | None \<Rightarrow> PNone)
             (value_to_datetime clk val)
      else None)"

section \<open>The branches\<close>

text \<open>
  \<^verbatim>\<open>u.decode(encoding='utf-8', errors='ignore')\<close> on a \<^verbatim>\<open>unicode\<close> object: Python 2
  encodes it with the codec \<^verbatim>\<open>ascii\<close> first, and \<^verbatim>\<open>_normalize_val\<close> returns the value
  unchanged when that raises \<^verbatim>\<open>UnicodeEncodeError\<close>. Only ASCII bytes reach the UTF-8
  decoder, which maps each to its own code point.
\<close>

definition decode_utf8_ascii :: "string \<Rightarrow> nat list" where
  "decode_utf8_ascii s = map of_char s"

definition recode_utf8 :: "nat list \<Rightarrow> pyval \<Rightarrow> pyval result" where
  "recode_utf8 u val =
     try_except (bind_result (encode_ascii u) (\<lambda>b. Inr (PUnicode (decode_utf8_ascii b))))
       [UnicodeEncodeError] (Inr val)"

text \<open>A bare \<^verbatim>\<open>except:\<close> with a value to return.\<close>

definition except_all :: "'a result \<Rightarrow> 'a \<Rightarrow> 'a" where
  "except_all r d = (case r of Inl e \<Rightarrow> d | Inr x \<Rightarrow> x)"

definition normalize_buffer :: "pylib \<Rightarrow> string \<Rightarrow> pyval" where
  "normalize_buffer lib s =
     except_all
       (bind_result (decode_ascii s) (\<lambda>u.
          bind_result (encode_ascii u) (\<lambda>b. Inr (PUnicode (decode_utf16le b)))))
       (PStr (repr lib (PBuffer s)))"

text \<open>
  The handler of the outer \<^verbatim>\<open>try\<close>: the exception is reported on \<^verbatim>\<open>sys.stderr\<close> and the
  result is \<^verbatim>\<open>repr(val)\<close>.
\<close>

definition on_exception :: "pylib \<Rightarrow> pyval \<Rightarrow> pyval result \<Rightarrow> pyval \<times> py_error list" where
  "on_exception lib val r =
     (case r of Inr x \<Rightarrow> (x, []) | Inl e \<Rightarrow> (PStr (repr lib val), [e]))"

text \<open>The results of the recursive calls on the elements, and what they reported.\<close>

definition collect_list :: "(pyval \<times> py_error list) list \<Rightarrow> pyval \<times> py_error list" where
  "collect_list rs = (PList (map fst rs), concat (map snd rs))"

definition collect_dict ::
  "(string \<times> pyval \<times> py_error list) list \<Rightarrow> pyval \<times> py_error list" where
  "collect_dict rs = (PDict (map (\<lambda>kr. (fst kr, fst (snd kr))) rs), concat (map (\<lambda>kr. snd (snd kr)) rs))"

section \<open>The normaliser\<close>

fun normalize_val :: "pylib \<Rightarrow> clock \<Rightarrow> pyval \<Rightarrow> string option \<Rightarrow> pyval \<times> py_error list" where
  "normalize_val lib clk val key =
     (case hinted_date clk val key of
        Some s \<Rightarrow> (s, [])
      | None \<Rightarrow>
          (case val of
             PStr s \<Rightarrow> on_exception lib val (bind_result (decode_ascii s) (\<lambda>u. recode_utf8 u val))
           | PUnicode u \<Rightarrow> on_exception lib val (recode_utf8 u val)
           | PBuffer s \<Rightarrow> (normalize_buffer lib s, [])
           | PBool b \<Rightarrow> (val, [])
           | PInt i \<Rightarrow> (val, [])
           | PFloat f \<Rightarrow> (val, [])
           | NSData s \<Rightarrow> (PStr (''<NSData bytes:'' @ show_nat (length s) @ ''>''), [])
           | NSArray xs \<Rightarrow> collect_list (map (\<lambda>stuff. normalize_val lib clk stuff None) xs)
           | NSDictionary d \<Rightarrow>
               collect_dict (map (\<lambda>kv. (fst kv, normalize_val lib clk (snd kv) (Some (fst kv)))) d)
           | PDict d \<Rightarrow>
               collect_dict (map (\<lambda>kv. (fst kv, normalize_val lib clk (snd kv) (Some (fst kv)))) d)
           | NSDate t \<Rightarrow> (PStr (repr lib val), [])
           | _ \<Rightarrow> if \<not> truthy val then (PStr [], []) else (PStr (repr lib val), [])))"

declare normalize_val.simps [simp del]

text \<open>Every key of every dictionary in a value is ASCII.\<close>

fun ascii_keys :: "pyval \<Rightarrow> bool" where
  "ascii_keys (PList xs) = list_all ascii_keys xs"
| "ascii_keys (NSArray xs) = list_all ascii_keys xs"
| "ascii_keys (PDict d) = list_all (\<lambda>kv. list_all is_ascii (fst kv) \<and> ascii_keys (snd kv)) d"
| "ascii_keys (NSDictionary d) = list_all (\<lambda>kv. list_all is_ascii (fst kv) \<and> ascii_keys (snd kv)) d"
| "ascii_keys v = True"

text \<open>A property list as the reader hands it over, for the worked examples.\<close>

definition demo_plist :: pyval where
  "demo_plist = NSDictionary
     [(''name'', PStr ''Safari''),
      (''LastUsedDate'', PInt 421692800),
      (''blob'', PBuffer ''abcd''),
      (''items'', NSArray [PInt 1, NSData ''xyz'', NSDate 0])]"

section \<open>The branches, one by one\<close>

lemma hinted_date_not_number:
  assumes "string_to_float val = Some val" "\<not> is_number val"
  shows "hinted_date clk val key = None"
proof (cases "value_to_datetime clk val")
  case None
  then show ?thesis by (simp add: hinted_date_def)
next
  case (Some t)
  from value_to_datetime_Some [OF this] assms show ?thesis by auto
qed

lemma hinted_date_container [simp]:
  "hinted_date clk (NSArray xs) key = None"
  "hinted_date clk (NSDictionary d) key = None"
  "hinted_date clk (PDict d) key = None"
  "hinted_date clk (PList xs) key = None"
  "hinted_date clk (PBuffer s) key = None"
  "hinted_date clk (NSData s) key = None"
  "hinted_date clk (NSDate q) key = None"
  "hinted_date clk PNone key = None"
  "hinted_date clk (PObject c) key = None"
  by (simp_all add: hinted_date_not_number)

lemma hinted_date_no_hint [simp]: "\<not> key_hints_timestamp key \<Longrightarrow> hinted_date clk val key = None"
  by (simp add: hinted_date_def)

lemma key_hints_None [simp]: "\<not> key_hints_timestamp None"
  by (simp add: key_hints_timestamp_def)

lemma normalize_val_container [simp]:
  "normalize_val lib clk (NSArray xs) key = collect_list (map (\<lambda>stuff. normalize_val lib clk stuff None) xs)"
  "normalize_val lib clk (NSDictionary d) key =
     collect_dict (map (\<lambda>kv. (fst kv, normalize_val lib clk (snd kv) (Some (fst kv)))) d)"
  "normalize_val lib clk (PDict d) key =
     collect_dict (map (\<lambda>kv. (fst kv, normalize_val lib clk (snd kv) (Some (fst kv)))) d)"
  by (simp_all add: normalize_val.simps)

lemma normalize_val_leaf [simp]:
  "normalize_val lib clk (PBuffer s) key = (normalize_buffer lib s, [])"
  "normalize_val lib clk (NSData s) key = (PStr (''<NSData bytes:'' @ show_nat (length s) @ ''>''), [])"
  "normalize_val lib clk (NSDate q) key = (PStr (repr lib (NSDate q)), [])"
  "normalize_val lib clk PNone key = (PStr [], [])"
  "normalize_val lib clk (PObject c) key = (PStr (repr lib (PObject c)), [])"
  "normalize_val lib clk (PList xs) key = (if xs = [] then PStr [] else PStr (repr lib (PList xs)), [])"
  by (simp_all add: normalize_val.simps)

lemma normalize_val_hinted:
  "hinted_date clk val key = Some r \<Longrightarrow> normalize_val lib clk val key = (r, [])"
  by (simp add: normalize_val.simps)

lemma hinted_date_Some:
  assumes "key_hints_timestamp key" and "value_to_datetime clk val = Some t"
  shows "\<exists>s. hinted_date clk val key = Some (PStr s) \<and> strftime t = Inr s"
proof -
  from value_to_datetime_Some [OF assms(2)] have "\<not> dt_year t < 1900"
    by (auto simp: plausible_def MIN_YEAR_def)
  then obtain s where "strftime t = Inr s" by (auto simp: strftime_def)
  with assms show ?thesis by (simp add: hinted_date_def datetime_to_string_def)
qed

lemma normalize_val_number:
  "is_number val \<Longrightarrow> hinted_date clk val key = None \<Longrightarrow> normalize_val lib clk val key = (val, [])"
  by (cases val) (simp_all add: normalize_val.simps)

lemma recode_utf8_ascii:
  "list_all is_ascii s \<Longrightarrow> recode_utf8 (map of_char s) val = Inr (PUnicode (map of_char s))"
  using encode_decode_ascii [of s "map of_char s"]
  by (simp add: recode_utf8_def decode_utf8_ascii_def decode_ascii_def)

lemma recode_utf8_unicode: "recode_utf8 u (PUnicode u) = Inr (PUnicode u)"
  by (auto simp: recode_utf8_def decode_utf8_ascii_def encode_ascii_def list_all_iff
      intro!: map_idI)

lemma normalize_val_text:
  assumes "hinted_date clk val key = None"
  shows "val = PStr s \<Longrightarrow> normalize_val lib clk val key =
           (if list_all is_ascii s then (PUnicode (map of_char s), [])
            else (PStr (repr lib (PStr s)), [UnicodeDecodeError]))"
    and "val = PUnicode u \<Longrightarrow> normalize_val lib clk val key = (PUnicode u, [])"
  using assms
  by (simp_all add: normalize_val.simps on_exception_def recode_utf8_ascii recode_utf8_unicode decode_ascii_def)

lemma normalize_buffer_eq:
  "normalize_buffer lib s =
     (if list_all is_ascii s then PUnicode (decode_utf16le s) else PStr (repr lib (PBuffer s)))"
  using encode_decode_ascii [of s "map of_char s"]
  by (simp add: normalize_buffer_def except_all_def decode_ascii_def)


lemma show_nat_ascii: "list_all is_ascii (show_nat n)"
proof (induction n rule: show_nat.induct)
  case (1 n)
  have "n < 10 \<Longrightarrow> is_ascii (char_of (48 + n))" "is_ascii (char_of (48 + n mod 10))"
    by (simp_all add: is_ascii_def)
  with 1 show ?case by (subst show_nat.simps) simp
qed


lemma pad0_ascii: "list_all is_ascii (pad0 w i)"
  using show_nat_ascii [of "nat i"] by (auto simp: pad0_def Let_def list_all_iff is_ascii_def)

lemma strftime_ascii: "strftime t = Inr s \<Longrightarrow> list_all is_ascii s"
  by (auto simp: strftime_def pad0_ascii is_ascii_def split: if_splits)

lemma hinted_date_native: "hinted_date clk val key = Some r \<Longrightarrow> json_native r"
proof -
  assume "hinted_date clk val key = Some r"
  then obtain t where r: "r = (case datetime_to_string t of Some s \<Rightarrow> PStr s | None \<Rightarrow> PNone)"
    by (auto simp: hinted_date_def split: if_splits)
  show ?thesis
    using strftime_ascii [of t] by (cases "strftime t") (simp_all add: r datetime_to_string_def)
qed

lemma json_native_collect:
  "json_native (fst (collect_list rs)) \<longleftrightarrow> (\<forall>r \<in> set rs. json_native (fst r))"
  "json_native (fst (collect_dict krs)) \<longleftrightarrow>
     (\<forall>kr \<in> set krs. list_all is_ascii (fst kr) \<and> json_native (fst (snd kr)))"
  by (simp_all add: collect_list_def collect_dict_def list_all_iff)

lemma demo_repr_ascii: "\<forall>v. list_all is_ascii (repr demo_lib v)"
  by (simp add: demo_lib_def is_ascii_def)

lemma hinted_demo: "key_hints_timestamp (Some ''LastUsedDate'')"
  by code_simp

lemma strftime_demo: "strftime 63535571600000000 = Inr ''2014-05-13 09:53:20''"
  by code_simp

section \<open>Properties\<close>

text \<open>
  C6: the result of \<^verbatim>\<open>_normalize_val\<close> is a value \<^verbatim>\<open>json.dumps\<close> encodes: it holds no
  \<^verbatim>\<open>buffer\<close>, no Foundation object and no object of another class, and its byte strings
  are ASCII. This needs \<^verbatim>\<open>repr\<close> to return ASCII, which it does, and the keys of the
  dictionaries in the value to be ASCII, since \<^verbatim>\<open>_normalize_val\<close> copies keys as they are.
\<close>

theorem normalize_val_json_native:
  assumes "\<forall>v. list_all is_ascii (repr lib v)" and "ascii_keys val"
  shows "json_native (fst (normalize_val lib clk val key))"
  using assms(2)
proof (induction val arbitrary: key)
  case (PStr s)
  then show ?case
    using assms(1) by (cases "hinted_date clk (PStr s) key")
      (simp_all add: normalize_val_text normalize_val_hinted hinted_date_native)
next
  case (PUnicode u)
  then show ?case
    by (cases "hinted_date clk (PUnicode u) key")
      (simp_all add: normalize_val_text normalize_val_hinted hinted_date_native)
next
  case (PBool b)
  then show ?case
    by (cases "hinted_date clk (PBool b) key")
      (simp_all add: normalize_val_number normalize_val_hinted hinted_date_native)
next
  case (PInt i)
  then show ?case
    by (cases "hinted_date clk (PInt i) key")
      (simp_all add: normalize_val_number normalize_val_hinted hinted_date_native)
next
  case (PFloat f)
  then show ?case
    by (cases "hinted_date clk (PFloat f) key")
      (simp_all add: normalize_val_number normalize_val_hinted hinted_date_native)
next
  case (NSData s)
  then show ?case by (simp add: show_nat_ascii is_ascii_def)
qed (use assms(1) in \<open>auto simp: json_native_collect normalize_buffer_eq list_all_iff\<close>)

theorem normalize_val_json_native_witness:
  "(\<forall>v. list_all is_ascii (repr demo_lib v)) \<and> ascii_keys demo_plist
   \<and> json_native (fst (normalize_val demo_lib demo_clock demo_plist None))"
  using normalize_val_json_native [OF demo_repr_ascii, of demo_plist demo_clock None] demo_repr_ascii
  by (simp add: demo_plist_def is_ascii_def)

text \<open>
  C36: structure is preserved. An \<^verbatim>\<open>NSArray\<close> becomes the list of its normalised elements,
  in order and with no hint; a dictionary keeps every key, in order, and each value is
  normalised with its own key as the hint. A hinting key of the container itself does
  not matter.
\<close>

theorem normalize_val_preserves_structure:
  "(fst (normalize_val lib clk (NSArray xs) key) = PList (map (\<lambda>v. fst (normalize_val lib clk v None)) xs))
   \<and> (fst (normalize_val lib clk (NSDictionary d) key)
      = PDict (map (\<lambda>kv. (fst kv, fst (normalize_val lib clk (snd kv) (Some (fst kv))))) d))
   \<and> (fst (normalize_val lib clk (PDict d) key)
      = PDict (map (\<lambda>kv. (fst kv, fst (normalize_val lib clk (snd kv) (Some (fst kv))))) d))"
  by (simp add: collect_list_def collect_dict_def comp_def)

text \<open>
  C23: \<^verbatim>\<open>_normalize_val\<close> is not idempotent. A non-empty \<^verbatim>\<open>NSArray\<close> is normalised to a
  Python list, and a Python list is none of the types the branches test for: a second
  pass turns it into the string \<^verbatim>\<open>repr\<close> gives.
\<close>

theorem normalize_val_not_idempotent:
  assumes "xs \<noteq> []"
  shows "\<exists>ys. fst (normalize_val lib clk (NSArray xs) key) = PList ys
     \<and> fst (normalize_val lib clk (PList ys) key') = PStr (repr lib (PList ys))"
  using assms by (simp add: collect_list_def)

theorem normalize_val_not_idempotent_witness:
  "[PInt 1] \<noteq> [] \<and> (\<exists>ys. fst (normalize_val demo_lib demo_clock (NSArray [PInt 1]) None) = PList ys
     \<and> fst (normalize_val demo_lib demo_clock (PList ys) None) = PStr (repr demo_lib (PList ys)))"
  using normalize_val_not_idempotent [of "[PInt 1]" demo_lib demo_clock None None] by simp

text \<open>
  C24: a byte string with a byte above 127 is not decoded permissively: \<^verbatim>\<open>unicode(val)\<close>
  raises \<^verbatim>\<open>UnicodeDecodeError\<close>, which the handler of \<^verbatim>\<open>UnicodeEncodeError\<close> does not
  catch, so the outer handler reports it on standard error and the result is
  \<^verbatim>\<open>repr(val)\<close>.
\<close>

theorem normalize_val_non_ascii_text:
  assumes "\<not> list_all is_ascii s" and "\<not> key_hints_timestamp key"
  shows "normalize_val lib clk (PStr s) key = (PStr (repr lib (PStr s)), [UnicodeDecodeError])"
  using assms by (simp add: normalize_val_text)

theorem normalize_val_non_ascii_text_witness:
  "\<not> list_all is_ascii [CHR 0xC3, CHR 0xA9] \<and> \<not> key_hints_timestamp (Some ''name'')
   \<and> normalize_val demo_lib demo_clock (PStr [CHR 0xC3, CHR 0xA9]) (Some ''name'')
       = (PStr ''<object>'', [UnicodeDecodeError])"
proof -
  have "\<not> list_all is_ascii [CHR 0xC3, CHR 0xA9]" by (simp add: is_ascii_def)
  moreover have "\<not> key_hints_timestamp (Some ''name'')" by code_simp
  ultimately show ?thesis
    using normalize_val_non_ascii_text [of "[CHR 0xC3, CHR 0xA9]" "Some ''name''" demo_lib demo_clock]
    by (simp add: demo_lib_def)
qed

text \<open>
  Binary data never reaches the output as it is. A \<^verbatim>\<open>buffer\<close> of ASCII bytes is read
  as UTF-16LE, two bytes a character and an odd last byte dropped; any other
  \<^verbatim>\<open>buffer\<close> becomes \<^verbatim>\<open>repr(val)\<close>. Nothing is reported, whatever the key.
\<close>

theorem normalize_val_buffer:
  "normalize_val lib clk (PBuffer s) key =
     (if list_all is_ascii s then PUnicode (decode_utf16le s) else PStr (repr lib (PBuffer s)), [])"
  by (simp add: normalize_buffer_eq)

text \<open>
  Under a key that hints at a time stamp, a value \<^verbatim>\<open>_value_to_datetime\<close> accepts is
  replaced by the date string \<^verbatim>\<open>strftime\<close> gives, which exists for every accepted date.
\<close>

theorem normalize_val_hinted_timestamp:
  assumes "key_hints_timestamp key" and "value_to_datetime clk val = Some t"
  shows "\<exists>s. normalize_val lib clk val key = (PStr s, []) \<and> strftime t = Inr s"
  using hinted_date_Some [OF assms] by (auto simp: normalize_val_hinted)

theorem normalize_val_hinted_timestamp_witness:
  "key_hints_timestamp (Some ''LastUsedDate'')
   \<and> normalize_val demo_lib demo_clock (PInt 1400000000) (Some ''LastUsedDate'')
       = (PStr ''2014-05-13 09:53:20'', [])"
  using normalize_val_hinted_timestamp [OF hinted_demo value_to_datetime_demo(1), of demo_lib]
    hinted_demo strftime_demo by simp

text \<open>
  A number is returned unchanged, unless its key hints at a time stamp and
  \<^verbatim>\<open>_value_to_datetime\<close> accepts it.
\<close>

theorem normalize_val_number_unchanged:
  assumes "is_number val" and "\<not> key_hints_timestamp key \<or> value_to_datetime clk val = None"
  shows "normalize_val lib clk val key = (val, [])"
  using assms by (auto simp: normalize_val_number hinted_date_def)

theorem normalize_val_number_unchanged_witness:
  "is_number (PInt 7) \<and> value_to_datetime demo_clock (PInt 7) = None
   \<and> normalize_val demo_lib demo_clock (PInt 7) (Some ''LastUsedDate'') = (PInt 7, [])"
proof -
  have "value_to_datetime demo_clock (PInt 7) = None" by code_simp
  then show ?thesis
    using normalize_val_number_unchanged [of "PInt 7" "Some ''LastUsedDate''" demo_clock demo_lib]
    by simp
qed

end
