(* ===== verification/Files.thy ===== *)
theory Files
  imports Timestamps
begin

text \<open>
  The helpers of \<^verbatim>\<open>src/osxcollector/osxcollector.py\<close> that touch the file system:
  \<^verbatim>\<open>_get_homedirs\<close>, \<^verbatim>\<open>listdir\<close>, \<^verbatim>\<open>_relative_path\<close>, \<^verbatim>\<open>pathjoin\<close>, \<^verbatim>\<open>_hash_file\<close> and
  \<^verbatim>\<open>_get_file_info\<close>. The file system is a value: which paths are directories and
  what they list, which are regular files, and for each file its bytes, its times,
  whether it can be opened and on which \<^verbatim>\<open>read\<close> call, if any, the device fails. The
  hash functions of \<^verbatim>\<open>hashlib\<close> are parameters.
\<close>

section \<open>The file system and the hash library\<close>

record regular_file =
  content :: string
  st_mtime :: rat
  st_ctime :: rat
  readable :: bool
  read_fault :: "nat option"

record filesystem =
  dirs :: "string \<rightharpoonup> string list"
  files :: "string \<rightharpoonup> regular_file"

record hashlib =
  md5 :: "string \<Rightarrow> string"
  sha1 :: "string \<Rightarrow> string"
  sha256 :: "string \<Rightarrow> string"

text \<open>
  A hash object is the function it computes and the bytes it was fed: \<^verbatim>\<open>update\<close>
  appends, \<^verbatim>\<open>hexdigest\<close> applies the function to everything fed so far.
\<close>

type_synonym hasher = "(string \<Rightarrow> string) \<times> string"

definition hasher_update :: "hasher \<Rightarrow> string \<Rightarrow> hasher" where
  "hasher_update h chunk = (fst h, snd h @ chunk)"

definition hexdigest :: "hasher \<Rightarrow> string" where
  "hexdigest h = fst h (snd h)"

section \<open>Paths\<close>

text \<open>\<^verbatim>\<open>os.path.join\<close> of \<^verbatim>\<open>posixpath\<close>: an absolute component discards what came before.\<close>

definition join_step :: "string \<Rightarrow> string \<Rightarrow> string" where
  "join_step path b =
     (if startswith b ''/'' then b
      else if path = [] \<or> endswith path ''/'' then path @ b
      else path @ ''/'' @ b)"

definition posix_join :: "string \<Rightarrow> string list \<Rightarrow> string" where
  "posix_join a p = foldl join_step a p"

definition ROOT_PATH :: string where
  "ROOT_PATH = ''/''"

record homedir =
  user_name :: string
  path :: string

definition relative_path :: "string \<Rightarrow> string" where
  "relative_path p = (if startswith p ''/'' then drop 1 p else p)"

definition pathjoin :: "string \<Rightarrow> string list \<Rightarrow> string" where
  "pathjoin p args =
     (if args \<noteq> [] then posix_join p (map relative_path args) else posix_join p [])"

definition ignored_files :: "string list" where
  "ignored_files = [''.DS_Store'', ''.localized'']"

definition listdir :: "filesystem \<Rightarrow> string \<Rightarrow> string list" where
  "listdir fs dir_path =
     (case dirs fs dir_path of
        None \<Rightarrow> []
      | Some names \<Rightarrow> filter (\<lambda>val. val \<notin> set ignored_files) names)"

text \<open>\<^verbatim>\<open>_get_homedirs\<close>, with the global \<^verbatim>\<open>ROOT_PATH\<close>, which \<^verbatim>\<open>main\<close> can set, as a parameter.\<close>

definition get_homedirs :: "string \<Rightarrow> filesystem \<Rightarrow> homedir list" where
  "get_homedirs root_path fs =
     map (\<lambda>name. \<lparr>user_name = name, path = pathjoin root_path [''Users'', name]\<rparr>)
       (filter (\<lambda>name. \<not> startswith name ''.'') (listdir fs (pathjoin root_path [''Users''])))"

section \<open>Hashing a file\<close>

definition new_hashers :: "hashlib \<Rightarrow> hasher list" where
  "new_hashers lib = [(md5 lib, []), (sha1 lib, []), (sha256 lib, [])]"

text \<open>
  The loop \<^verbatim>\<open>for chunk in iter(partial(f.read, chunk_size), '')\<close>, from the \<open>k\<close>-th call of
  \<^verbatim>\<open>read\<close> on, with \<open>data\<close> the bytes not yet read: every chunk is fed to every hash
  object, and the loop ends at the first empty chunk.
\<close>

function read_loop ::
  "nat \<Rightarrow> nat option \<Rightarrow> nat \<Rightarrow> string \<Rightarrow> hasher list \<Rightarrow> hasher list result" where
  "read_loop chunk_size fault k data hashers =
     (if fault = Some k then Inl IOError
      else if take chunk_size data = [] then Inr hashers
      else read_loop chunk_size fault (Suc k) (drop chunk_size data)
             (map (\<lambda>hasher. hasher_update hasher (take chunk_size data)) hashers))"
  by pat_completeness auto
termination
  by (relation "measure (\<lambda>(chunk_size, fault, k, data, hashers). length data)") auto

declare read_loop.simps [simp del]

definition open_rb :: "filesystem \<Rightarrow> string \<Rightarrow> regular_file result" where
  "open_rb fs file_path =
     (case files fs file_path of
        None \<Rightarrow> Inl IOError
      | Some f \<Rightarrow> if readable f then Inr f else Inl IOError)"

definition hash_file :: "hashlib \<Rightarrow> filesystem \<Rightarrow> string \<Rightarrow> string list" where
  "hash_file lib fs file_path =
     (case bind_result (open_rb fs file_path)
             (\<lambda>f. read_loop (1024 * 1024) (read_fault f) 0 (content f) (new_hashers lib)) of
        Inr hashers \<Rightarrow> map hexdigest hashers
      | Inl e \<Rightarrow> [[], [], []])"

section \<open>File information\<close>

definition date_field :: "datetime \<Rightarrow> pyval" where
  "date_field dt = (case datetime_to_string dt of Some s \<Rightarrow> PStr s | None \<Rightarrow> PNone)"

definition file_info_record ::
  "string \<Rightarrow> string \<Rightarrow> string \<Rightarrow> string \<Rightarrow> pyval \<Rightarrow> pyval \<Rightarrow> log_record" where
  "file_info_record md5_hash sha1_hash sha2_hash file_path mtime ctime =
     [(''md5'', PStr md5_hash), (''sha1'', PStr sha1_hash), (''sha2'', PStr sha2_hash),
      (''file_path'', PStr file_path), (''mtime'', mtime), (''ctime'', ctime)]"

text \<open>
  \<^verbatim>\<open>_get_file_info\<close>. The two calls of \<^verbatim>\<open>datetime.fromtimestamp\<close> are outside every
  \<^verbatim>\<open>try\<close>: a time outside the years 1 to 9999 raises \<^verbatim>\<open>ValueError\<close> to the caller.
\<close>

definition get_file_info ::
  "hashlib \<Rightarrow> clock \<Rightarrow> filesystem \<Rightarrow> string \<Rightarrow> log_record result" where
  "get_file_info lib clk fs file_path =
     (case files fs file_path of
        None \<Rightarrow> Inr (file_info_record [] [] [] file_path (PStr []) (PStr []))
      | Some f \<Rightarrow>
          bind_result (fromtimestamp_float clk (st_mtime f)) (\<lambda>m.
          bind_result (fromtimestamp_float clk (st_ctime f)) (\<lambda>c.
            (case hash_file lib fs file_path of
               [md5_hash, sha1_hash, sha2_hash] \<Rightarrow>
                 Inr (file_info_record md5_hash sha1_hash sha2_hash file_path (date_field m) (date_field c))
             | _ \<Rightarrow> Inl ValueError))))"

text \<open>
  A small file system and hash library for the worked examples. The hash functions
  are injective stand-ins, so that the bytes that were hashed can be read off.
\<close>

definition demo_hashlib :: hashlib where
  "demo_hashlib =
     \<lparr>md5 = (\<lambda>s. ''md5:'' @ s), sha1 = (\<lambda>s. ''sha1:'' @ s), sha256 = (\<lambda>s. ''sha256:'' @ s)\<rparr>"

definition demo_file :: regular_file where
  "demo_file = \<lparr>content = ''127.0.0.1 localhost'', st_mtime = 1400000000, st_ctime = 2800000001 / 2,
                 readable = True, read_fault = None\<rparr>"

definition demo_fs :: filesystem where
  "demo_fs =
     \<lparr>dirs = [''/Users'' \<mapsto> [''.localized'', ''alice'', ''.hidden'', ''Shared'']],
      files = [''/etc/hosts'' \<mapsto> demo_file,
               ''/etc/sudoers'' \<mapsto> demo_file\<lparr>readable := False\<rparr>,
               ''/dev/bad'' \<mapsto> demo_file\<lparr>read_fault := Some 0\<rparr>,
               ''/etc/old'' \<mapsto> demo_file\<lparr>st_mtime := - 70000000000\<rparr>]\<rparr>"

section \<open>The read loop and the paths\<close>

lemma read_loop_no_fault:
  "0 < n \<Longrightarrow> read_loop n None k data hs = Inr (map (\<lambda>h. (fst h, snd h @ data)) hs)"
proof (induction n "None :: nat option" k data hs rule: read_loop.induct)
  case (1 n k data hs)
  show ?case
  proof (cases "data = []")
    case True
    then show ?thesis by (subst read_loop.simps) simp
  next
    case False
    with 1 show ?thesis
      by (subst read_loop.simps) (simp add: hasher_update_def comp_def)
  qed
qed

lemma read_loop_fault:
  "0 < n \<Longrightarrow> k \<le> j \<Longrightarrow> (j - k) * n \<le> length data \<Longrightarrow> read_loop n (Some j) k data hs = Inl IOError"
proof (induction n "Some j" k data hs rule: read_loop.induct)
  case (1 n k data hs)
  show ?case
  proof (cases "j = k")
    case True
    then show ?thesis by (subst read_loop.simps) simp
  next
    case False
    with 1(3) have kj: "Suc k \<le> j" by simp
    then obtain d where d: "j - k = Suc d" by (cases "j - k") auto
    then have d': "j - Suc k = d" by simp
    from d 1(4) have len: "n \<le> length data" "(j - Suc k) * n \<le> length data - n"
      unfolding d' by simp_all
    with 1(2) have ne: "take n data \<noteq> []" by auto
    from False have "Some j \<noteq> Some k" by simp
    from 1(1) [OF this ne 1(2) kj] len
    have "read_loop n (Some j) (Suc k) (drop n data)
            (map (\<lambda>hasher. hasher_update hasher (take n data)) hs) = Inl IOError"
      by simp
    with False ne show ?thesis by (subst read_loop.simps) simp
  qed
qed

lemma join_step_prefix: "\<not> startswith b ''/'' \<Longrightarrow> prefix p (join_step p b)"
  by (simp add: join_step_def)

lemma posix_join_prefix:
  "\<forall>b \<in> set bs. \<not> startswith b ''/'' \<Longrightarrow> prefix p (posix_join p bs)"
  unfolding posix_join_def
proof (induction bs arbitrary: p)
  case Nil
  then show ?case by simp
next
  case (Cons b bs)
  from Cons.prems have "prefix p (join_step p b)" by (simp add: join_step_prefix)
  moreover from Cons have "prefix (join_step p b) (foldl join_step (join_step p b) bs)" by simp
  ultimately show ?case by (auto intro: prefix_order.trans)
qed

lemma relative_path_absolute: "startswith (relative_path a) ''/'' \<longleftrightarrow> startswith a ''//''"
  by (cases a) (auto simp: relative_path_def startswith_def)

lemma posix_join_restart:
  "startswith b ''/'' \<Longrightarrow> posix_join p (pre @ b # post) = posix_join b post"
  by (simp add: posix_join_def join_step_def)

lemma relative_path_two_slashes:
  "startswith a ''//'' \<Longrightarrow> relative_path a = drop 1 a \<and> startswith (drop 1 a) ''/''"
  by (cases a) (auto simp: relative_path_def startswith_def)

lemma pathjoin_restart:
  assumes "startswith a ''//''"
  shows "pathjoin p (pre @ a # post) = pathjoin (drop 1 a) post"
proof -
  from relative_path_two_slashes [OF assms]
  have a: "relative_path a = drop 1 a" "startswith (drop 1 a) ''/''"
    by simp_all
  have "pathjoin p (pre @ a # post) =
      posix_join p (map relative_path pre @ drop 1 a # map relative_path post)"
    by (simp add: pathjoin_def a(1))
  also have "\<dots> = posix_join (drop 1 a) (map relative_path post)"
    using a(2) by (rule posix_join_restart)
  also have "\<dots> = pathjoin (drop 1 a) post"
    by (simp add: pathjoin_def)
  finally show ?thesis .
qed

lemmas files_eval = demo_fs_def demo_file_def demo_hashlib_def open_rb_def hash_file_def
  new_hashers_def hexdigest_def pathjoin_def posix_join_def join_step_def relative_path_def
  startswith_def endswith_def suffix_to_prefix listdir_def ignored_files_def get_homedirs_def

lemma read_loop_length:
  "read_loop n fault k data hs = Inr hs' \<Longrightarrow> length hs' = length hs"
proof (induction n fault k data hs rule: read_loop.induct)
  case (1 n fault k data hs)
  from 1(2) show ?case
    by (subst (asm) read_loop.simps) (auto split: if_splits dest: 1(1))
qed

lemma hash_file_three: "\<exists>a b c. hash_file lib fs p = [a, b, c]"
proof (cases "bind_result (open_rb fs p)
    (\<lambda>f. read_loop (1024 * 1024) (read_fault f) 0 (content f) (new_hashers lib))")
  case (Inl e)
  then show ?thesis by (simp add: hash_file_def)
next
  case (Inr hs)
  then have "length hs = 3"
    by (auto simp: bind_result_eq_Inr_iff new_hashers_def dest: read_loop_length)
  then obtain a b c where "hs = [a, b, c]"
    by (auto simp: numeral_3_eq_3 length_Suc_conv)
  with Inr show ?thesis by (simp add: hash_file_def)
qed

lemma demo_times:
  "fromtimestamp_float demo_clock 1400000000 = Inr 63535571600000000"
  "fromtimestamp_float demo_clock (2800000001 / 2) = Inr 63535571600500000"
  "date_field 63535571600000000 = PStr ''2014-05-13 09:53:20''"
  "date_field 63535571600500000 = PStr ''2014-05-13 09:53:20''"
  "fromtimestamp_float demo_clock (- 70000000000) = Inl ValueError"
  by code_simp+

lemma get_file_info_demo:
  "get_file_info demo_hashlib demo_clock demo_fs ''/etc/hosts'' =
     Inr [(''md5'', PStr ''md5:127.0.0.1 localhost''), (''sha1'', PStr ''sha1:127.0.0.1 localhost''),
          (''sha2'', PStr ''sha256:127.0.0.1 localhost''), (''file_path'', PStr ''/etc/hosts''),
          (''mtime'', PStr ''2014-05-13 09:53:20''), (''ctime'', PStr ''2014-05-13 09:53:20'')]"
  by (simp add: get_file_info_def files_eval read_loop_no_fault demo_times file_info_record_def)

section \<open>Properties\<close>

text \<open>
  C11: \<^verbatim>\<open>_hash_file\<close> on a file that can be read to its end returns the three digests of
  the whole content: reading in chunks of a mebibyte and feeding each chunk to each
  hash object is the same as hashing the bytes at once. In particular the digests of
  an empty file are those of the empty string, not the error placeholders.
\<close>

theorem hash_file_whole_content:
  assumes "files fs p = Some f" and "readable f" and "read_fault f = None"
  shows "hash_file lib fs p = [md5 lib (content f), sha1 lib (content f), sha256 lib (content f)]"
  using assms by (simp add: hash_file_def open_rb_def read_loop_no_fault new_hashers_def hexdigest_def)

theorem hash_file_whole_content_witness:
  "hash_file demo_hashlib demo_fs ''/etc/hosts''
     = [''md5:127.0.0.1 localhost'', ''sha1:127.0.0.1 localhost'', ''sha256:127.0.0.1 localhost'']"
  using hash_file_whole_content [of demo_fs "''/etc/hosts''" demo_file demo_hashlib]
  by (simp add: demo_fs_def demo_file_def demo_hashlib_def)

text \<open>
  C33: \<^verbatim>\<open>_hash_file\<close> returns three empty strings, and raises nothing, when the path is no
  file, when the file cannot be opened, and when a \<^verbatim>\<open>read\<close> fails before the end of the
  content.
\<close>

theorem hash_file_failure:
  assumes "files fs p = None \<or> (\<exists>f. files fs p = Some f \<and>
             (\<not> readable f \<or> (\<exists>j. read_fault f = Some j \<and> j * (1024 * 1024) \<le> length (content f))))"
  shows "hash_file lib fs p = [[], [], []]"
  using assms read_loop_fault [of "1024 * 1024" 0]
  by (auto simp: hash_file_def open_rb_def)

theorem hash_file_failure_witness:
  "hash_file demo_hashlib demo_fs ''/nonexistent'' = [[], [], []]
   \<and> hash_file demo_hashlib demo_fs ''/etc/sudoers'' = [[], [], []]
   \<and> hash_file demo_hashlib demo_fs ''/dev/bad'' = [[], [], []]"
  using hash_file_failure [of demo_fs "''/nonexistent''" demo_hashlib]
    hash_file_failure [of demo_fs "''/etc/sudoers''" demo_hashlib]
    hash_file_failure [of demo_fs "''/dev/bad''" demo_hashlib]
  by (simp add: demo_fs_def demo_file_def)

text \<open>
  C34: \<^verbatim>\<open>pathjoin\<close> stays below its first argument, as long as no later argument begins
  with two slashes: one leading slash is removed from each, and none is left.
\<close>

theorem pathjoin_under_root:
  assumes "\<forall>a \<in> set args. \<not> startswith a ''//''"
  shows "prefix p (pathjoin p args)"
  using assms by (auto simp: pathjoin_def relative_path_absolute intro!: posix_join_prefix)

theorem pathjoin_under_root_witness:
  "prefix ''/mnt/image'' (pathjoin ''/mnt/image'' [''Users'', ''/alice''])
   \<and> pathjoin ''/mnt/image'' [''Users'', ''/alice''] = ''/mnt/image/Users/alice''"
  using pathjoin_under_root [of "[''Users'', ''/alice'']" "''/mnt/image''"]
  by (simp add: files_eval)

text \<open>
  C35: an argument that begins with two slashes escapes, wherever it stands and whatever
  the root is: \<^verbatim>\<open>_relative_path\<close> removes only one of the slashes, \<^verbatim>\<open>os.path.join\<close>
  restarts at what is left, and the root and every argument before it are discarded.
  The result is the join of the arguments after it onto that absolute path.
\<close>

theorem pathjoin_escapes_root:
  assumes "startswith a ''//''"
  shows "pathjoin p (pre @ a # post) = pathjoin (drop 1 a) post"
  using assms by (simp add: pathjoin_restart)

theorem pathjoin_escapes_root_witness:
  "pathjoin ''/mnt/image'' [''//etc/passwd''] = ''/etc/passwd''
   \<and> pathjoin ''/mnt/image'' [''Users'', ''//etc'', ''/passwd''] = ''/etc/passwd''
   \<and> \<not> prefix ''/mnt/image'' (pathjoin ''/mnt/image'' [''//etc/passwd''])"
  using pathjoin_escapes_root [of "''//etc/passwd''" "''/mnt/image''" "[]" "[]"]
    pathjoin_escapes_root [of "''//etc''" "''/mnt/image''" "[''Users'']" "[''/passwd'']"]
  by (simp add: files_eval)

text \<open>
  Every home directory \<^verbatim>\<open>_get_homedirs\<close> returns is an entry of the \<^verbatim>\<open>Users\<close>
  directory below the root, its name does not begin with a dot, and its path is the
  join of the root, \<^verbatim>\<open>Users\<close> and the name.
\<close>

theorem get_homedirs_sound:
  assumes "h \<in> set (get_homedirs root_path fs)"
  shows "\<not> startswith (user_name h) ''.'' \<and> path h = pathjoin root_path [''Users'', user_name h]
     \<and> (\<exists>names. dirs fs (pathjoin root_path [''Users'']) = Some names \<and> user_name h \<in> set names)"
  using assms
  by (cases "dirs fs (pathjoin root_path [''Users''])") (auto simp: get_homedirs_def listdir_def)

theorem get_homedirs_sound_witness:
  "get_homedirs ROOT_PATH demo_fs =
     [\<lparr>user_name = ''alice'', path = ''/Users/alice''\<rparr>, \<lparr>user_name = ''Shared'', path = ''/Users/Shared''\<rparr>]
   \<and> \<not> startswith ''alice'' ''.''"
  using get_homedirs_sound [of "\<lparr>user_name = ''alice'', path = ''/Users/alice''\<rparr>" ROOT_PATH demo_fs]
  by (simp add: files_eval ROOT_PATH_def)

text \<open>
  A record \<^verbatim>\<open>_get_file_info\<close> returns has the six keys \<^verbatim>\<open>md5\<close>, \<^verbatim>\<open>sha1\<close>, \<^verbatim>\<open>sha2\<close>,
  \<^verbatim>\<open>file_path\<close>, \<^verbatim>\<open>mtime\<close> and \<^verbatim>\<open>ctime\<close>, the path is the one asked for, and for a path
  that is no file the other five are empty strings.
\<close>

theorem get_file_info_fields:
  assumes "get_file_info lib clk fs p = Inr r"
  shows "map fst r = [''md5'', ''sha1'', ''sha2'', ''file_path'', ''mtime'', ''ctime'']
     \<and> map_of r ''file_path'' = Some (PStr p)
     \<and> (files fs p = None \<longrightarrow> (\<forall>k \<in> set [''md5'', ''sha1'', ''sha2'', ''mtime'', ''ctime'']. map_of r k = Some (PStr [])))"
proof -
  obtain a b c where "hash_file lib fs p = [a, b, c]" using hash_file_three by blast
  with assms show ?thesis
    by (auto simp: get_file_info_def file_info_record_def bind_result_eq_Inr_iff split: option.splits)
qed

theorem get_file_info_fields_witness:
  "map fst (file_info_record ''md5:127.0.0.1 localhost'' ''sha1:127.0.0.1 localhost''
      ''sha256:127.0.0.1 localhost'' ''/etc/hosts'' (PStr ''2014-05-13 09:53:20'') (PStr ''2014-05-13 09:53:20''))
     = [''md5'', ''sha1'', ''sha2'', ''file_path'', ''mtime'', ''ctime'']
   \<and> files demo_fs ''/etc/hosts'' \<noteq> None"
  using get_file_info_fields [OF get_file_info_demo]
  by (simp add: file_info_record_def demo_fs_def)

text \<open>
  \<^verbatim>\<open>_get_file_info\<close> can raise. A modification time that lies outside the years
  \<^verbatim>\<open>datetime\<close> represents makes \<^verbatim>\<open>datetime.fromtimestamp\<close> raise, no handler encloses
  the call, and the caller gets the exception instead of a record.
\<close>

theorem get_file_info_bad_time_raises:
  assumes "files fs p = Some f" and "fromtimestamp_float clk (st_mtime f) = Inl e"
  shows "get_file_info lib clk fs p = Inl e"
  using assms by (simp add: get_file_info_def)

theorem get_file_info_bad_time_raises_witness:
  "get_file_info demo_hashlib demo_clock demo_fs ''/etc/old'' = Inl ValueError"
  using get_file_info_bad_time_raises [of demo_fs "''/etc/old''" "demo_file\<lparr>st_mtime := - 70000000000\<rparr>"
      demo_clock ValueError demo_hashlib] demo_times(5)
  by (simp add: demo_fs_def demo_file_def)

end
