(* ===== verification/Collector.thy ===== *)
theory Collector
  imports DictUtils Actions Normalize Files
begin

text \<open>
  The frame of class \<^verbatim>\<open>Collector\<close> of \<^verbatim>\<open>src/osxcollector/osxcollector.py\<close>: the loop over
  the sections in \<^verbatim>\<open>collect\<close>, the decorator \<^verbatim>\<open>_foreach_homedir\<close>, \<^verbatim>\<open>_read_plist\<close> and
  \<^verbatim>\<open>_log_items_in_plist\<close>. This is where the components meet: every section runs
  inside \<^verbatim>\<open>Logger.Extra\<close>, what it raises goes to \<^verbatim>\<open>Logger.log_exception\<close>, property
  lists pass through \<^verbatim>\<open>_normalize_val\<close> and are searched with \<^verbatim>\<open>DictUtils.get_deep\<close>.
  The section methods themselves and the Foundation reader are parameters. The
  natural number is the number of stack frames left, as in the logger.
\<close>

section \<open>The sections\<close>

definition section_names :: "string list" where
  "section_names =
     [''system_info'', ''kext'', ''startup'', ''applications'', ''quarantines'', ''downloads'',
      ''chrome'', ''firefox'', ''safari'', ''accounts'', ''mail'']"

text \<open>
  An \<^verbatim>\<open>except Exception as e\<close> clause around an action that passes the exception to
  \<^verbatim>\<open>Logger.log_exception\<close> with a message.
\<close>

definition logging_exceptions :: "pylib \<Rightarrow> nat \<Rightarrow> string \<Rightarrow> action \<Rightarrow> action" where
  "logging_exceptions lib n message act L =
     (case act L of
        (None, L') \<Rightarrow> (None, L')
      | (Some e, L') \<Rightarrow> log_exception lib n e message L')"

text \<open>
  The body of the loop in \<^verbatim>\<open>collect\<close>. \<^verbatim>\<open>section_list\<close> is the list the caller passes,
  empty when it passes none; \<^verbatim>\<open>continue\<close> leaves the \<^verbatim>\<open>with\<close> block normally.
\<close>

definition run_section ::
  "pylib \<Rightarrow> nat \<Rightarrow> string list \<Rightarrow> string \<times> action \<Rightarrow> action" where
  "run_section lib n section_list sec =
     with_extra lib ''osxcollector_section'' (PStr (fst sec))
       (\<lambda>L. if section_list \<noteq> [] \<and> fst sec \<notin> set section_list then (None, L)
            else logging_exceptions lib n ''failed section'' (snd sec) L)"

definition collect :: "pylib \<Rightarrow> nat \<Rightarrow> (string \<Rightarrow> action) \<Rightarrow> string list \<Rightarrow> action" where
  "collect lib n methods section_list =
     for_each (run_section lib n section_list) (map (\<lambda>name. (name, methods name)) section_names)"

section \<open>Once for every home directory\<close>

definition foreach_homedir ::
  "pylib \<Rightarrow> nat \<Rightarrow> (homedir \<Rightarrow> action) \<Rightarrow> homedir list \<Rightarrow> action" where
  "foreach_homedir lib n func homedirs =
     for_each (\<lambda>homedir.
        with_extra lib ''osxcollector_username'' (PStr (user_name homedir))
          (logging_exceptions lib n [] (func homedir))) homedirs"

section \<open>Property lists\<close>

text \<open>
  \<^verbatim>\<open>_read_plist\<close>. The two Foundation calls are one parameter, which returns the
  property list or raises. The result is the value returned, or the exception that
  escapes, with the state of the logger. What \<^verbatim>\<open>_normalize_val\<close> reports goes to
  standard error.
\<close>

definition read_plist ::
  "pylib \<Rightarrow> clock \<Rightarrow> nat \<Rightarrow> filesystem \<Rightarrow> (string \<Rightarrow> pyval result) \<Rightarrow> string \<Rightarrow> logger
     \<Rightarrow> pyval result \<times> logger" where
  "read_plist lib clk n fs foundation plist_path L =
     (if files fs plist_path = None then (Inr (PDict []), L)
      else
        (case foundation plist_path of
           Inr plist_dictionary \<Rightarrow>
             (let (val, errs) = normalize_val lib clk plist_dictionary None
              in (Inr val, L\<lparr>stderr := stderr L @ map NormalizeError errs\<rparr>))
         | Inl e \<Rightarrow>
             (case log_exception lib n e (''_read_plist failed on '' @ plist_path) L of
                (None, L') \<Rightarrow> (Inr (PDict []), L')
              | (Some e', L') \<Rightarrow> (Inl e', L'))))"

text \<open>
  \<^verbatim>\<open>_log_items_in_plist\<close>. \<^verbatim>\<open>DictUtils.get_deep\<close> and the start of the iteration are
  outside the \<^verbatim>\<open>try\<close>; the transformation and \<^verbatim>\<open>Logger.log_dict\<close> are inside.
\<close>

definition log_item :: "pylib \<Rightarrow> nat \<Rightarrow> (pyval \<Rightarrow> pyval result) option \<Rightarrow> pyval \<Rightarrow> action" where
  "log_item lib n transform item =
     logging_exceptions lib n []
       (\<lambda>L. case (case transform of None \<Rightarrow> Inr item | Some f \<Rightarrow> f item) of
              Inl e \<Rightarrow> (Some e, L)
            | Inr item' \<Rightarrow> log_dict lib n item' L)"

definition log_items_in_plist ::
  "pylib \<Rightarrow> nat \<Rightarrow> pyval \<Rightarrow> string \<Rightarrow> (pyval \<Rightarrow> pyval result) option \<Rightarrow> action" where
  "log_items_in_plist lib n plist p transform L =
     (case bind_result (get_deep plist (PathStr p) (PList [])) py_iter of
        Inl e \<Rightarrow> (Some e, L)
      | Inr items \<Rightarrow> for_each (log_item lib n transform) items L)"

section \<open>Conditions on the environment\<close>

text \<open>
  A section method is \<open>tame\<close> when it leaves the extras and the debug flag as they were
  and keeps a healthy output file healthy, whether it returns or raises.
\<close>

definition tame :: "action \<Rightarrow> bool" where
  "tame act \<longleftrightarrow> (\<forall>L r L'. act L = (r, L') \<longrightarrow>
     extras L' = extras L \<and> debug_mode L' = debug_mode L \<and>
     (healthy (output_file L) \<longrightarrow> healthy (output_file L')))"

text \<open>Parameters for the worked examples: a \<^verbatim>\<open>dumps\<close> that prints the keys, a set of
  section methods of which one raises, and a logger whose file refuses every call.\<close>

definition plain_lib :: pylib where
  "plain_lib =
     \<lparr>dumps = (\<lambda>r. Inr (concat (map (\<lambda>kv. fst kv @ '';'') r))),
      repr = (\<lambda>v. ''<object>''),
      format_exception = (\<lambda>m e. m @ '' failed'')\<rparr>"

definition demo_methods :: "string \<Rightarrow> action" where
  "demo_methods name L = (if name = ''kext'' then (Some IOError, L) else (None, L))"

definition broken_logger :: logger where
  "broken_logger = demo_logger\<lparr>output_file := \<lparr>written = [], ops = 0, fails = (\<lambda>n. True)\<rparr>\<rparr>"

section \<open>The loops keep the logger steady\<close>

lemma tame_keeps: "tame act \<Longrightarrow> keeps (steady ex) act"
  by (rule keepsI) (auto simp: tame_def steady_def)

lemma keeps_logging_exceptions [keeps_intros]:
  assumes "keeps (steady ex) act"
  shows "keeps (steady ex) (logging_exceptions lib n m act)"
proof (rule keepsI)
  fix L r L' assume s: "steady ex L" and l: "logging_exceptions lib n m act L = (r, L')"
  obtain ra L1 where a: "act L = (ra, L1)" by (cases "act L")
  from keepsD [OF assms s a] have s1: "steady ex L1" .
  show "steady ex L'"
  proof (cases ra)
    case None
    with a l s1 show ?thesis by (simp add: logging_exceptions_def)
  next
    case (Some e)
    with a l have "log_exception lib n e m L1 = (r, L')" by (simp add: logging_exceptions_def)
    from keepsD [OF keeps_log(2) s1 this] show ?thesis .
  qed
qed

text \<open>A \<^verbatim>\<open>try\<close> block whose handler logs the exception returns normally, whatever its body does.\<close>

lemma returns_logging_exceptions [returns_intros]:
  assumes "total_dumps lib" and "keeps (steady ex) act"
  shows "returns (steady ex) (logging_exceptions lib (n + 3) m act)"
  unfolding returns_def
proof (intro allI impI)
  fix L assume s: "steady ex L"
  obtain ra L1 where a: "act L = (ra, L1)" by (cases "act L")
  from keepsD [OF assms(2) s a] have s1: "steady ex L1" .
  show "\<exists>L'. logging_exceptions lib (n + 3) m act L = (None, L') \<and> steady ex L'"
  proof (cases ra)
    case None
    with a s1 show ?thesis by (simp add: logging_exceptions_def)
  next
    case (Some e)
    with a writesD [OF writes_log_exception [OF assms(1)] s1, of n e m] show ?thesis
      by (auto simp: logging_exceptions_def)
  qed
qed

text \<open>A \<^verbatim>\<open>try\<close> block that writes one line when its body returns writes one line in any case.\<close>

lemma writes_logging_exceptions:
  assumes "total_dumps lib" and "keeps (steady ex) act"
    and "\<And>L L'. steady ex L \<Longrightarrow> act L = (None, L') \<Longrightarrow> lines_written L' = lines_written L + 1"
    and "\<And>L e L'. steady ex L \<Longrightarrow> act L = (Some e, L') \<Longrightarrow> lines_written L' = lines_written L"
  shows "writes (steady ex) 1 (logging_exceptions lib (n + 3) m act)"
  unfolding writes_def
proof (intro allI impI)
  fix L assume s: "steady ex L"
  obtain ra L1 where a: "act L = (ra, L1)" by (cases "act L")
  from keepsD [OF assms(2) s a] have s1: "steady ex L1" .
  show "\<exists>L'. logging_exceptions lib (n + 3) m act L = (None, L') \<and> steady ex L'
      \<and> lines_written L' = lines_written L + 1"
  proof (cases ra)
    case None
    with a s1 assms(3) [OF s] show ?thesis by (simp add: logging_exceptions_def)
  next
    case (Some e)
    with a writesD [OF writes_log_exception [OF assms(1)] s1, of n e m] assms(4) [OF s]
    show ?thesis by (auto simp: logging_exceptions_def)
  qed
qed

lemma returns_run_section [returns_intros]:
  assumes "total_dumps lib" and "''osxcollector_section'' \<notin> fst ` set ex"
    and "keeps (steady (AList.update ''osxcollector_section'' (PStr (fst sec)) ex)) (snd sec)"
  shows "returns (steady ex) (run_section lib (n + 3) section_list sec)"
  unfolding run_section_def
  using assms by (intro returns_intros) simp_all

lemma logging_exceptions_try_catch:
  "logging_exceptions lib n m act = try_catch act (\<lambda>e. log_exception lib n e m)"
  by (rule ext) (simp add: logging_exceptions_def try_catch_def split: prod.splits option.splits)

lemma writes_run_section:
  assumes "''osxcollector_section'' \<notin> fst ` set ex"
    and "section_list = [] \<or> fst sec \<in> set section_list"
    and "writes (steady (AList.update ''osxcollector_section'' (PStr (fst sec)) ex)) k (snd sec)"
  shows "writes (steady ex) k (run_section lib n section_list sec)"
  unfolding run_section_def logging_exceptions_try_catch
  using assms by (intro writes_with_extra) (auto intro: writes_try_catch)

lemma writes_run_section_skipped:
  assumes "''osxcollector_section'' \<notin> fst ` set ex"
    and "section_list \<noteq> []" and "fst sec \<notin> set section_list"
  shows "writes (steady ex) 0 (run_section lib n section_list sec)"
proof -
  from assms(2,3)
  have "(\<lambda>L. if section_list \<noteq> [] \<and> fst sec \<notin> set section_list then (None, L)
             else logging_exceptions lib n ''failed section'' (snd sec) L) = skip"
    by (simp add: skip_def fun_eq_iff)
  with assms(1) show ?thesis
    unfolding run_section_def by (simp add: writes_with_extra skip_rules)
qed

lemma returns_collect [returns_intros]:
  assumes "total_dumps lib" and "''osxcollector_section'' \<notin> fst ` set ex"
    and "\<And>name. name \<in> set section_names \<Longrightarrow>
           keeps (steady (AList.update ''osxcollector_section'' (PStr name) ex)) (methods name)"
  shows "returns (steady ex) (collect lib (n + 3) methods section_list)"
  unfolding collect_def
  using assms by (intro returns_intros) auto

lemma returns_foreach_homedir [returns_intros]:
  assumes "total_dumps lib" and "''osxcollector_username'' \<notin> fst ` set ex"
    and "\<And>h. h \<in> set homedirs \<Longrightarrow>
           keeps (steady (AList.update ''osxcollector_username'' (PStr (user_name h)) ex)) (func h)"
  shows "returns (steady ex) (foreach_homedir lib (n + 3) func homedirs)"
  unfolding foreach_homedir_def
  using assms by (intro returns_intros) auto

lemma keeps_foreach_homedir [keeps_intros]:
  assumes "''osxcollector_username'' \<notin> fst ` set ex"
    and "\<And>h. h \<in> set homedirs \<Longrightarrow>
           keeps (steady (AList.update ''osxcollector_username'' (PStr (user_name h)) ex)) (func h)"
  shows "keeps (steady ex) (foreach_homedir lib n func homedirs)"
  unfolding foreach_homedir_def
  using assms by (intro keeps_intros) auto

text \<open>Each item costs one line: its record, or the report that it is no dictionary.\<close>

lemma writes_log_item [writes_intros]:
  assumes "total_dumps lib"
  shows "writes (steady ex) 1 (log_item lib (n + 3) None item)"
proof (cases "dict_items item")
  case None
  then have "log_dict lib (n + 3) item = raise AttributeError"
    by (simp add: fun_eq_iff raise_def numeral_3_eq_3)
  then show ?thesis
    unfolding log_item_def logging_exceptions_try_catch by (simp add: writes_log [OF assms] del: One_nat_def)
next
  case (Some r)
  then have "log_dict lib (n + 3) item = log_dict lib (n + 3) (PDict r)"
    by (simp add: fun_eq_iff numeral_3_eq_3)
  then show ?thesis
    unfolding log_item_def logging_exceptions_try_catch
    by (simp add: writes_try_catch writes_log [OF assms] del: One_nat_def)
qed

lemma writes_log_items [writes_intros]:
  "total_dumps lib \<Longrightarrow> writes (steady ex) (length items) (for_each (log_item lib (n + 3) None) items)"
  by (intro writes_for_each_one writes_log_item)

lemma keeps_comp_read_plist [keeps_intros]:
  "keeps_comp (steady ex) (read_plist lib clk n fs foundation plist_path)"
  unfolding keeps_comp_def
proof (intro allI impI)
  fix L r L' assume s: "steady ex L" and r: "read_plist lib clk n fs foundation plist_path L = (r, L')"
  show "steady ex L'"
  proof (cases "files fs plist_path = None \<or> (\<exists>d. foundation plist_path = Inr d)")
    case True
    with r s show ?thesis
      by (auto simp: read_plist_def steady_def split: if_splits prod.splits)
  next
    case False
    then obtain e where e: "foundation plist_path = Inl e" by (cases "foundation plist_path") auto
    obtain r1 L1 where l: "log_exception lib n e (''_read_plist failed on '' @ plist_path) L = (r1, L1)"
      by (cases "log_exception lib n e (''_read_plist failed on '' @ plist_path) L")
    from keepsD [OF keeps_log(2) s l] r False e l show ?thesis
      by (cases r1) (auto simp: read_plist_def)
  qed
qed

text \<open>\<^verbatim>\<open>_read_plist\<close> returns a value whatever the reader does, when the logger can write.\<close>

lemma yields_read_plist [returns_intros]:
  assumes "total_dumps lib"
  shows "yields (steady ex) (read_plist lib clk (n + 3) fs foundation plist_path)"
  unfolding yields_def
proof (intro allI impI)
  fix L assume s: "steady ex L"
  show "\<exists>v L'. read_plist lib clk (n + 3) fs foundation plist_path L = (Inr v, L') \<and> steady ex L'"
  proof (cases "files fs plist_path = None \<or> (\<exists>d. foundation plist_path = Inr d)")
    case True
    with s show ?thesis by (auto simp: read_plist_def steady_def split: prod.splits)
  next
    case False
    then obtain e where e: "foundation plist_path = Inl e" by (cases "foundation plist_path") auto
    from writesD [OF writes_log(2) [OF assms] s, of n e "''_read_plist failed on '' @ plist_path"]
      False e
    show ?thesis by (auto simp: read_plist_def)
  qed
qed

lemma keeps_log_item [keeps_intros]: "keeps (steady ex) (log_item lib n transform item)"
  unfolding log_item_def
  by (intro keeps_intros keepsI) (auto split: sum.splits dest: keepsD [OF keeps_log(1)])

lemma keeps_log_items_in_plist [keeps_intros]:
  "keeps (steady ex) (log_items_in_plist lib n plist p transform)"
proof (rule keepsI)
  fix L r L' assume s: "steady ex L" and l: "log_items_in_plist lib n plist p transform L = (r, L')"
  show "steady ex L'"
  proof (cases "bind_result (get_deep plist (PathStr p) (PList [])) py_iter")
    case (Inl e)
    with l s show ?thesis by (simp add: log_items_in_plist_def)
  next
    case (Inr items)
    with l have "for_each (log_item lib n transform) items L = (r, L')"
      by (simp add: log_items_in_plist_def)
    from keepsD [OF keeps_for_each [OF keeps_log_item] s this] show ?thesis .
  qed
qed

lemma demo_env:
  "total_dumps plain_lib" "tame (demo_methods name)" "tame (\<lambda>L. (Some KeyError, L))"
  "\<not> debug_mode demo_logger" "healthy (output_file demo_logger)" "extras demo_logger = []"
  "broken (output_file broken_logger)"
  by (simp_all add: total_dumps_def tame_def plain_lib_def demo_methods_def demo_logger_def
      healthy_def broken_def broken_logger_def)

section \<open>Properties\<close>

text \<open>
  C7: a failing section does not end the collection. When \<^verbatim>\<open>dumps\<close> accepts every
  record, the output file accepts every call, debug mode is off and the section
  methods leave the extras and the file as healthy as they found them, \<^verbatim>\<open>collect\<close>
  returns normally whatever the sections raise, with three stack frames or more, and
  the extras are what they were before.
\<close>

theorem collect_isolates_failures:
  assumes "total_dumps lib" and "\<forall>name. tame (methods name)"
    and "''osxcollector_section'' \<notin> fst ` set (extras L)"
    and "\<not> debug_mode L" and "healthy (output_file L)"
  shows "\<exists>L'. collect lib (n + 3) methods section_list L = (None, L')
     \<and> extras L' = extras L \<and> healthy (output_file L')"
proof -
  have "steady (extras L) L" using assms(4,5) by (simp add: steady_def)
  from returnsD [OF returns_collect [OF assms(1,3)] this, of methods n section_list] assms(2)
  show ?thesis by (auto simp: tame_keeps steady_def)
qed

theorem collect_isolates_failures_witness:
  "total_dumps plain_lib \<and> (\<forall>name. tame (demo_methods name))
   \<and> (\<exists>L'. collect plain_lib 3 demo_methods [] demo_logger = (None, L')
         \<and> extras L' = extras demo_logger \<and> healthy (output_file L'))"
  using collect_isolates_failures [of plain_lib demo_methods demo_logger 0 "[]"] demo_env
  by simp

text \<open>
  The same for the decorator \<^verbatim>\<open>_foreach_homedir\<close>: the wrapped method runs for
  every home directory, what it raises for one of them is logged, and the loop goes
  on to the next.
\<close>

theorem foreach_homedir_isolates_failures:
  assumes "total_dumps lib" and "\<forall>homedir. tame (func homedir)"
    and "''osxcollector_username'' \<notin> fst ` set (extras L)"
    and "\<not> debug_mode L" and "healthy (output_file L)"
  shows "\<exists>L'. foreach_homedir lib (n + 3) func homedirs L = (None, L')
     \<and> extras L' = extras L \<and> healthy (output_file L')"
proof -
  have "steady (extras L) L" using assms(4,5) by (simp add: steady_def)
  from returnsD [OF returns_foreach_homedir [OF assms(1,3)] this, of _ func n] assms(2)
  show ?thesis by (auto simp: tame_keeps steady_def)
qed

theorem foreach_homedir_isolates_failures_witness:
  "\<exists>L'. foreach_homedir plain_lib 3 (\<lambda>h L. (Some KeyError, L)) (get_homedirs ROOT_PATH demo_fs) demo_logger
       = (None, L') \<and> extras L' = extras demo_logger \<and> healthy (output_file L')"
  using foreach_homedir_isolates_failures [of plain_lib "\<lambda>h L. (Some KeyError, L)" demo_logger 0
      "get_homedirs ROOT_PATH demo_fs"] demo_env
  by simp

text \<open>
  \<^verbatim>\<open>_log_items_in_plist\<close> writes one line for every item \<^verbatim>\<open>DictUtils.get_deep\<close>
  finds: the record, when the item is a dictionary, and an error record when it is
  not, since \<^verbatim>\<open>record.update\<close> then raises inside the \<^verbatim>\<open>try\<close> of the loop.
\<close>

theorem log_items_in_plist_one_line_each:
  assumes "total_dumps lib" and "\<not> debug_mode L" and "healthy (output_file L)"
    and "get_deep plist (PathStr p) (PList []) = Inr v" and "py_iter v = Inr items"
  shows "\<exists>L'. log_items_in_plist lib (n + 3) plist p None L = (None, L')
     \<and> lines_written L' = lines_written L + length items \<and> extras L' = extras L"
proof -
  have "steady (extras L) L" using assms(2,3) by (simp add: steady_def)
  from writesD [OF writes_log_items [OF assms(1), where items = items and n = n] this] assms(4,5) show ?thesis
    by (auto simp: log_items_in_plist_def steady_def)
qed

theorem log_items_in_plist_one_line_each_witness:
  "\<exists>L'. log_items_in_plist plain_lib 3
      (PDict [(''items'', PList [PDict [(''a'', PInt 1)], PStr ''x''])]) ''items'' None demo_logger = (None, L')
     \<and> lines_written L' = 2"
proof -
  have "get_deep (PDict [(''items'', PList [PDict [(''a'', PInt 1)], PStr ''x''])]) (PathStr ''items'') (PList [])
      = Inr (PList [PDict [(''a'', PInt 1)], PStr ''x''])"
    by (simp add: get_deep_eval)
  from log_items_in_plist_one_line_each [OF demo_env(1,4,5) this, of _ 0] show ?thesis
    by (auto simp: demo_logger_def)
qed

text \<open>
  C38: \<^verbatim>\<open>_log_items_in_plist\<close> raises when the path leads to a value that cannot be
  iterated, a number for instance: the \<^verbatim>\<open>for\<close> statement is outside the \<^verbatim>\<open>try\<close>.
\<close>

theorem log_items_in_plist_not_iterable:
  assumes "get_deep plist (PathStr p) (PList []) = Inr v" and "py_iter v = Inl e"
  shows "log_items_in_plist lib n plist p transform L = (Some e, L)"
  using assms by (simp add: log_items_in_plist_def)

theorem log_items_in_plist_not_iterable_witness:
  "log_items_in_plist plain_lib 3 (PDict [(''a'', PInt 1)]) ''a'' None demo_logger = (Some TypeError, demo_logger)"
proof -
  have "get_deep (PDict [(''a'', PInt 1)]) (PathStr ''a'') (PList []) = Inr (PInt 1)"
    by (simp add: get_deep_eval)
  from log_items_in_plist_not_iterable [OF this, of TypeError] show ?thesis by simp
qed

text \<open>
  A section that is not in a non-empty \<^verbatim>\<open>section_list\<close> is skipped: its method is
  not called, and the logger is left as it was, the extra of the \<^verbatim>\<open>with\<close> block
  removed again.
\<close>

theorem run_section_skips_unselected:
  assumes "section_list \<noteq> []" and "name \<notin> set section_list"
    and "\<not> debug_mode L" and "''osxcollector_section'' \<notin> fst ` set (extras L)"
  shows "run_section lib n section_list (name, act) L = (None, L)"
  using with_extra_plain [of L "''osxcollector_section''" _ "PStr name" None
      "L\<lparr>extras := AList.update ''osxcollector_section'' (PStr name) (extras L)\<rparr>" lib] assms
  by (simp add: run_section_def)

theorem run_section_skips_unselected_witness:
  "run_section plain_lib 3 [''chrome''] (''kext'', demo_methods ''kext'') demo_logger = (None, demo_logger)"
  using run_section_skips_unselected [of "[''chrome'']" "''kext''" demo_logger plain_lib 3 "demo_methods ''kext''"]
    demo_env
  by simp

text \<open>
  C37: a record logged inside a section carries the section's name: the line written
  is the serialisation of the record merged with the extras, among them
  \<^verbatim>\<open>osxcollector_section\<close>, and after the section the extras are as before.
\<close>

theorem section_records_tagged:
  assumes "\<not> debug_mode L" and "''osxcollector_section'' \<notin> fst ` set (extras L)"
    and "healthy (output_file L)"
    and "dumps lib (AList.merge r (AList.update ''osxcollector_section'' (PStr name) (extras L))) = Inr out"
  shows "run_section lib n [] (name, log_dict lib (Suc k) (PDict r)) L =
     (None, L\<lparr>output_file := (output_file L)\<lparr>written := written (output_file L) @ out @ newline,
                                               ops := ops (output_file L) + 3\<rparr>,
               lines_written := Suc (lines_written L)\<rparr>)
     \<and> map_of (AList.merge r (AList.update ''osxcollector_section'' (PStr name) (extras L)))
          ''osxcollector_section'' = Some (PStr name)"
proof -
  let ?L1 = "L\<lparr>extras := AList.update ''osxcollector_section'' (PStr name) (extras L)\<rparr>"
  let ?L2 = "?L1\<lparr>output_file := (output_file L)\<lparr>written := written (output_file L) @ out @ newline,
                                               ops := ops (output_file L) + 3\<rparr>,
               lines_written := Suc (lines_written L)\<rparr>"
  have "logging_exceptions lib n ''failed section'' (log_dict lib (Suc k) (PDict r)) ?L1 = (None, ?L2)"
    using assms(3,4) by (simp add: logging_exceptions_def write_line_ok merged_record_def healthy_def)
  from with_extra_plain [of L "''osxcollector_section''" _ "PStr name" None ?L2 lib, OF assms(1,2) _]
    this
  show ?thesis by (simp add: run_section_def merge_conv' update_conv')
qed

theorem section_records_tagged_witness:
  "run_section plain_lib 0 [] (''kext'', log_dict plain_lib (Suc 0) (PDict [(''k'', PStr ''v'')])) demo_logger =
     (None, demo_logger\<lparr>output_file := \<lparr>written = ''k;osxcollector_section;'' @ newline, ops = 3,
                                         fails = (\<lambda>n. False)\<rparr>,
                        lines_written := 1\<rparr>)"
  using section_records_tagged [of demo_logger plain_lib "[(''k'', PStr ''v'')]" "''kext''"
      "''k;osxcollector_section;''" 0 0] demo_env
  by (simp add: plain_lib_def demo_logger_def)

text \<open>
  \<^verbatim>\<open>_read_plist\<close> on a file the Foundation reader fails on returns the empty
  dictionary and writes one error line, when the logger can write.
\<close>

theorem read_plist_failure_logged:
  assumes "total_dumps lib" and "healthy (output_file L)"
    and "files fs p \<noteq> None" and "foundation p = Inl e"
  shows "\<exists>L'. read_plist lib clk (n + 3) fs foundation p L = (Inr (PDict []), L')
     \<and> lines_written L' = Suc (lines_written L)"
proof -
  from assms(1) obtain out where "dumps lib (merged_record
      [(''osxcollector_error'', PStr (format_exception lib (''_read_plist failed on '' @ p) e))] L) = Inr out"
    unfolding total_dumps_def by blast
  from log_exception_ok [OF this assms(2), of n] assms(3,4) show ?thesis
    by (simp add: read_plist_def numeral_3_eq_3)
qed

theorem read_plist_failure_logged_witness:
  "\<exists>L'. read_plist plain_lib demo_clock 3 demo_fs (\<lambda>p. Inl ValueError) ''/etc/hosts'' demo_logger
       = (Inr (PDict []), L') \<and> lines_written L' = 1"
  using read_plist_failure_logged [of plain_lib demo_logger demo_fs "''/etc/hosts''" "\<lambda>p. Inl ValueError"
      ValueError demo_clock 0] demo_env
  by (simp add: demo_fs_def demo_logger_def)

text \<open>
  When the output file refuses every call, the exception of the Foundation reader
  cannot be logged, and \<^verbatim>\<open>_read_plist\<close> raises \<^verbatim>\<open>RuntimeError\<close> instead of returning the
  empty dictionary.
\<close>

theorem read_plist_broken_file_raises:
  assumes "broken (output_file L)" and "files fs p \<noteq> None" and "foundation p = Inl e"
  shows "\<exists>L'. read_plist lib clk n fs foundation p L = (Inl RuntimeError, L')"
  using log_broken(2) [OF assms(1), of lib n e "''_read_plist failed on '' @ p"] assms(2,3)
  by (auto simp: read_plist_def)

theorem read_plist_broken_file_raises_witness:
  "\<exists>L'. read_plist plain_lib demo_clock 3 demo_fs (\<lambda>p. Inl ValueError) ''/etc/hosts'' broken_logger
       = (Inl RuntimeError, L')"
  using read_plist_broken_file_raises [of broken_logger demo_fs "''/etc/hosts''" "\<lambda>p. Inl ValueError"
      ValueError plain_lib demo_clock 3] demo_env
  by (simp add: demo_fs_def)

end
