(* ===== verification/FileTree.thy ===== *)
theory FileTree
  imports Files
begin

text \<open>
  What the methods of class \<^verbatim>\<open>Collector\<close> of \<^verbatim>\<open>src/osxcollector/osxcollector.py\<close> need of
  the file system beyond \<open>Files\<close>: \<^verbatim>\<open>os.path.isdir\<close>, \<^verbatim>\<open>os.path.isfile\<close>, the generator
  \<^verbatim>\<open>os.walk\<close>, and \<^verbatim>\<open>pathjoin\<close> and \<^verbatim>\<open>_get_file_info\<close> on path components that come out
  of a property list, where they are \<^verbatim>\<open>unicode\<close> objects, or no strings at all.
\<close>

section \<open>Kinds of path\<close>

definition isdir :: "filesystem \<Rightarrow> string \<Rightarrow> bool" where
  "isdir fs p \<longleftrightarrow> dirs fs p \<noteq> None"

definition isfile :: "filesystem \<Rightarrow> string \<Rightarrow> bool" where
  "isfile fs p \<longleftrightarrow> files fs p \<noteq> None"

section \<open>Walking a tree\<close>

text \<open>
  \<^verbatim>\<open>os.walk(start)\<close> of Python 2.7, top down: the triple of a directory, then the triples
  of its sub-directories in the order \<^verbatim>\<open>os.listdir\<close> gives them. A directory that
  cannot be listed contributes nothing. The operating system refuses a path of more
  than \<^verbatim>\<open>PATH_MAX\<close> bytes, and no directory has an entry with an empty name or with a
  slash in it; the walk does not descend there, which bounds its depth. Symbolic
  links are not part of the file system value.
\<close>

definition PATH_MAX :: nat where
  "PATH_MAX = 1024"

definition entry_name :: "string \<Rightarrow> bool" where
  "entry_name name \<longleftrightarrow> name \<noteq> [] \<and> CHR ''/'' \<notin> set name"

definition descends :: "string \<Rightarrow> string \<Rightarrow> bool" where
  "descends start name \<longleftrightarrow> entry_name name \<and> length (join_step start name) \<le> PATH_MAX"

lemma join_step_longer: "entry_name name \<Longrightarrow> length start < length (join_step start name)"
  by (cases name) (auto simp: entry_name_def join_step_def startswith_def)

function os_walk :: "filesystem \<Rightarrow> string \<Rightarrow> (string \<times> string list \<times> string list) list" where
  "os_walk fs start =
     (case dirs fs start of
        None \<Rightarrow> []
      | Some names \<Rightarrow>
          (start, filter (\<lambda>name. isdir fs (join_step start name)) names,
                filter (\<lambda>name. \<not> isdir fs (join_step start name)) names) #
          concat (map (\<lambda>name. os_walk fs (join_step start name))
                    (filter (\<lambda>name. isdir fs (join_step start name) \<and> descends start name) names)))"
  by pat_completeness auto
termination
proof (relation "measure (\<lambda>(fs, start). PATH_MAX + 1 - length start)")
  fix fs :: filesystem and start names name
  assume "name \<in> set (filter (\<lambda>name. isdir fs (join_step start name) \<and> descends start name) names)"
  then have "descends start name" by simp
  with join_step_longer [of name start]
  show "((fs, join_step start name), (fs, start)) \<in> measure (\<lambda>(fs, start). PATH_MAX + 1 - length start)"
    by (auto simp: descends_def)
qed simp

declare os_walk.simps [simp del]

section \<open>Text\<close>

text \<open>
  A path component taken from a property list is whatever the list holds there. The
  string methods exist on \<^verbatim>\<open>str\<close> and \<^verbatim>\<open>unicode\<close> objects only, and adding a \<^verbatim>\<open>str\<close> to a
  \<^verbatim>\<open>unicode\<close> object decodes the \<^verbatim>\<open>str\<close> with the codec \<^verbatim>\<open>ascii\<close> first.
\<close>

fun text_startswith_slash :: "pyval \<Rightarrow> bool result" where
  "text_startswith_slash (PStr s) = Inr (startswith s ''/'')"
| "text_startswith_slash (PUnicode u) = Inr (prefix [47] u)"
| "text_startswith_slash v = Inl AttributeError"

fun text_endswith_slash :: "pyval \<Rightarrow> bool result" where
  "text_endswith_slash (PStr s) = Inr (endswith s ''/'')"
| "text_endswith_slash (PUnicode u) = Inr (suffix [47] u)"
| "text_endswith_slash v = Inl AttributeError"

fun text_empty :: "pyval \<Rightarrow> bool" where
  "text_empty (PStr s) = (s = [])"
| "text_empty (PUnicode u) = (u = [])"
| "text_empty v = False"

fun text_add :: "pyval \<Rightarrow> pyval \<Rightarrow> pyval result" where
  "text_add (PStr a) (PStr b) = Inr (PStr (a @ b))"
| "text_add (PUnicode a) (PUnicode b) = Inr (PUnicode (a @ b))"
| "text_add (PStr a) (PUnicode b) = bind_result (decode_ascii a) (\<lambda>u. Inr (PUnicode (u @ b)))"
| "text_add (PUnicode a) (PStr b) = bind_result (decode_ascii b) (\<lambda>u. Inr (PUnicode (a @ u)))"
| "text_add a b = Inl TypeError"

text \<open>\<^verbatim>\<open>_relative_path\<close>, one step of \<^verbatim>\<open>os.path.join\<close>, and \<^verbatim>\<open>pathjoin\<close> on such components.\<close>

fun relative_path_text :: "pyval \<Rightarrow> pyval result" where
  "relative_path_text (PStr s) = Inr (PStr (relative_path s))"
| "relative_path_text (PUnicode u) = Inr (PUnicode (if prefix [47] u then drop 1 u else u))"
| "relative_path_text v = Inl AttributeError"

definition join_step_text :: "pyval \<Rightarrow> pyval \<Rightarrow> pyval result" where
  "join_step_text p b =
     bind_result (text_startswith_slash b) (\<lambda>absolute.
       if absolute then Inr b
       else bind_result (text_endswith_slash p) (\<lambda>slash.
         if text_empty p \<or> slash then text_add p b
         else bind_result (text_add (PStr ''/'') b) (text_add p)))"

definition pathjoin_text :: "string \<Rightarrow> pyval list \<Rightarrow> pyval result" where
  "pathjoin_text p args =
     (if args \<noteq> []
      then bind_result (map_result relative_path_text args) (\<lambda>normed_args.
             fold_result join_step_text normed_args (PStr p))
      else Inr (PStr p))"

text \<open>
  The bytes the operating system sees for a path: those of a \<^verbatim>\<open>str\<close>, and a \<^verbatim>\<open>unicode\<close>
  object in the encoding of the file system, which is a parameter. \<^verbatim>\<open>_get_file_info\<close>
  puts the path into the record as it was given.
\<close>

fun fs_bytes :: "(nat list \<Rightarrow> string) \<Rightarrow> pyval \<Rightarrow> string result" where
  "fs_bytes enc (PStr s) = Inr s"
| "fs_bytes enc (PUnicode u) = Inr (enc u)"
| "fs_bytes enc v = Inl TypeError"

definition get_file_info_text ::
  "hashlib \<Rightarrow> clock \<Rightarrow> filesystem \<Rightarrow> (nat list \<Rightarrow> string) \<Rightarrow> pyval \<Rightarrow> log_record result" where
  "get_file_info_text lib clk fs enc file_path =
     bind_result (fs_bytes enc file_path) (\<lambda>p.
     bind_result (get_file_info lib clk fs p) (\<lambda>info.
       Inr (AList.update ''file_path'' file_path info)))"

text \<open>A tree of three levels for the worked examples.\<close>

definition demo_tree :: filesystem where
  "demo_tree =
     \<lparr>dirs = [''/Applications'' \<mapsto> [''Safari.app'', ''notes.txt''],
              ''/Applications/Safari.app'' \<mapsto> [''Contents''],
              ''/Applications/Safari.app/Contents'' \<mapsto> [''Info.plist'', ''MacOS''],
              ''/Applications/Safari.app/Contents/MacOS'' \<mapsto> [''Safari''],
              ''/private/var/log'' \<mapsto> [''system.log'', ''system.log.0.bz2'', ''install.log''],
              ''/Users'' \<mapsto> [''alice''],
              ''/Users/alice'' \<mapsto> [''Library'']],
      files = [''/Applications/notes.txt'' \<mapsto> demo_file,
               ''/Users/alice/Library/Accounts/Accounts3.sqlite'' \<mapsto> demo_file,
               ''/Users/alice/Library/Cookies.db'' \<mapsto> demo_file,
               ''/Applications/Safari.app/Contents/Info.plist'' \<mapsto> demo_file,
               ''/Applications/Safari.app/Contents/MacOS/Safari'' \<mapsto> demo_file]\<rparr>"

section \<open>The walk\<close>

lemma os_walk_not_dir: "\<not> isdir fs start \<Longrightarrow> os_walk fs start = []"
  by (simp add: os_walk.simps isdir_def)

lemma os_walk_top:
  "isdir fs start \<Longrightarrow> \<exists>ds fns rest. os_walk fs start = (start, ds, fns) # rest"
  by (auto simp: os_walk.simps isdir_def)

text \<open>Every directory the walk visits is a directory below the start of the walk, and listed once.\<close>

lemma os_walk_visits_dirs:
  "(d, ds, fns) \<in> set (os_walk fs start) \<Longrightarrow> isdir fs d \<and> prefix start d"
proof (induction fs start arbitrary: d ds fns rule: os_walk.induct)
  case (1 fs start)
  show ?case
  proof (cases "dirs fs start")
    case None
    with 1(2) show ?thesis by (simp add: os_walk.simps)
  next
    case (Some names)
    with 1(2) consider "d = start" |
      name where "name \<in> set names" "isdir fs (join_step start name)" "descends start name"
        "(d, ds, fns) \<in> set (os_walk fs (join_step start name))"
      by (auto simp: os_walk.simps [of fs start])
    then show ?thesis
    proof cases
      case 1
      with Some show ?thesis by (simp add: isdir_def)
    next
      case 2
      from 1(1) [OF Some _ 2(4)] 2(1-3) have "isdir fs d" "prefix (join_step start name) d" by simp_all
      moreover from 2(3) have "prefix start (join_step start name)"
        by (intro join_step_prefix) (cases name; auto simp: descends_def entry_name_def startswith_def)
      ultimately show ?thesis by (auto intro: prefix_order.trans)
    qed
  qed
qed

lemma os_walk_names:
  assumes "(d, ds, fns) \<in> set (os_walk fs start)"
  shows "dirs fs d = Some names \<Longrightarrow>
     ds = filter (\<lambda>name. isdir fs (join_step d name)) names \<and>
     fns = filter (\<lambda>name. \<not> isdir fs (join_step d name)) names"
  using assms
proof (induction fs start arbitrary: d ds fns rule: os_walk.induct)
  case (1 fs start)
  show ?case
  proof (cases "dirs fs start")
    case None
    with 1(3) show ?thesis by (simp add: os_walk.simps)
  next
    case (Some ns)
    with 1(3) consider "(d, ds, fns) = (start, filter (\<lambda>name. isdir fs (join_step start name)) ns,
          filter (\<lambda>name. \<not> isdir fs (join_step start name)) ns)" |
      name where "name \<in> set ns" "isdir fs (join_step start name)" "descends start name"
        "(d, ds, fns) \<in> set (os_walk fs (join_step start name))"
      by (auto simp: os_walk.simps [of fs start])
    then show ?thesis
    proof cases
      case 1
      with Some \<open>dirs fs d = Some names\<close> show ?thesis by simp
    next
      case 2
      from 1(1) [OF Some _ 1(2) 2(4)] 2(1-3) show ?thesis by simp
    qed
  qed
qed

section \<open>Text that is a byte string\<close>

lemma join_step_text_str [simp]: "join_step_text (PStr a) (PStr b) = Inr (PStr (join_step a b))"
  by (simp add: join_step_text_def join_step_def)

lemma fold_join_step_text_str:
  "fold_result join_step_text (map PStr args) (PStr p) = Inr (PStr (foldl join_step p args))"
  by (induction args arbitrary: p) simp_all

lemma get_file_info_file_path:
  "get_file_info lib clk fs p = Inr info \<Longrightarrow> map_of info ''file_path'' = Some (PStr p)"
  by (auto simp: get_file_info_def file_info_record_def bind_result_def
      split: option.splits sum.splits list.splits)

lemma update_same: "map_of d k = Some v \<Longrightarrow> AList.update k v d = d"
  by (induction d) auto

lemma get_file_info_text_str [simp]:
  "get_file_info_text lib clk fs enc (PStr p) = get_file_info lib clk fs p"
  by (cases "get_file_info lib clk fs p")
    (simp_all add: get_file_info_text_def update_same get_file_info_file_path)

end
