(* ===== verification/Environment.thy ===== *)
theory Environment
  imports Collector FileTree
begin

text \<open>
  Everything outside the program that the methods of class \<^verbatim>\<open>Collector\<close> of
  \<^verbatim>\<open>src/osxcollector/osxcollector.py\<close> read, as one value: the Python library, the
  clock, the hash functions, the file system, the Foundation reader of property
  lists, SQLite, \<^verbatim>\<open>os.uname\<close> and the global \<^verbatim>\<open>ROOT_PATH\<close> as \<^verbatim>\<open>main\<close> has set it. The
  theorems about the collector hold for every such value unless they say otherwise.
\<close>

section \<open>SQLite\<close>

text \<open>
  A cursor answers a statement with the column names of \<^verbatim>\<open>cursor.description\<close> and the
  rows of \<^verbatim>\<open>cursor.fetchall()\<close>, or \<^verbatim>\<open>execute\<close> raises. \<^verbatim>\<open>connect\<close> gives the cursor of a
  data base file, or raises.
\<close>

type_synonym rows = "string list \<times> pyval list list"

type_synonym cursor = "string \<Rightarrow> rows result"

section \<open>The environment\<close>

text \<open>
  \<open>py_str\<close> is \<^verbatim>\<open>str(v)\<close> on a value that is no string, \<open>py_equal\<close> is \<^verbatim>\<open>==\<close> on values
  (used by \<^verbatim>\<open>in\<close>), and \<open>fsencoding\<close> encodes a \<^verbatim>\<open>unicode\<close> path for the operating system.
\<close>

record env =
  python :: pylib
  py_str :: "pyval \<Rightarrow> string"
  py_equal :: "pyval \<Rightarrow> pyval \<Rightarrow> bool"
  timezone :: clock
  digests :: hashlib
  disk :: filesystem
  fsencoding :: "nat list \<Rightarrow> string"
  plist_reader :: "string \<Rightarrow> pyval result"
  sqlite_connect :: "string \<Rightarrow> cursor result"
  os_uname :: "string \<times> string \<times> string \<times> string \<times> string"
  root_dir :: string

abbreviation read_plist_in :: "env \<Rightarrow> nat \<Rightarrow> string \<Rightarrow> pyval comp" where
  "read_plist_in env n \<equiv>
     read_plist (python env) (timezone env) n (disk env) (plist_reader env)"

abbreviation get_file_info_in :: "env \<Rightarrow> string \<Rightarrow> log_record result" where
  "get_file_info_in env \<equiv> get_file_info (digests env) (timezone env) (disk env)"

abbreviation get_file_info_text_in :: "env \<Rightarrow> pyval \<Rightarrow> log_record result" where
  "get_file_info_text_in env \<equiv>
     get_file_info_text (digests env) (timezone env) (disk env) (fsencoding env)"

text \<open>\<^verbatim>\<open>Logger.log_warning('Directory not found {0}'.format(dir_path))\<close>.\<close>

definition warn_not_found :: "env \<Rightarrow> nat \<Rightarrow> string \<Rightarrow> action" where
  "warn_not_found env n dir_path =
     log_warning (python env) n (''Directory not found '' @ dir_path)"

text \<open>
  The keys under which the collector puts extras. They are all different, and no
  \<^verbatim>\<open>with\<close> block is nested in another on the same key.
\<close>

definition collector_keys :: "string list" where
  "collector_keys =
     [''osxcollector_section'', ''osxcollector_subsection'', ''osxcollector_username'',
      ''osxcollector_db_path'', ''osxcollector_table_name'', ''recent_type'']"

definition fresh :: "string list \<Rightarrow> pyval pydict \<Rightarrow> bool" where
  "fresh ks ex \<longleftrightarrow> (\<forall>k \<in> set ks. k \<notin> fst ` set ex)"

section \<open>An environment for the worked examples\<close>

definition unicode_of :: "string \<Rightarrow> nat list" where
  "unicode_of s = map of_char s"

definition demo_cursor :: cursor where
  "demo_cursor sql =
     (if sql = ''SELECT * from sqlite_master WHERE type = '' @ [CHR 0x22] @ ''table'' @ [CHR 0x22]
      then Inr ([''type'', ''name'', ''tbl_name'', ''rootpage'', ''sql''],
                [[PUnicode (unicode_of ''table''), PUnicode (unicode_of ''visits''),
                  PUnicode (unicode_of ''visits''), PInt 2, PUnicode (unicode_of ''CREATE TABLE visits'')],
                 [PUnicode (unicode_of ''table''), PUnicode [99, 97, 102, 233],
                  PUnicode [99, 97, 102, 233], PInt 3, PUnicode (unicode_of ''CREATE TABLE'')]])
      else if sql = ''SELECT * from visits''
      then Inr ([''url'', ''title''],
                [[PUnicode (unicode_of ''http://a/''), PUnicode (unicode_of ''A'')],
                 [PUnicode (unicode_of ''http://b/''), PNone]])
      else Inl (OperationalError ''no such table''))"

definition demo_connect :: "string \<Rightarrow> cursor result" where
  "demo_connect p =
     (if p = ''/Users/alice/Library/Accounts/Accounts3.sqlite'' then Inr demo_cursor
      else Inl (OperationalError ''database is locked''))"

definition demo_plists :: "string \<Rightarrow> pyval result" where
  "demo_plists p =
     (if p = ''/Applications/Safari.app/Contents/Info.plist''
      then Inr (NSDictionary [(''CFBundleExecutable'', PStr ''Safari'')])
      else Inl IOError)"

definition demo_world :: env where
  "demo_world =
     \<lparr>python = plain_lib, py_str = (\<lambda>v. ''<value>''), py_equal = (=), timezone = demo_clock,
      digests = demo_hashlib, disk = demo_tree, fsencoding = map char_of,
      plist_reader = demo_plists, sqlite_connect = demo_connect,
      os_uname = (''Darwin'', ''mac'', ''13.0.0'', ''Darwin Kernel Version 13.0.0'', ''x86_64''),
      root_dir = ''/''\<rparr>"

section \<open>Rules\<close>

lemma demo_world_steady:
  "total_dumps (python demo_world)" "\<not> debug_mode demo_logger" "healthy (output_file demo_logger)"
  "extras demo_logger = []" "steady [] demo_logger"
  by (simp_all add: demo_world_def demo_env steady_def)

lemma fresh_Nil [simp]: "fresh [] ex"
  by (simp add: fresh_def)

lemma fresh_Cons [simp]: "fresh (k # ks) ex \<longleftrightarrow> k \<notin> fst ` set ex \<and> fresh ks ex"
  by (simp add: fresh_def)

lemma fresh_update [simp]:
  "fresh ks (AList.update k v ex) \<longleftrightarrow> k \<notin> set ks \<and> fresh ks ex"
  by (auto simp: fresh_def dom_update)

lemma notin_update [simp]:
  "k \<notin> fst ` set (AList.update k' v ex) \<longleftrightarrow> k \<noteq> k' \<and> k \<notin> fst ` set ex"
  by (auto simp: dom_update)

lemma fresh_empty [simp]: "fresh ks []"
  by (simp add: fresh_def)

lemma keeps_warn_not_found [keeps_intros]: "keeps (steady ex) (warn_not_found env n p)"
  by (simp add: warn_not_found_def keeps_log_warning)

lemma writes_warn_not_found [writes_intros]:
  "total_dumps (python env) \<Longrightarrow> writes (steady ex) 1 (warn_not_found env (n + 3) p)"
  unfolding warn_not_found_def by (rule writes_log)

lemmas returns_warn_not_found [returns_intros] = writes_warn_not_found [THEN writes_returns]

end
