(* ===== verification/Sqlite.thy ===== *)
theory Sqlite
  imports Environment
begin

text \<open>
  \<^verbatim>\<open>Collector._log_sqlite_table\<close> and \<^verbatim>\<open>Collector._log_sqlite_db\<close> of
  \<^verbatim>\<open>src/osxcollector/osxcollector.py\<close>: every row of every table of a data base file
  becomes one record, under the extras \<^verbatim>\<open>osxcollector_db_path\<close> and
  \<^verbatim>\<open>osxcollector_table_name\<close>. What SQLite raises is logged, per table or per file.
\<close>

section \<open>One table\<close>

text \<open>
  \<^verbatim>\<open>'SELECT * from {0}'.format(table_name)\<close>: the template is a \<^verbatim>\<open>str\<close>, so a \<^verbatim>\<open>unicode\<close>
  argument is encoded with the codec \<^verbatim>\<open>ascii\<close>, which raises on a character outside it.
\<close>

fun format_text :: "(pyval \<Rightarrow> string) \<Rightarrow> pyval \<Rightarrow> string result" where
  "format_text str_of (PStr s) = Inr s"
| "format_text str_of (PUnicode u) = encode_ascii u"
| "format_text str_of v = Inr (str_of v)"

definition select_all :: "env \<Rightarrow> pyval \<Rightarrow> string result" where
  "select_all env table_name =
     bind_result (format_text (py_str env) table_name) (\<lambda>name. Inr (''SELECT * from '' @ name))"

text \<open>
  The record of a row: \<^verbatim>\<open>dict\<close> of the column names zipped with the row, each value
  normalised under its column name; and what \<^verbatim>\<open>_normalize_val\<close> reported meanwhile.
\<close>

definition row_record :: "env \<Rightarrow> string list \<Rightarrow> pyval list \<Rightarrow> log_record \<times> py_error list" where
  "row_record env column_descriptions row =
     (let cells = map (\<lambda>(key, val). (key, normalize_val (python env) (timezone env) val (Some key)))
                    (zip column_descriptions row)
      in (py_dict (map (\<lambda>(key, r). (key, fst r)) cells), concat (map (\<lambda>(key, r). snd r) cells)))"

definition log_row :: "env \<Rightarrow> nat \<Rightarrow> string list \<Rightarrow> pyval list \<Rightarrow> action" where
  "log_row env n column_descriptions row L =
     log_dict (python env) n (PDict (fst (row_record env column_descriptions row)))
       (L\<lparr>stderr := stderr L @ map NormalizeError (snd (row_record env column_descriptions row))\<rparr>)"

definition log_sqlite_table :: "env \<Rightarrow> nat \<Rightarrow> pyval \<Rightarrow> cursor \<Rightarrow> action" where
  "log_sqlite_table env n table_name cursor =
     with_extra (python env) ''osxcollector_table_name'' table_name
       (logging_exceptions (python env) n ''failed _log_sqlite_table''
          (with_result (pure (bind_result (select_all env table_name) cursor))
             (\<lambda>(column_descriptions, rows).
                if rows = [] then skip else for_each (log_row env n column_descriptions) rows)))"

section \<open>One data base\<close>

definition master_query :: string where
  "master_query = ''SELECT * from sqlite_master WHERE type = '' @ [CHR 0x22] @ ''table'' @ [CHR 0x22]"

definition table_names :: "pyval list list \<Rightarrow> pyval list result" where
  "table_names tables = map_result (\<lambda>table. py_index table 2) tables"

text \<open>
  \<^verbatim>\<open>isinstance(connection_e, OperationalError) and -1 != connection_e.message.find('locked')\<close>.
\<close>

fun locked :: "py_error \<Rightarrow> bool" where
  "locked (OperationalError message) = contains message ''locked''"
| "locked e = False"

definition on_connection_error :: "pylib \<Rightarrow> nat \<Rightarrow> py_error \<Rightarrow> action" where
  "on_connection_error lib n connection_e =
     then_do
       (if locked connection_e
        then log_error lib n ''!!LOCKED DB!! DID YOU FORGET TO CLOSE CHROME?'' else skip)
       (log_exception lib n connection_e ''failed _log_sqlite_db'')"

text \<open>The statements of the \<^verbatim>\<open>try\<close> block before the loop: the cursor and the table names.\<close>

definition open_tables :: "env \<Rightarrow> string \<Rightarrow> (cursor \<times> pyval list) result" where
  "open_tables env sqlite_db_path =
     bind_result (sqlite_connect env sqlite_db_path) (\<lambda>cursor.
     bind_result (cursor master_query) (\<lambda>(description, tables).
     bind_result (table_names tables) (\<lambda>names. Inr (cursor, names))))"

definition log_sqlite_db :: "env \<Rightarrow> nat \<Rightarrow> string \<Rightarrow> action" where
  "log_sqlite_db env n sqlite_db_path =
     (if \<not> isfile (disk env) sqlite_db_path
      then log_warning (python env) n (''File not found '' @ sqlite_db_path)
      else with_extra (python env) ''osxcollector_db_path'' (PStr sqlite_db_path)
             (try_catch
                (with_result (pure (open_tables env sqlite_db_path))
                   (\<lambda>(cursor, names).
                      for_each (\<lambda>table_name. log_sqlite_table env n table_name cursor) names))
                (on_connection_error (python env) n)))"

section \<open>The logger stays steady\<close>

lemma steady_stderr [simp]: "steady ex (L\<lparr>stderr := e\<rparr>) = steady ex L"
  by (simp add: steady_def)

lemma keeps_log_row [keeps_intros]: "keeps (steady ex) (log_row env n cols row)"
  by (rule keepsI) (auto simp: log_row_def dest!: keepsD [OF keeps_log(1), rotated])

lemma writes_log_row [writes_intros]:
  assumes "total_dumps (python env)"
  shows "writes (steady ex) 1 (log_row env (n + 3) cols row)"
  unfolding writes_def
proof (intro allI impI)
  fix L assume "steady ex L"
  then have "steady ex (L\<lparr>stderr := stderr L @ map NormalizeError (snd (row_record env cols row))\<rparr>)"
    by simp
  from writesD [OF writes_log(1) [OF assms] this, of n "fst (row_record env cols row)"]
  show "\<exists>L'. log_row env (n + 3) cols row L = (None, L') \<and> steady ex L'
      \<and> lines_written L' = lines_written L + 1"
    by (simp add: log_row_def)
qed

lemma keeps_log_sqlite_table [keeps_intros]:
  assumes "''osxcollector_table_name'' \<notin> fst ` set ex"
  shows "keeps (steady ex) (log_sqlite_table env n table_name cursor)"
  unfolding log_sqlite_table_def
  using assms by (intro keeps_intros)

lemma returns_log_sqlite_table [returns_intros]:
  assumes "total_dumps (python env)" and "''osxcollector_table_name'' \<notin> fst ` set ex"
  shows "returns (steady ex) (log_sqlite_table env (n + 3) table_name cursor)"
  unfolding log_sqlite_table_def
  using assms by (intro returns_intros keeps_intros)

lemma keeps_on_connection_error [keeps_intros]:
  "keeps (steady ex) (on_connection_error lib n e)"
  unfolding on_connection_error_def by (intro keeps_intros)

lemma returns_on_connection_error [returns_intros]:
  assumes "total_dumps lib"
  shows "returns (steady ex) (on_connection_error lib (n + 3) e)"
  unfolding on_connection_error_def
  using assms by (intro returns_intros)

lemma keeps_log_sqlite_db [keeps_intros]:
  assumes "fresh [''osxcollector_db_path'', ''osxcollector_table_name''] ex"
  shows "keeps (steady ex) (log_sqlite_db env n sqlite_db_path)"
  unfolding log_sqlite_db_def
  using assms by (intro keeps_intros) (simp_all add: dom_update)

text \<open>\<^verbatim>\<open>_log_sqlite_db\<close> returns normally whatever the file holds and whatever SQLite raises.\<close>

lemma returns_log_sqlite_db [returns_intros]:
  assumes "total_dumps (python env)"
    and "fresh [''osxcollector_db_path'', ''osxcollector_table_name''] ex"
  shows "returns (steady ex) (log_sqlite_db env (n + 3) sqlite_db_path)"
  unfolding log_sqlite_db_def
  using assms by (intro returns_intros keeps_intros) (simp_all add: dom_update)

section \<open>What is written\<close>

lemma writes_log_rows:
  assumes "total_dumps (python env)"
  shows "writes (steady ex) (length rows)
           (if rows = [] then skip else for_each (log_row env (n + 3) cols) rows)"
proof (cases "rows = []")
  case True
  then show ?thesis by (simp add: skip_rules)
next
  case False
  with writes_for_each_one [of rows "steady ex" "log_row env (n + 3) cols"]
    writes_log_row [OF assms]
  show ?thesis by simp
qed

lemma writes_log_sqlite_table:
  assumes "total_dumps (python env)" and "''osxcollector_table_name'' \<notin> fst ` set ex"
    and "bind_result (select_all env table_name) cursor = Inr (cols, rows)"
  shows "writes (steady ex) (length rows) (log_sqlite_table env (n + 3) table_name cursor)"
  unfolding log_sqlite_table_def logging_exceptions_try_catch assms(3) with_result_pure prod.case
  using assms(1,2) by (intro writes_with_extra writes_try_catch writes_log_rows)

lemma writes_log_sqlite_table_failed:
  assumes "total_dumps (python env)" and "''osxcollector_table_name'' \<notin> fst ` set ex"
    and "bind_result (select_all env table_name) cursor = Inl e"
  shows "writes (steady ex) 1 (log_sqlite_table env (n + 3) table_name cursor)"
  unfolding log_sqlite_table_def logging_exceptions_try_catch assms(3) with_result_pure
    try_catch_raise
  using assms(1,2) by (intro writes_intros writes_log)

lemma writes_on_connection_error:
  assumes "total_dumps lib"
  shows "writes (steady ex) (if locked e then 2 else 1) (on_connection_error lib (n + 3) e)"
proof (cases "locked e")
  case True
  have "writes (steady ex) (1 + 1)
      (then_do (log_error lib (n + 3) ''!!LOCKED DB!! DID YOU FORGET TO CLOSE CHROME?'')
         (log_exception lib (n + 3) e ''failed _log_sqlite_db''))"
    by (intro writes_then_do writes_log assms)
  with True show ?thesis by (simp add: on_connection_error_def del: One_nat_def)
next
  case False
  have "writes (steady ex) (0 + 1)
      (then_do skip (log_exception lib (n + 3) e ''failed _log_sqlite_db''))"
    by (intro writes_then_do writes_log skip_rules assms)
  with False show ?thesis by (simp add: on_connection_error_def del: One_nat_def)
qed

lemma writes_log_sqlite_db_failed:
  assumes "total_dumps (python env)"
    and "fresh [''osxcollector_db_path'', ''osxcollector_table_name''] ex"
    and "isfile (disk env) sqlite_db_path" and "open_tables env sqlite_db_path = Inl e"
  shows "writes (steady ex) (if locked e then 2 else 1) (log_sqlite_db env (n + 3) sqlite_db_path)"
  unfolding log_sqlite_db_def assms(4) with_result_pure try_catch_raise
  using assms(1-3) by (simp add: writes_with_extra writes_on_connection_error)

lemma steadyI: "\<not> debug_mode L \<Longrightarrow> healthy (output_file L) \<Longrightarrow> steady (extras L) L"
  by (simp add: steady_def)

lemmas sqlite_eval = demo_world_def demo_cursor_def demo_connect_def select_all_def open_tables_def
  master_query_def table_names_def unicode_of_def isfile_def demo_tree_def

section \<open>Properties\<close>

text \<open>
  C15: \<^verbatim>\<open>_log_sqlite_table\<close> writes one record for every row of the table. When the
  statement can be formatted and executed, \<^verbatim>\<open>dumps\<close> accepts every record, the file
  accepts every call and debug mode is off, the method returns normally with three
  stack frames or more, \<^verbatim>\<open>lines_written\<close> has grown by the number of rows, and the
  extras are what they were.
\<close>

theorem log_sqlite_table_one_line_per_row:
  assumes "total_dumps (python env)" and "''osxcollector_table_name'' \<notin> fst ` set (extras L)"
    and "\<not> debug_mode L" and "healthy (output_file L)"
    and "select_all env table_name = Inr sql" and "cursor sql = Inr (cols, rows)"
  shows "\<exists>L'. log_sqlite_table env (n + 3) table_name cursor L = (None, L')
     \<and> extras L' = extras L \<and> lines_written L' = lines_written L + length rows"
proof -
  from assms(5,6) have "bind_result (select_all env table_name) cursor = Inr (cols, rows)" by simp
  from writesD [OF writes_log_sqlite_table [OF assms(1,2) this] steadyI [OF assms(3,4)], of n]
  show ?thesis by (auto simp: steady_def)
qed

theorem log_sqlite_table_one_line_per_row_witness:
  "\<exists>L'. log_sqlite_table demo_world 3 (PUnicode (unicode_of ''visits'')) demo_cursor demo_logger
          = (None, L')
     \<and> extras L' = extras demo_logger \<and> lines_written L' = lines_written demo_logger + 2"
proof -
  have s: "select_all demo_world (PUnicode (unicode_of ''visits'')) = Inr ''SELECT * from visits''"
    by code_simp
  have c: "demo_cursor ''SELECT * from visits''
      = Inr ([''url'', ''title''],
             [[PUnicode (unicode_of ''http://a/''), PUnicode (unicode_of ''A'')],
              [PUnicode (unicode_of ''http://b/''), PNone]])"
    by (simp add: demo_cursor_def)
  from log_sqlite_table_one_line_per_row [where cursor = demo_cursor and L = demo_logger and n = 0,
      OF demo_world_steady(1) _ demo_world_steady(2,3) s c] demo_world_steady(4)
  show ?thesis by simp
qed

text \<open>
  C20: a table whose name has a character outside ASCII is never read.
  \<^verbatim>\<open>'SELECT * from {0}'.format(table_name)\<close> raises \<^verbatim>\<open>UnicodeEncodeError\<close> before the cursor
  is asked, so the method does the same on every cursor: it logs the exception.
\<close>

theorem log_sqlite_table_non_ascii_name:
  assumes "encode_ascii u = Inl e"
  shows "log_sqlite_table env n (PUnicode u) cursor L
     = with_extra (python env) ''osxcollector_table_name'' (PUnicode u)
         (log_exception (python env) n e ''failed _log_sqlite_table'') L"
  using assms
  by (simp add: log_sqlite_table_def select_all_def logging_exceptions_try_catch)

theorem log_sqlite_table_non_ascii_name_witness:
  "log_sqlite_table demo_world 3 (PUnicode [99, 97, 102, 233]) demo_cursor demo_logger
     = with_extra (python demo_world) ''osxcollector_table_name'' (PUnicode [99, 97, 102, 233])
         (log_exception (python demo_world) 3 UnicodeEncodeError ''failed _log_sqlite_table'') demo_logger"
  using log_sqlite_table_non_ascii_name [of "[99, 97, 102, 233]" UnicodeEncodeError demo_world 3
      demo_cursor demo_logger]
  by (simp add: encode_ascii_def)

text \<open>
  C19: a locked data base costs two records and nothing else. When \<^verbatim>\<open>connect\<close> or the
  query of \<^verbatim>\<open>sqlite_master\<close> raises \<^verbatim>\<open>OperationalError\<close> with \<^verbatim>\<open>locked\<close> in its message,
  \<^verbatim>\<open>_log_sqlite_db\<close> logs the hint about the browser and the exception and returns
  normally; any other exception costs one record.
\<close>

theorem log_sqlite_db_failure_logged:
  assumes "total_dumps (python env)"
    and "fresh [''osxcollector_db_path'', ''osxcollector_table_name''] (extras L)"
    and "\<not> debug_mode L" and "healthy (output_file L)"
    and "isfile (disk env) sqlite_db_path" and "open_tables env sqlite_db_path = Inl e"
  shows "\<exists>L'. log_sqlite_db env (n + 3) sqlite_db_path L = (None, L') \<and> extras L' = extras L
     \<and> lines_written L' = lines_written L + (if locked e then 2 else 1)"
  using writesD [OF writes_log_sqlite_db_failed [OF assms(1,2,5,6)] steadyI [OF assms(3,4)], of n]
  by (auto simp: steady_def)

theorem log_sqlite_db_failure_logged_witness:
  "\<exists>L'. log_sqlite_db demo_world 3 ''/Users/alice/Library/Cookies.db'' demo_logger = (None, L')
     \<and> extras L' = extras demo_logger \<and> lines_written L' = lines_written demo_logger + 2"
  using log_sqlite_db_failure_logged [of demo_world demo_logger "''/Users/alice/Library/Cookies.db''"
      "OperationalError ''database is locked''" 0] demo_world_steady
  by (simp add: sqlite_eval)

end
