(* ===== verification/Helpers.thy ===== *)
theory Helpers
  imports Sqlite
begin

text \<open>
  The helper methods of class \<^verbatim>\<open>Collector\<close> of \<^verbatim>\<open>src/osxcollector/osxcollector.py\<close> that
  the sections share: \<^verbatim>\<open>_log_file_info_for_directory\<close>, \<^verbatim>\<open>_log_user_quarantines\<close>,
  \<^verbatim>\<open>_log_xprotect\<close>, \<^verbatim>\<open>_log_packages_in_dir\<close>, \<^verbatim>\<open>_log_startup_items\<close>, \<^verbatim>\<open>_log_launch_agents\<close>,
  \<^verbatim>\<open>_log_user_launch_agents\<close> and \<^verbatim>\<open>_log_user_login_items\<close>. The object itself is the
  record \<open>collector\<close> of its two attributes.
\<close>

section \<open>The collector object\<close>

record collector =
  admins :: "pyval list"
  homedirs :: "homedir list"

definition new_collector :: "env \<Rightarrow> collector" where
  "new_collector env = \<lparr>admins = [], homedirs = get_homedirs (root_dir env) (disk env)\<rparr>"

text \<open>\<^verbatim>\<open>info = ...; Logger.log_dict(info)\<close>, where computing the record can raise.\<close>

definition log_dict_of :: "env \<Rightarrow> nat \<Rightarrow> log_record result \<Rightarrow> action" where
  "log_dict_of env n info = with_result (pure info) (\<lambda>r. log_dict (python env) n (PDict r))"

section \<open>Files of a directory\<close>

definition log_file_info_for_directory :: "env \<Rightarrow> nat \<Rightarrow> string \<Rightarrow> action" where
  "log_file_info_for_directory env n dir_path =
     (if \<not> isdir (disk env) dir_path then warn_not_found env n dir_path
      else for_each (\<lambda>(start, ds, file_names).
             for_each (\<lambda>file_name.
               logging_exceptions (python env) n []
                 (log_dict_of env n (get_file_info_in env (pathjoin start [file_name])))) file_names)
           (os_walk (disk env) dir_path))"

section \<open>Quarantines and XProtect\<close>

definition quarantine_db :: "env \<Rightarrow> homedir \<Rightarrow> string" where
  "quarantine_db env homedir =
     (if \<not> isfile (disk env)
            (pathjoin (path homedir) [''Library/Preferences/com.apple.LaunchServices.QuarantineEventsV2''])
      then pathjoin (path homedir) [''Library/Preferences/com.apple.LaunchServices.QuarantineEvents'']
      else pathjoin (path homedir) [''Library/Preferences/com.apple.LaunchServices.QuarantineEventsV2''])"

definition log_user_quarantines :: "env \<Rightarrow> nat \<Rightarrow> collector \<Rightarrow> action" where
  "log_user_quarantines env n self =
     foreach_homedir (python env) n (\<lambda>homedir. log_sqlite_db env n (quarantine_db env homedir))
       (homedirs self)"

definition xprotect_files :: "string list" where
  "xprotect_files =
     [''System/Library/CoreServices/CoreTypes.bundle/Contents/Resources/XProtect.plist'',
      ''System/Library/CoreServices/CoreTypes.bundle/Contents/Resources/XProtect.meta.plist'']"

definition log_xprotect :: "env \<Rightarrow> nat \<Rightarrow> action" where
  "log_xprotect env n =
     for_each (\<lambda>file_path. log_dict_of env n (get_file_info_in env (pathjoin (root_dir env) [file_path])))
       xprotect_files"

section \<open>Packages\<close>

definition plist_file :: string where
  "plist_file = ''Info.plist''"

definition package_extensions :: "string list" where
  "package_extensions = [''.app'', ''.kext'', ''.osax'', ''Contents'']"

definition package_walk :: "filesystem \<Rightarrow> string \<Rightarrow> (string \<times> string list) list" where
  "package_walk fs dir_path =
     map (\<lambda>(sub_dir_path, ds, file_names). (sub_dir_path, file_names))
       (filter (\<lambda>(sub_dir_path, ds, file_names). list_ex (endswith sub_dir_path) package_extensions)
          (os_walk fs dir_path))"

text \<open>
  The local variable \<^verbatim>\<open>cfbundle_executable_path\<close> is assigned only in an iteration whose
  directory lists \<^verbatim>\<open>Info.plist\<close>. In every other iteration it still has the value of
  an earlier one, or no value at all. \<open>executable_paths\<close> gives its state in each
  iteration of the loop over the walk.
\<close>

fun executable_paths ::
  "string option \<Rightarrow> (string \<times> string list) list \<Rightarrow> (string \<times> string option) list" where
  "executable_paths var [] = []"
| "executable_paths var ((sub_dir_path, file_names) # walk) =
     (if plist_file \<in> set file_names
      then (sub_dir_path, Some (if endswith sub_dir_path ''Contents'' then ''MacOS'' else [])) #
           executable_paths (Some (if endswith sub_dir_path ''Contents'' then ''MacOS'' else [])) walk
      else (sub_dir_path, var) # executable_paths var walk)"

text \<open>Reading a local variable: \<^verbatim>\<open>UnboundLocalError\<close> when it has no value.\<close>

definition local_var :: "'a option \<Rightarrow> 'a result" where
  "local_var var = (case var of None \<Rightarrow> Inl UnboundLocalError | Some x \<Rightarrow> Inr x)"

definition package_info :: "env \<Rightarrow> string \<Rightarrow> string option \<Rightarrow> pyval \<Rightarrow> log_record result" where
  "package_info env sub_dir_path cfbundle_executable_path cfbundle_executable =
     bind_result (local_var cfbundle_executable_path) (\<lambda>executable_path.
     bind_result (pathjoin_text sub_dir_path [PStr executable_path, cfbundle_executable]) (\<lambda>file_path.
     bind_result (get_file_info_text_in env file_path) (\<lambda>info.
       Inr (AList.update ''osxcollector_plist_path'' (PStr (pathjoin sub_dir_path [plist_file])) info))))"

definition log_package :: "env \<Rightarrow> nat \<Rightarrow> string \<Rightarrow> string option \<Rightarrow> action" where
  "log_package env n sub_dir_path cfbundle_executable_path =
     with_result (read_plist_in env n (pathjoin sub_dir_path [plist_file])) (\<lambda>plist.
     with_result (pure (py_get plist ''CFBundleExecutable'' PNone)) (\<lambda>cfbundle_executable.
       if truthy cfbundle_executable
       then log_dict_of env n
              (package_info env sub_dir_path cfbundle_executable_path cfbundle_executable)
       else skip))"

definition log_packages_in_dir :: "env \<Rightarrow> nat \<Rightarrow> string \<Rightarrow> action" where
  "log_packages_in_dir env n dir_path =
     for_each (\<lambda>(sub_dir_path, cfbundle_executable_path).
                 log_package env n sub_dir_path cfbundle_executable_path)
       (executable_paths None (package_walk (disk env) dir_path))"

section \<open>Start-up items\<close>

definition provided_file_info :: "env \<Rightarrow> string \<Rightarrow> string \<Rightarrow> pyval \<Rightarrow> pyval result" where
  "provided_file_info env dir_path entry x =
     bind_result (pathjoin_text dir_path [PStr entry, x]) (\<lambda>file_path.
     bind_result (get_file_info_text_in env file_path) (\<lambda>info. Inr (PDict info)))"

definition log_startup_items :: "env \<Rightarrow> nat \<Rightarrow> string \<Rightarrow> action" where
  "log_startup_items env n dir_path =
     (if \<not> isdir (disk env) dir_path then warn_not_found env n dir_path
      else for_each (\<lambda>entry.
             with_result
               (read_plist_in env n (pathjoin dir_path [entry, ''StartupParameters.plist'']))
               (\<lambda>plist.
                  logging_exceptions (python env) n []
                    (log_items_in_plist (python env) n plist ''Provides''
                       (Some (provided_file_info env dir_path entry)))))
           (listdir (disk env) dir_path))"

section \<open>Launch agents\<close>

text \<open>
  The body of the \<^verbatim>\<open>try\<close> block of \<^verbatim>\<open>_log_launch_agents\<close> up to the call of
  \<^verbatim>\<open>Logger.log_dict\<close>: the record to log, or \<open>None\<close> when the property list names no
  program. \<^verbatim>\<open>program or len(program_with_arguments)\<close> asks for the length only when
  \<^verbatim>\<open>program\<close> is false.
\<close>

definition names_program :: "pyval \<Rightarrow> pyval \<Rightarrow> bool result" where
  "names_program program program_with_arguments =
     (if truthy program then Inr True
      else bind_result (py_len program_with_arguments) (\<lambda>l. Inr (l \<noteq> 0)))"

definition with_arguments :: "pyval \<Rightarrow> log_record \<Rightarrow> log_record result" where
  "with_arguments program_with_arguments info =
     bind_result (py_len program_with_arguments) (\<lambda>l.
       if 1 < l
       then bind_result (py_iter program_with_arguments) (\<lambda>items.
              Inr (AList.update ''arguments'' (PList (drop 1 items)) info))
       else Inr info)"

definition launch_agent_info :: "env \<Rightarrow> pyval \<Rightarrow> string \<Rightarrow> log_record option result" where
  "launch_agent_info env plist plist_path =
     bind_result (py_get plist ''Program'' (PStr [])) (\<lambda>program.
     bind_result (py_get plist ''ProgramArguments'' (PList [])) (\<lambda>program_with_arguments.
     bind_result (names_program program program_with_arguments) (\<lambda>named.
       if \<not> named then Inr None
       else
         bind_result (if truthy program then Inr program
                      else getitem_int program_with_arguments 0) (\<lambda>target.
         bind_result (pathjoin_text (root_dir env) [target]) (\<lambda>file_path.
         bind_result (get_file_info_text_in env file_path) (\<lambda>info.
         bind_result (py_get plist ''Label'' PNone) (\<lambda>label.
         bind_result
           (with_arguments program_with_arguments
              (AList.update ''osxcollector_plist'' (PStr plist_path)
                 (AList.update ''program'' file_path (AList.update ''label'' label info))))
           (\<lambda>file_info. Inr (Some file_info)))))))))"

definition log_launch_agent :: "env \<Rightarrow> nat \<Rightarrow> string \<Rightarrow> action" where
  "log_launch_agent env n plist_path =
     with_result (read_plist_in env n plist_path) (\<lambda>plist.
       logging_exceptions (python env) n []
         (with_result (pure (launch_agent_info env plist plist_path))
            (\<lambda>found. case found of
                        None \<Rightarrow> skip
                      | Some file_info \<Rightarrow> log_dict (python env) n (PDict file_info))))"

definition log_launch_agents :: "env \<Rightarrow> nat \<Rightarrow> string \<Rightarrow> action" where
  "log_launch_agents env n dir_path =
     (if \<not> isdir (disk env) dir_path then warn_not_found env n dir_path
      else for_each (\<lambda>entry. log_launch_agent env n (pathjoin dir_path [entry]))
             (listdir (disk env) dir_path))"

definition log_user_launch_agents :: "env \<Rightarrow> nat \<Rightarrow> collector \<Rightarrow> action" where
  "log_user_launch_agents env n self =
     foreach_homedir (python env) n
       (\<lambda>homedir. log_launch_agents env n (pathjoin (path homedir) [''Library/LaunchAgents/'']))
       (homedirs self)"

section \<open>Login items\<close>

definition log_user_login_items :: "env \<Rightarrow> nat \<Rightarrow> collector \<Rightarrow> action" where
  "log_user_login_items env n self =
     foreach_homedir (python env) n
       (\<lambda>homedir.
          with_result
            (read_plist_in env n
               (pathjoin (path homedir) [''Library/Preferences/com.apple.loginitems.plist'']))
            (\<lambda>plist. log_items_in_plist (python env) n plist ''SessionItems.CustomListItems'' None))
       (homedirs self)"

text \<open>
  An environment for the worked examples whose file system ignores case: the
  directory lists \<^verbatim>\<open>info.plist\<close>, and the file answers to \<^verbatim>\<open>Info.plist\<close> as well.
\<close>

definition caseless_tree :: filesystem where
  "caseless_tree =
     \<lparr>dirs = [''/System/Library/Extensions'' \<mapsto> [''a.kext''],
              ''/System/Library/Extensions/a.kext'' \<mapsto> [''info.plist'']],
      files = [''/System/Library/Extensions/a.kext/info.plist'' \<mapsto> demo_file,
               ''/System/Library/Extensions/a.kext/Info.plist'' \<mapsto> demo_file]\<rparr>"

definition caseless_world :: env where
  "caseless_world =
     demo_world\<lparr>disk := caseless_tree,
                plist_reader := (\<lambda>p. Inr (NSDictionary [(''CFBundleExecutable'', PStr ''a'')]))\<rparr>"

section \<open>The logger stays steady\<close>

lemma keeps_log_dict_of [keeps_intros]: "keeps (steady ex) (log_dict_of env n info)"
  unfolding log_dict_of_def by (intro keeps_intros)

lemma writes_log_dict_of [writes_intros]:
  "total_dumps (python env) \<Longrightarrow> writes (steady ex) 1 (log_dict_of env (n + 3) (Inr r))"
  unfolding log_dict_of_def with_result_pure by (rule writes_log)

lemma keeps_log_file_info_for_directory [keeps_intros]:
  "keeps (steady ex) (log_file_info_for_directory env n dir_path)"
  unfolding log_file_info_for_directory_def by (intro keeps_intros)

lemma keeps_log_user_quarantines [keeps_intros]:
  assumes "fresh [''osxcollector_username'', ''osxcollector_db_path'', ''osxcollector_table_name''] ex"
  shows "keeps (steady ex) (log_user_quarantines env n self)"
  unfolding log_user_quarantines_def
  using assms by (intro keeps_intros) simp_all

lemma keeps_log_xprotect [keeps_intros]: "keeps (steady ex) (log_xprotect env n)"
  unfolding log_xprotect_def by (intro keeps_intros)

lemma keeps_log_package [keeps_intros]: "keeps (steady ex) (log_package env n sub_dir_path var)"
  unfolding log_package_def by (intro keeps_intros)

lemma keeps_log_packages_in_dir [keeps_intros]:
  "keeps (steady ex) (log_packages_in_dir env n dir_path)"
  unfolding log_packages_in_dir_def by (intro keeps_intros)

lemma keeps_log_startup_items [keeps_intros]:
  "keeps (steady ex) (log_startup_items env n dir_path)"
  unfolding log_startup_items_def by (intro keeps_intros)

lemma keeps_log_launch_agent [keeps_intros]:
  "keeps (steady ex) (log_launch_agent env n plist_path)"
  unfolding log_launch_agent_def by (intro keeps_intros)

lemma keeps_log_launch_agents [keeps_intros]:
  "keeps (steady ex) (log_launch_agents env n dir_path)"
  unfolding log_launch_agents_def by (intro keeps_intros)

lemma keeps_log_user_launch_agents [keeps_intros]:
  assumes "fresh [''osxcollector_username''] ex"
  shows "keeps (steady ex) (log_user_launch_agents env n self)"
  unfolding log_user_launch_agents_def
  using assms by (intro keeps_intros) simp_all

lemma keeps_log_user_login_items [keeps_intros]:
  assumes "fresh [''osxcollector_username''] ex"
  shows "keeps (steady ex) (log_user_login_items env n self)"
  unfolding log_user_login_items_def
  using assms by (intro keeps_intros) simp_all

section \<open>What returns and what is written\<close>

text \<open>A \<^verbatim>\<open>try\<close> block around \<^verbatim>\<open>Logger.log_dict\<close> of a computed record writes one line in any case.\<close>

lemma writes_logged_dict_of:
  assumes "total_dumps (python env)"
  shows "writes (steady ex) 1 (logging_exceptions (python env) (n + 3) m (log_dict_of env (n + 3) info))"
proof (cases info)
  case (Inl e)
  then show ?thesis
    by (simp add: logging_exceptions_try_catch log_dict_of_def writes_log [OF assms] del: One_nat_def)
next
  case (Inr r)
  with writes_try_catch [OF writes_log_dict_of [OF assms]] show ?thesis
    by (simp add: logging_exceptions_try_catch del: One_nat_def)
qed

lemma writes_log_file_info_for_directory:
  assumes "total_dumps (python env)"
  shows "writes (steady ex)
     (if isdir (disk env) dir_path
      then sum_list (map (\<lambda>t. length (snd (snd t))) (os_walk (disk env) dir_path)) else 1)
     (log_file_info_for_directory env (n + 3) dir_path)"
proof (cases "isdir (disk env) dir_path")
  case False
  then show ?thesis
    by (simp add: log_file_info_for_directory_def writes_warn_not_found [OF assms] del: One_nat_def)
next
  case True
  have "writes (steady ex) (length (snd (snd t)))
      (case t of (start, ds, file_names) \<Rightarrow>
         for_each (\<lambda>file_name. logging_exceptions (python env) (n + 3) []
                     (log_dict_of env (n + 3) (get_file_info_in env (pathjoin start [file_name]))))
           file_names)" for t
    by (cases t) (simp del: One_nat_def, intro writes_for_each_one writes_logged_dict_of assms)
  from writes_for_each [of _ _ "\<lambda>t. length (snd (snd t))", OF this] True show ?thesis
    by (simp add: log_file_info_for_directory_def)
qed

lemma returns_log_launch_agents [returns_intros]:
  assumes "total_dumps (python env)"
  shows "returns (steady ex) (log_launch_agents env (n + 3) dir_path)"
  unfolding log_launch_agents_def log_launch_agent_def
  using assms by (intro returns_intros keeps_intros)

lemma returns_log_startup_items [returns_intros]:
  assumes "total_dumps (python env)"
  shows "returns (steady ex) (log_startup_items env (n + 3) dir_path)"
  unfolding log_startup_items_def
  using assms by (intro returns_intros keeps_intros)

text \<open>Joining a \<^verbatim>\<open>unicode\<close> component onto a byte string that is not ASCII raises.\<close>

lemma join_step_text_mixed:
  assumes "\<not> list_all is_ascii p" and "\<not> prefix [47] u"
  shows "join_step_text (PStr p) (PUnicode u) = Inl UnicodeDecodeError"
  using assms by (simp add: join_step_text_def decode_ascii_def)

lemma join_step_not_ascii:
  "\<not> list_all is_ascii p \<Longrightarrow> \<not> startswith b ''/'' \<Longrightarrow> \<not> list_all is_ascii (join_step p b)"
  by (auto simp: join_step_def)

lemmas helpers_eval = demo_world_def demo_tree_def demo_plists_def isdir_def isfile_def plist_file_def
  package_extensions_def

section \<open>Properties\<close>

text \<open>
  C16: \<^verbatim>\<open>_log_file_info_for_directory\<close> writes one record for every file of the tree,
  and one warning when the directory is not there. Each file costs exactly one line,
  its information or the exception \<^verbatim>\<open>_get_file_info\<close> raised on it, so the method
  returns normally whatever the tree holds.
\<close>

theorem log_file_info_for_directory_one_line_per_file:
  assumes "total_dumps (python env)" and "\<not> debug_mode L" and "healthy (output_file L)"
  shows "\<exists>L'. log_file_info_for_directory env (n + 3) dir_path L = (None, L')
     \<and> lines_written L' = lines_written L +
         (if isdir (disk env) dir_path
          then sum_list (map (\<lambda>t. length (snd (snd t))) (os_walk (disk env) dir_path)) else 1)"
  using writesD [OF writes_log_file_info_for_directory [OF assms(1)] steadyI [OF assms(2,3)], of n dir_path]
  by auto

theorem log_file_info_for_directory_one_line_per_file_witness:
  "\<exists>L'. log_file_info_for_directory demo_world 3 ''/Applications'' demo_logger = (None, L')
     \<and> lines_written L' = lines_written demo_logger + 3"
proof -
  have "isdir (disk demo_world) ''/Applications''"
    by (simp add: helpers_eval)
  moreover have "sum_list (map (\<lambda>t. length (snd (snd t))) (os_walk (disk demo_world) ''/Applications'')) = 3"
    by code_simp
  ultimately show ?thesis
    using log_file_info_for_directory_one_line_per_file [OF demo_world_steady(1,2,3), of 0 "''/Applications''"]
    by simp
qed

text \<open>
  C18: a bundle below a directory whose name is not ASCII cannot be logged. The name
  of the executable comes out of \<^verbatim>\<open>_normalize_val\<close> as a \<^verbatim>\<open>unicode\<close> object, the directory
  is a byte string, and \<^verbatim>\<open>os.path.join\<close> of the two decodes the directory with the codec
  \<^verbatim>\<open>ascii\<close>: \<^verbatim>\<open>UnicodeDecodeError\<close>, which \<^verbatim>\<open>_log_packages_in_dir\<close> does not catch.
\<close>

theorem package_info_non_ascii_path:
  assumes "\<not> list_all is_ascii sub_dir_path" and "\<not> prefix [47, 47] u"
    and "p = ''MacOS'' \<or> p = []"
  shows "package_info env sub_dir_path (Some p) (PUnicode u) = Inl UnicodeDecodeError"
proof -
  from assms(3) have "\<not> startswith (relative_path p) ''/''"
    by (auto simp: relative_path_def startswith_def)
  from join_step_not_ascii [OF assms(1) this] assms(2,3)
  show ?thesis
    by (cases u)
      (auto simp: package_info_def local_var_def pathjoin_text_def join_step_text_mixed
        relative_path_def startswith_def)
qed

theorem package_info_non_ascii_path_witness:
  "package_info demo_world [CHR ''/'', CHR ''A'', CHR 0xC3, CHR 0xA9, CHR ''.'', CHR ''a'', CHR ''p'', CHR ''p'']
     (Some []) (PUnicode [65]) = Inl UnicodeDecodeError"
  using package_info_non_ascii_path [of "[CHR ''/'', CHR ''A'', CHR 0xC3, CHR 0xA9, CHR ''.'', CHR ''a'', CHR ''p'', CHR ''p'']"
      "[65]" "[]" demo_world]
  by (simp add: is_ascii_def)

text \<open>
  C17: \<^verbatim>\<open>_log_packages_in_dir\<close> reads its local variable \<^verbatim>\<open>cfbundle_executable_path\<close>
  before any assignment when the first bundle directory does not list \<^verbatim>\<open>Info.plist\<close>
  under that spelling although the file can be read, as on a file system that
  ignores case: \<^verbatim>\<open>UnboundLocalError\<close>, which ends the section.
\<close>

theorem log_packages_in_dir_unbound_local:
  assumes "package_walk (disk env) dir_path = (sub_dir_path, file_names) # walk"
    and "plist_file \<notin> set file_names"
    and "read_plist_in env n (pathjoin sub_dir_path [plist_file]) L = (Inr plist, L')"
    and "py_get plist ''CFBundleExecutable'' PNone = Inr cfbundle_executable"
    and "truthy cfbundle_executable"
  shows "log_packages_in_dir env n dir_path L = (Some UnboundLocalError, L')"
  using assms
  by (simp add: log_packages_in_dir_def log_package_def log_dict_of_def package_info_def
      local_var_def raise_def)

theorem log_packages_in_dir_unbound_local_witness:
  "log_packages_in_dir caseless_world 3 ''/System/Library/Extensions'' demo_logger
     = (Some UnboundLocalError, demo_logger)"
proof -
  have 1: "package_walk (disk caseless_world) ''/System/Library/Extensions''
      = (''/System/Library/Extensions/a.kext'', [''info.plist'']) # []"
    by code_simp
  have "normalize_val plain_lib demo_clock (NSDictionary [(''CFBundleExecutable'', PStr ''a'')]) None
      = (PDict [(''CFBundleExecutable'', PUnicode [97])], [])"
    by code_simp
  then have 2: "read_plist_in caseless_world 3 (pathjoin ''/System/Library/Extensions/a.kext'' [plist_file])
      demo_logger = (Inr (PDict [(''CFBundleExecutable'', PUnicode [97])]), demo_logger)"
    by (simp add: read_plist_def caseless_world_def caseless_tree_def demo_world_def plist_file_def
        pathjoin_def posix_join_def join_step_def relative_path_def startswith_def endswith_def
        suffix_to_prefix)
  from log_packages_in_dir_unbound_local [OF 1 _ 2] show ?thesis
    by (simp add: plist_file_def)
qed

end
