(* ===== verification/Sections.thy ===== *)
theory Sections
  imports Helpers
begin

text \<open>
  The eleven sections of class \<^verbatim>\<open>Collector\<close> of \<^verbatim>\<open>src/osxcollector/osxcollector.py\<close>, from
  \<^verbatim>\<open>_collect_system_info\<close> to \<^verbatim>\<open>_collect_mail\<close>, the table of them in \<^verbatim>\<open>collect\<close>, and the
  collection as \<^verbatim>\<open>main\<close> runs it. Each method is built from the helpers with the
  combinators of \<open>Actions\<close>, statement by statement.
\<close>

section \<open>Sub-sections\<close>

text \<open>\<^verbatim>\<open>with Logger.Extra('osxcollector_subsection', name):\<close>.\<close>

definition in_subsection :: "env \<Rightarrow> string \<Rightarrow> action \<Rightarrow> action" where
  "in_subsection env name body =
     with_extra (python env) ''osxcollector_subsection'' (PStr name) body"

section \<open>System information and kernel extensions\<close>

definition collect_system_info :: "env \<Rightarrow> nat \<Rightarrow> action" where
  "collect_system_info env n =
     (case os_uname env of
        (sysname, nodename, release, version, machine) \<Rightarrow>
          log_dict (python env) n
            (PDict [(''sysname'', PStr sysname), (''nodename'', PStr nodename),
                    (''release'', PStr release), (''version'', PStr version),
                    (''machine'', PStr machine)]))"

definition collect_kext :: "env \<Rightarrow> nat \<Rightarrow> action" where
  "collect_kext env n =
     log_packages_in_dir env n (pathjoin (root_dir env) [''System/Library/Extensions/''])"

section \<open>Start-up\<close>

definition launch_agents :: "string list" where
  "launch_agents =
     [''System/Library/LaunchAgents'', ''System/Library/LaunchDaemons'',
      ''Library/LaunchAgents'', ''Library/LaunchDaemons'']"

definition packages :: "string list" where
  "packages = [''System/Library/ScriptingAdditions'', ''Library/ScriptingAdditions'']"

definition startup_items :: "string list" where
  "startup_items = [''System/Library/StartupItems'', ''Library/StartupItems'']"

definition collect_startup :: "env \<Rightarrow> nat \<Rightarrow> collector \<Rightarrow> action" where
  "collect_startup env n self =
     then_do
       (in_subsection env ''launch_agents''
          (then_do
             (for_each (\<lambda>dir_path. log_launch_agents env n (pathjoin (root_dir env) [dir_path]))
                launch_agents)
             (log_user_launch_agents env n self)))
    (then_do
       (in_subsection env ''scripting_additions''
          (for_each (\<lambda>dir_path. log_packages_in_dir env n (pathjoin (root_dir env) [dir_path]))
             packages))
    (then_do
       (in_subsection env ''startup_items''
          (for_each (\<lambda>dir_path. log_startup_items env n (pathjoin (root_dir env) [dir_path]))
             startup_items))
       (in_subsection env ''login_items'' (log_user_login_items env n self))))"

section \<open>Quarantines and downloads\<close>

definition collect_quarantines :: "env \<Rightarrow> nat \<Rightarrow> collector \<Rightarrow> action" where
  "collect_quarantines env n self =
     then_do (log_user_quarantines env n self) (log_xprotect env n)"

definition directories_to_hash :: "(string \<times> string) list" where
  "directories_to_hash =
     [(''downloads'', ''Downloads''),
      (''email_downloads'', ''Library/Mail Downloads''),
      (''old_email_downloads'', ''Library/Containers/com.apple.mail/Data/Library/Mail Downloads'')]"

definition collect_downloads :: "env \<Rightarrow> nat \<Rightarrow> collector \<Rightarrow> action" where
  "collect_downloads env n self =
     foreach_homedir (python env) n
       (\<lambda>homedir.
          for_each (\<lambda>(subsection_name, path_to_dir).
                      in_subsection env subsection_name
                        (log_file_info_for_directory env n (pathjoin (path homedir) [path_to_dir])))
            directories_to_hash)
       (homedirs self)"

section \<open>Browsers\<close>

definition firefox_dbs :: "(string \<times> string) list" where
  "firefox_dbs =
     [(''cookies'', ''cookies.sqlite''), (''downloads'', ''downloads.sqlite''),
      (''formhistory'', ''formhistory.sqlite''), (''history'', ''places.sqlite''),
      (''signons'', ''signons.sqlite''), (''permissions'', ''permissions.sqlite''),
      (''addons'', ''addons.sqlite''), (''extension'', ''extensions.sqlite''),
      (''content_prefs'', ''content-prefs.sqlite''), (''health_report'', ''healthreport.sqlite''),
      (''webapps_store'', ''webappsstore.sqlite'')]"

text \<open>
  The loop over a table of sub-sections and data base names that the three browsers
  share: \<^verbatim>\<open>with Logger.Extra(...): self._log_sqlite_db(pathjoin(profile_path, db_name))\<close>.
\<close>

definition log_dbs :: "env \<Rightarrow> nat \<Rightarrow> string \<Rightarrow> (string \<times> string) list \<Rightarrow> action" where
  "log_dbs env n profile_path sqlite_dbs =
     for_each (\<lambda>(subsection_name, db_name).
                 in_subsection env subsection_name
                   (log_sqlite_db env n (pathjoin profile_path [db_name])))
       sqlite_dbs"

definition collect_firefox :: "env \<Rightarrow> nat \<Rightarrow> collector \<Rightarrow> action" where
  "collect_firefox env n self =
     foreach_homedir (python env) n
       (\<lambda>homedir.
          if \<not> isdir (disk env)
                 (pathjoin (path homedir) [''Library/Application Support/Firefox/Profiles''])
          then warn_not_found env n
                 (pathjoin (path homedir) [''Library/Application Support/Firefox/Profiles''])
          else for_each
                 (\<lambda>profile_name.
                    log_dbs env n
                      (pathjoin
                         (pathjoin (path homedir) [''Library/Application Support/Firefox/Profiles''])
                         [profile_name])
                      firefox_dbs)
                 (listdir (disk env)
                    (pathjoin (path homedir) [''Library/Application Support/Firefox/Profiles''])))
       (homedirs self)"

definition safari_plists :: "(string \<times> string \<times> string) list" where
  "safari_plists =
     [(''downloads'', ''Downloads.plist'', ''DownloadHistory''),
      (''history'', ''History.plist'', ''WebHistoryDates'')]"

definition safari_dirs :: "(string \<times> string) list" where
  "safari_dirs = [(''databases'', ''Databases''), (''localstorage'', ''LocalStorage'')]"

definition collect_safari_profile :: "env \<Rightarrow> nat \<Rightarrow> string \<Rightarrow> action" where
  "collect_safari_profile env n profile_path =
     then_do
       (for_each (\<lambda>(subsection_name, plist_name, key_to_log).
                    in_subsection env subsection_name
                      (with_result (read_plist_in env n (pathjoin profile_path [plist_name]))
                         (\<lambda>plist. log_items_in_plist (python env) n plist key_to_log None)))
          safari_plists)
       (for_each (\<lambda>(subsection_name, dir_name).
                    in_subsection env subsection_name
                      (for_each
                         (\<lambda>db. log_sqlite_db env n (pathjoin (pathjoin profile_path [dir_name]) [db]))
                         (listdir (disk env) (pathjoin profile_path [dir_name]))))
          safari_dirs)"

definition collect_safari :: "env \<Rightarrow> nat \<Rightarrow> collector \<Rightarrow> action" where
  "collect_safari env n self =
     foreach_homedir (python env) n
       (\<lambda>homedir.
          if \<not> isdir (disk env) (pathjoin (path homedir) [''Library/Safari''])
          then warn_not_found env n (pathjoin (path homedir) [''Library/Safari''])
          else collect_safari_profile env n (pathjoin (path homedir) [''Library/Safari'']))
       (homedirs self)"

definition chrome_dbs :: "(string \<times> string) list" where
  "chrome_dbs =
     [(''history'', ''History''), (''archived_history'', ''Archived History''),
      (''cookies'', ''Cookies''), (''login_data'', ''Login Data''),
      (''top_sites'', ''Top Sites''), (''web_data'', ''Web Data'')]"

definition chrome_dirs :: "(string \<times> string) list" where
  "chrome_dirs = [(''databases'', ''databases''), (''local_storage'', ''Local Storage'')]"

definition collect_chrome_profile :: "env \<Rightarrow> nat \<Rightarrow> string \<Rightarrow> action" where
  "collect_chrome_profile env n chrome_path =
     then_do
       (log_dbs env n chrome_path chrome_dbs)
       (for_each (\<lambda>(subsection_name, dir_name).
                    in_subsection env subsection_name
                      (for_each
                         (\<lambda>db. if \<not> endswith (pathjoin (pathjoin chrome_path [dir_name]) [db]) ''-journal''
                                  \<and> \<not> isdir (disk env) (pathjoin (pathjoin chrome_path [dir_name]) [db])
                               then log_sqlite_db env n (pathjoin (pathjoin chrome_path [dir_name]) [db])
                               else skip)
                         (listdir (disk env) (pathjoin chrome_path [dir_name]))))
          chrome_dirs)"

definition collect_chrome :: "env \<Rightarrow> nat \<Rightarrow> collector \<Rightarrow> action" where
  "collect_chrome env n self =
     foreach_homedir (python env) n
       (\<lambda>homedir.
          if \<not> isdir (disk env)
                 (pathjoin (path homedir) [''Library/Application Support/Google/Chrome/Default''])
          then warn_not_found env n
                 (pathjoin (path homedir) [''Library/Application Support/Google/Chrome/Default''])
          else collect_chrome_profile env n
                 (pathjoin (path homedir) [''Library/Application Support/Google/Chrome/Default'']))
       (homedirs self)"

section \<open>Accounts\<close>

text \<open>\<^verbatim>\<open>plist.get(key, [])\<close> as the list of the items a loop over it visits.\<close>

definition plist_items :: "pyval \<Rightarrow> string \<Rightarrow> pyval list result" where
  "plist_items plist key = bind_result (py_get plist key (PList [])) py_iter"

text \<open>
  \<^verbatim>\<open>_collect_accounts_system_admins\<close> appends to \<^verbatim>\<open>self.admins\<close>; the object after the call
  is its value here.
\<close>

definition more_admins :: "collector \<Rightarrow> pyval \<Rightarrow> collector result" where
  "more_admins self sys_admin_plist =
     bind_result (plist_items sys_admin_plist ''groupmembers'') (\<lambda>groupmembers.
     bind_result (plist_items sys_admin_plist ''users'') (\<lambda>users.
       Inr (self\<lparr>admins := admins self @ groupmembers @ users\<rparr>)))"

definition collect_accounts_system_admins :: "env \<Rightarrow> nat \<Rightarrow> collector \<Rightarrow> collector comp" where
  "collect_accounts_system_admins env n self =
     bind_comp
       (read_plist_in env n
          (pathjoin (root_dir env) [''private/var/db/dslocal/nodes/Default/groups/admin.plist'']))
       (\<lambda>sys_admin_plist.
          bind_comp (pure (more_admins self sys_admin_plist))
            (\<lambda>self'. returning
                       (log_dict (python env) n (PDict [(''admins'', PList (admins self'))]))
                       self'))"

definition with_is_admin :: "env \<Rightarrow> collector \<Rightarrow> pyval list \<Rightarrow> pyval" where
  "with_is_admin env self vals =
     PList (map (\<lambda>val. PDict [(''name'', val),
                              (''is_admin'', PBool (list_ex (py_equal env val) (admins self)))])
              vals)"

definition user_details :: "env \<Rightarrow> collector \<Rightarrow> pyval \<Rightarrow> log_record result" where
  "user_details env self sys_user_plist =
     bind_result (plist_items sys_user_plist ''name'') (\<lambda>names.
     bind_result (plist_items sys_user_plist ''realname'') (\<lambda>realname.
     bind_result (plist_items sys_user_plist ''shell'') (\<lambda>shell.
     bind_result (plist_items sys_user_plist ''home'') (\<lambda>home.
     bind_result (plist_items sys_user_plist ''uid'') (\<lambda>uid.
     bind_result (plist_items sys_user_plist ''gid'') (\<lambda>gid.
     bind_result (plist_items sys_user_plist ''generateduid'') (\<lambda>generateduid.
       Inr [(''names'', with_is_admin env self names), (''realname'', PList realname),
            (''shell'', PList shell), (''home'', PList home), (''uid'', PList uid),
            (''gid'', PList gid), (''generateduid'', with_is_admin env self generateduid)])))))))"

definition users_dir :: string where
  "users_dir = ''private/var/db/dslocal/nodes/Default/users''"

definition collect_accounts_system_users :: "env \<Rightarrow> nat \<Rightarrow> collector \<Rightarrow> action" where
  "collect_accounts_system_users env n self =
     for_each
       (\<lambda>user_name.
          case user_name of
            [] \<Rightarrow> raise IndexError
          | c # cs \<Rightarrow>
              if startswith [c] ''.'' then skip
              else with_result
                     (read_plist_in env n (pathjoin (root_dir env) [users_dir, user_name]))
                     (\<lambda>sys_user_plist. log_dict_of env n (user_details env self sys_user_plist)))
       (listdir (disk env) (pathjoin (root_dir env) [users_dir]))"

definition collect_accounts_social_accounts :: "env \<Rightarrow> nat \<Rightarrow> collector \<Rightarrow> action" where
  "collect_accounts_social_accounts env n self =
     foreach_homedir (python env) n
       (\<lambda>homedir. log_sqlite_db env n (pathjoin (path homedir) [''Library/Accounts/Accounts3.sqlite'']))
       (homedirs self)"

definition recents :: "(string \<times> string) list" where
  "recents =
     [(''server'', ''RecentServers''), (''document'', ''RecentDocuments''),
      (''application'', ''RecentApplications''), (''host'', ''Hosts'')]"

definition recent_details :: "string \<Rightarrow> pyval \<Rightarrow> log_record result" where
  "recent_details recent_type recent =
     bind_result (getitem_str recent ''Name'') (\<lambda>name.
       if recent_type = ''host''
       then bind_result (getitem_str recent ''URL'') (\<lambda>url.
              Inr (AList.update ''host_url'' url [(recent_type @ ''_name'', name)]))
       else Inr [(recent_type @ ''_name'', name)])"

definition collect_accounts_recent_items :: "env \<Rightarrow> nat \<Rightarrow> collector \<Rightarrow> action" where
  "collect_accounts_recent_items env n self =
     foreach_homedir (python env) n
       (\<lambda>homedir.
          with_result
            (read_plist_in env n
               (pathjoin (path homedir) [''Library/Preferences/com.apple.recentitems.plist'']))
            (\<lambda>recents_plist.
               for_each
                 (\<lambda>(recent_type, recent_key).
                    with_extra (python env) ''recent_type'' (PStr recent_type)
                      (with_result
                         (pure (bind_result
                                  (get_deep recents_plist
                                     (PathStr (recent_key @ ''.CustomListItems'')) (PList []))
                                  py_iter))
                         (\<lambda>items.
                            for_each
                              (\<lambda>recent. log_dict_of env n (recent_details recent_type recent))
                              items)))
                 recents))
       (homedirs self)"

text \<open>
  \<^verbatim>\<open>_collect_accounts\<close>: the four collectors in their order, each in its sub-section.
  The second reads the \<^verbatim>\<open>self.admins\<close> that the first has extended.
\<close>

definition collect_accounts :: "env \<Rightarrow> nat \<Rightarrow> collector \<Rightarrow> action" where
  "collect_accounts env n self =
     with_result
       (with_extra_value (python env) ''osxcollector_subsection'' (PStr ''system_admins'')
          (collect_accounts_system_admins env n self))
       (\<lambda>self'.
          then_do (in_subsection env ''system_users'' (collect_accounts_system_users env n self'))
         (then_do (in_subsection env ''social_accounts'' (collect_accounts_social_accounts env n self'))
                  (in_subsection env ''recent_items'' (collect_accounts_recent_items env n self'))))"

section \<open>Applications and mail\<close>

definition collect_user_applications :: "env \<Rightarrow> nat \<Rightarrow> collector \<Rightarrow> action" where
  "collect_user_applications env n self =
     foreach_homedir (python env) n
       (\<lambda>homedir. log_packages_in_dir env n (pathjoin (path homedir) [''Applications'']))
       (homedirs self)"

definition collect_applications :: "env \<Rightarrow> nat \<Rightarrow> collector \<Rightarrow> action" where
  "collect_applications env n self =
     then_do
       (in_subsection env ''applications''
          (then_do (log_packages_in_dir env n (pathjoin (root_dir env) [''Applications'']))
                   (collect_user_applications env n self)))
       (in_subsection env ''install_history''
          (with_result
             (read_plist_in env n (pathjoin (root_dir env) [''Library/Receipts/InstallHistory.plist'']))
             (\<lambda>plist. with_result (pure (py_iter plist))
                         (\<lambda>installed_apps. for_each (log_dict (python env) n) installed_apps))))"

definition mail_paths :: "string list" where
  "mail_paths = [''Library/Mail'', ''Library/Mail Downloads'']"

definition collect_mail :: "env \<Rightarrow> nat \<Rightarrow> collector \<Rightarrow> action" where
  "collect_mail env n self =
     foreach_homedir (python env) n
       (\<lambda>homedir.
          for_each (\<lambda>mail_path. log_file_info_for_directory env n (pathjoin (path homedir) [mail_path]))
            mail_paths)
       (homedirs self)"

section \<open>The collection\<close>

text \<open>The table \<^verbatim>\<open>sections\<close> of \<^verbatim>\<open>collect\<close>, with the methods bound to the object.\<close>

definition sections :: "env \<Rightarrow> nat \<Rightarrow> collector \<Rightarrow> (string \<times> action) list" where
  "sections env n self =
     [(''system_info'', collect_system_info env n),
      (''kext'', collect_kext env n),
      (''startup'', collect_startup env n self),
      (''applications'', collect_applications env n self),
      (''quarantines'', collect_quarantines env n self),
      (''downloads'', collect_downloads env n self),
      (''chrome'', collect_chrome env n self),
      (''firefox'', collect_firefox env n self),
      (''safari'', collect_safari env n self),
      (''accounts'', collect_accounts env n self),
      (''mail'', collect_mail env n self)]"

definition section_method :: "env \<Rightarrow> nat \<Rightarrow> collector \<Rightarrow> string \<Rightarrow> action" where
  "section_method env n self name =
     (case map_of (sections env n self) name of Some collection_method \<Rightarrow> collection_method
      | None \<Rightarrow> skip)"

text \<open>\<^verbatim>\<open>Collector().collect(section_list)\<close>, as \<^verbatim>\<open>main\<close> calls it.\<close>

definition collect_all :: "env \<Rightarrow> nat \<Rightarrow> string list \<Rightarrow> action" where
  "collect_all env n section_list =
     collect (python env) n (section_method env n (new_collector env)) section_list"

section \<open>The logger stays steady\<close>

lemma keeps_in_subsection [keeps_intros]:
  assumes "''osxcollector_subsection'' \<notin> fst ` set ex"
    and "keeps (steady (AList.update ''osxcollector_subsection'' (PStr name) ex)) body"
  shows "keeps (steady ex) (in_subsection env name body)"
  unfolding in_subsection_def using assms by (rule keeps_with_extra)

lemma keeps_collect_system_info [keeps_intros]: "keeps (steady ex) (collect_system_info env n)"
  unfolding collect_system_info_def by (intro keeps_intros)

lemma writes_collect_system_info:
  "total_dumps (python env) \<Longrightarrow> writes (steady ex) 1 (collect_system_info env (n + 3))"
  by (cases "os_uname env" rule: prod_cases5) (simp add: collect_system_info_def writes_log del: One_nat_def)

lemma keeps_collect_kext [keeps_intros]: "keeps (steady ex) (collect_kext env n)"
  unfolding collect_kext_def by (intro keeps_intros)

lemma keeps_collect_startup [keeps_intros]:
  assumes "fresh [''osxcollector_subsection'', ''osxcollector_username''] ex"
  shows "keeps (steady ex) (collect_startup env n self)"
  unfolding collect_startup_def using assms by (intro keeps_intros) simp_all

lemma keeps_collect_quarantines [keeps_intros]:
  assumes "fresh [''osxcollector_username'', ''osxcollector_db_path'', ''osxcollector_table_name''] ex"
  shows "keeps (steady ex) (collect_quarantines env n self)"
  unfolding collect_quarantines_def using assms by (intro keeps_intros) simp_all

lemma keeps_collect_downloads [keeps_intros]:
  assumes "fresh [''osxcollector_subsection'', ''osxcollector_username''] ex"
  shows "keeps (steady ex) (collect_downloads env n self)"
  unfolding collect_downloads_def using assms by (intro keeps_intros) simp_all

lemma keeps_log_dbs [keeps_intros]:
  assumes "fresh [''osxcollector_subsection'', ''osxcollector_db_path'', ''osxcollector_table_name''] ex"
  shows "keeps (steady ex) (log_dbs env n profile_path sqlite_dbs)"
  unfolding log_dbs_def using assms by (intro keeps_intros) simp_all

lemma keeps_collect_firefox [keeps_intros]:
  assumes "fresh [''osxcollector_subsection'', ''osxcollector_username'', ''osxcollector_db_path'',
                  ''osxcollector_table_name''] ex"
  shows "keeps (steady ex) (collect_firefox env n self)"
  unfolding collect_firefox_def using assms by (intro keeps_intros) simp_all

lemma keeps_collect_safari_profile [keeps_intros]:
  assumes "fresh [''osxcollector_subsection'', ''osxcollector_db_path'', ''osxcollector_table_name''] ex"
  shows "keeps (steady ex) (collect_safari_profile env n profile_path)"
  unfolding collect_safari_profile_def using assms by (intro keeps_intros) simp_all

lemma keeps_collect_safari [keeps_intros]:
  assumes "fresh [''osxcollector_subsection'', ''osxcollector_username'', ''osxcollector_db_path'',
                  ''osxcollector_table_name''] ex"
  shows "keeps (steady ex) (collect_safari env n self)"
  unfolding collect_safari_def using assms by (intro keeps_intros) simp_all

lemma keeps_collect_chrome_profile [keeps_intros]:
  assumes "fresh [''osxcollector_subsection'', ''osxcollector_db_path'', ''osxcollector_table_name''] ex"
  shows "keeps (steady ex) (collect_chrome_profile env n chrome_path)"
  unfolding collect_chrome_profile_def using assms by (intro keeps_intros) simp_all

lemma keeps_collect_chrome [keeps_intros]:
  assumes "fresh [''osxcollector_subsection'', ''osxcollector_username'', ''osxcollector_db_path'',
                  ''osxcollector_table_name''] ex"
  shows "keeps (steady ex) (collect_chrome env n self)"
  unfolding collect_chrome_def using assms by (intro keeps_intros) simp_all

lemma keeps_comp_collect_accounts_system_admins [keeps_intros]:
  "keeps_comp (steady ex) (collect_accounts_system_admins env n self)"
  unfolding collect_accounts_system_admins_def by (intro keeps_intros)

lemma keeps_collect_accounts_system_users [keeps_intros]:
  "keeps (steady ex) (collect_accounts_system_users env n self)"
  unfolding collect_accounts_system_users_def by (intro keeps_intros)

lemma keeps_collect_accounts_social_accounts [keeps_intros]:
  assumes "fresh [''osxcollector_username'', ''osxcollector_db_path'', ''osxcollector_table_name''] ex"
  shows "keeps (steady ex) (collect_accounts_social_accounts env n self)"
  unfolding collect_accounts_social_accounts_def using assms by (intro keeps_intros) simp_all

lemma keeps_collect_accounts_recent_items [keeps_intros]:
  assumes "fresh [''osxcollector_username'', ''recent_type''] ex"
  shows "keeps (steady ex) (collect_accounts_recent_items env n self)"
  unfolding collect_accounts_recent_items_def using assms by (intro keeps_intros) simp_all

lemma keeps_collect_accounts [keeps_intros]:
  assumes "fresh [''osxcollector_subsection'', ''osxcollector_username'', ''osxcollector_db_path'',
                  ''osxcollector_table_name'', ''recent_type''] ex"
  shows "keeps (steady ex) (collect_accounts env n self)"
  unfolding collect_accounts_def using assms by (intro keeps_intros) simp_all

lemma keeps_collect_user_applications [keeps_intros]:
  assumes "fresh [''osxcollector_username''] ex"
  shows "keeps (steady ex) (collect_user_applications env n self)"
  unfolding collect_user_applications_def using assms by (intro keeps_intros) simp_all

lemma keeps_collect_applications [keeps_intros]:
  assumes "fresh [''osxcollector_subsection'', ''osxcollector_username''] ex"
  shows "keeps (steady ex) (collect_applications env n self)"
  unfolding collect_applications_def using assms by (intro keeps_intros) simp_all

lemma keeps_collect_mail [keeps_intros]:
  assumes "fresh [''osxcollector_username''] ex"
  shows "keeps (steady ex) (collect_mail env n self)"
  unfolding collect_mail_def using assms by (intro keeps_intros) simp_all

text \<open>Every method of the table keeps the logger steady, whether it returns or raises.\<close>

lemma keeps_sections:
  assumes "fresh [''osxcollector_subsection'', ''osxcollector_username'', ''osxcollector_db_path'',
                  ''osxcollector_table_name'', ''recent_type''] ex"
    and "(name, collection_method) \<in> set (sections env n self)"
  shows "keeps (steady ex) collection_method"
proof -
  from assms(2) consider
      "collection_method = collect_system_info env n" | "collection_method = collect_kext env n"
    | "collection_method = collect_startup env n self"
    | "collection_method = collect_applications env n self"
    | "collection_method = collect_quarantines env n self"
    | "collection_method = collect_downloads env n self"
    | "collection_method = collect_chrome env n self"
    | "collection_method = collect_firefox env n self"
    | "collection_method = collect_safari env n self"
    | "collection_method = collect_accounts env n self"
    | "collection_method = collect_mail env n self"
    unfolding sections_def by auto
  then show ?thesis using assms(1) by cases (simp_all add: keeps_intros)
qed

lemma keeps_section_method:
  assumes "fresh [''osxcollector_subsection'', ''osxcollector_username'', ''osxcollector_db_path'',
                  ''osxcollector_table_name'', ''recent_type''] ex"
  shows "keeps (steady ex) (section_method env n self name)"
proof (cases "map_of (sections env n self) name")
  case None
  then show ?thesis by (simp add: section_method_def skip_rules)
next
  case (Some collection_method)
  from keeps_sections [OF assms map_of_SomeD [OF Some]] Some show ?thesis
    by (simp add: section_method_def)
qed

lemma sections_names: "map fst (sections env n self) = section_names"
  by (simp add: sections_def section_names_def)

lemma sections_table:
  "map (\<lambda>name. (name, section_method env n self name)) section_names = sections env n self"
  by (simp add: section_names_def section_method_def sections_def)

lemma writes_collect_system_info_only:
  assumes "total_dumps (python env)" and "''osxcollector_section'' \<notin> fst ` set ex"
  shows "writes (steady ex) 1 (collect_all env (n + 3) [''system_info''])"
proof -
  let ?k = "\<lambda>sec :: string \<times> action. if fst sec = ''system_info'' then 1 else 0 :: nat"
  have "writes (steady ex) (?k sec) (run_section (python env) (n + 3) [''system_info''] sec)"
    if "sec \<in> set (sections env (n + 3) (new_collector env))" for sec
  proof (cases "fst sec = ''system_info''")
    case True
    with that have sec: "sec = (''system_info'', collect_system_info env (n + 3))"
      by (auto simp: sections_def)
    have "writes (steady (AList.update ''osxcollector_section'' (PStr (fst sec)) ex)) 1 (snd sec)"
      unfolding sec snd_conv by (rule writes_collect_system_info [OF assms(1)])
    from writes_run_section [OF assms(2) _ this, of "[''system_info'']"] True
    show ?thesis by simp
  next
    case False
    with writes_run_section_skipped [OF assms(2), of "[''system_info'']" sec "python env" "n + 3"]
    show ?thesis by simp
  qed
  then have "writes (steady ex) (sum_list (map ?k (sections env (n + 3) (new_collector env))))
      (for_each (run_section (python env) (n + 3) [''system_info''])
         (sections env (n + 3) (new_collector env)))"
    by (rule writes_for_each)
  moreover have "sum_list (map ?k (sections env (n + 3) (new_collector env))) = 1"
    by (simp add: sections_def)
  ultimately show ?thesis
    by (simp add: collect_all_def collect_def sections_table del: One_nat_def)
qed

section \<open>Properties\<close>

text \<open>
  C3: the collection always comes to its end. For every file system, every
  property list, every data base and whatever the library functions raise,
  \<^verbatim>\<open>Collector().collect(section_list)\<close> with the eleven sections of the program returns
  normally and leaves the extras as they were, provided that \<^verbatim>\<open>dumps\<close> accepts every
  record, the output file accepts every call, debug mode is off, none of the
  collector's keys is among the extras at the start, and three stack frames are left.
\<close>

theorem collect_all_returns:
  assumes "total_dumps (python env)" and "fresh collector_keys (extras L)"
    and "\<not> debug_mode L" and "healthy (output_file L)"
  shows "\<exists>L'. collect_all env (n + 3) section_list L = (None, L')
     \<and> extras L' = extras L \<and> healthy (output_file L')"
proof -
  from assms(2) have k: "''osxcollector_section'' \<notin> fst ` set (extras L)"
    by (simp add: collector_keys_def)
  have "keeps (steady (AList.update ''osxcollector_section'' (PStr name) (extras L)))
      (section_method env (n + 3) (new_collector env) name)" for name
    using assms(2) by (intro keeps_section_method) (simp add: collector_keys_def)
  from returnsD [OF returns_collect [OF assms(1) k this] steadyI [OF assms(3,4)], of n section_list]
  show ?thesis by (auto simp: collect_all_def steady_def)
qed

theorem collect_all_returns_witness:
  "\<exists>L'. collect_all demo_world 3 [] demo_logger = (None, L')
     \<and> extras L' = extras demo_logger \<and> healthy (output_file L')"
  using collect_all_returns [of demo_world demo_logger 0 "[]"] demo_world_steady
  by (simp add: collector_keys_def)

text \<open>
  C31: with \<^verbatim>\<open>system_info\<close> as the only section asked for, the collection writes
  exactly one record: the ten other sections are entered and left without a call of
  their methods, and \<^verbatim>\<open>_collect_system_info\<close> logs the result of \<^verbatim>\<open>os.uname\<close>.
\<close>

theorem collect_all_system_info_only:
  assumes "total_dumps (python env)" and "''osxcollector_section'' \<notin> fst ` set (extras L)"
    and "\<not> debug_mode L" and "healthy (output_file L)"
  shows "\<exists>L'. collect_all env (n + 3) [''system_info''] L = (None, L')
     \<and> extras L' = extras L \<and> lines_written L' = lines_written L + 1"
  using writesD [OF writes_collect_system_info_only [OF assms(1,2)] steadyI [OF assms(3,4)], of n]
  by (auto simp: steady_def)

theorem collect_all_system_info_only_witness:
  "\<exists>L'. collect_all demo_world 3 [''system_info''] demo_logger = (None, L')
     \<and> extras L' = extras demo_logger \<and> lines_written L' = lines_written demo_logger + 1"
  using collect_all_system_info_only [of demo_world demo_logger 0] demo_world_steady
  by simp

end
