(* ===== verification/Program.thy ===== *)
theory Program
  imports Sections
begin

text \<open>
  Class \<^verbatim>\<open>LogFileArchiver\<close> and \<^verbatim>\<open>main\<close> of \<^verbatim>\<open>src/osxcollector/osxcollector.py\<close>: the run of
  the program from its options to its last words on standard error. What the
  program asks of the host besides reading (creating the output directory, opening
  the output file, copying the system logs, compressing and removing the directory)
  is a record of functions that return or raise; what these calls leave on the disk
  is not part of the model.
\<close>

section \<open>The host and the options\<close>

record host =
  euid :: nat
  egid :: nat
  makedirs :: "string \<Rightarrow> py_error option"
  open_w :: "string \<Rightarrow> sink result"
  copyfile :: "string \<Rightarrow> string \<Rightarrow> py_error option"
  make_archive :: "string \<Rightarrow> string \<Rightarrow> string \<Rightarrow> py_error option"
  rmtree :: "string \<Rightarrow> py_error option"

text \<open>The options as \<^verbatim>\<open>OptionParser\<close> returns them, and their defaults.\<close>

record options =
  opt_incident_prefix :: string
  opt_output_file_name :: "string option"
  opt_rootpath :: string
  opt_section_list :: "string list"
  opt_debug :: bool

definition default_options :: options where
  "default_options =
     \<lparr>opt_incident_prefix = ''osxcollect'', opt_output_file_name = None, opt_rootpath = ''/'',
      opt_section_list = [], opt_debug = False\<rparr>"

text \<open>A call of the host as a statement: it raises what the host raises.\<close>

definition host_call :: "py_error option \<Rightarrow> action" where
  "host_call r L = (r, L)"

section \<open>The archiver\<close>

definition archive_logs :: "env \<Rightarrow> host \<Rightarrow> nat \<Rightarrow> string \<Rightarrow> action" where
  "archive_logs env hst n target_dir_path =
     for_each
       (\<lambda>file_name.
          logging_exceptions (python env) n []
            (host_call (copyfile hst (pathjoin (pathjoin (root_dir env) [''private/var/log'']) [file_name])
                                     (pathjoin target_dir_path [file_name]))))
       (filter (\<lambda>file_name. startswith file_name ''system.'')
          (listdir (disk env) (pathjoin (root_dir env) [''private/var/log''])))"

definition compress_directory :: "env \<Rightarrow> host \<Rightarrow> nat \<Rightarrow> string \<Rightarrow> string \<Rightarrow> string \<Rightarrow> action" where
  "compress_directory env hst n file_name output_dir_path target_dir_path =
     logging_exceptions (python env) n []
       (host_call (make_archive hst file_name output_dir_path target_dir_path))"

section \<open>The run\<close>

text \<open>\<^verbatim>\<open>datetime.now().strftime('%Y_%m_%d-%H_%M_%S')\<close> and the incident it names.\<close>

definition strftime_incident :: "datetime \<Rightarrow> string result" where
  "strftime_incident t =
     (if dt_year t < 1900 then Inl ValueError
      else Inr (pad0 4 (dt_year t) @ ''_'' @ pad0 2 (dt_month t) @ ''_'' @ pad0 2 (dt_day t) @ ''-'' @
                pad0 2 (dt_hour t) @ ''_'' @ pad0 2 (dt_minute t) @ ''_'' @ pad0 2 (dt_second t)))"

definition incident_id_of :: "clock \<Rightarrow> string \<Rightarrow> string result" where
  "incident_id_of clk incident_prefix =
     bind_result (strftime_incident (now clk)) (\<lambda>stamp. Inr (incident_prefix @ ''-'' @ stamp))"

text \<open>\<^verbatim>\<open>options.output_file_name or pathjoin(output_directory, '{0}.json'.format(incident_id))\<close>.\<close>

definition output_name :: "options \<Rightarrow> string \<Rightarrow> string" where
  "output_name opts incident_id =
     (case opt_output_file_name opts of
        Some name \<Rightarrow> if name \<noteq> [] then name
                     else pathjoin (''./'' @ incident_id) [incident_id @ ''.json'']
      | None \<Rightarrow> pathjoin (''./'' @ incident_id) [incident_id @ ''.json''])"

text \<open>The body of the \<^verbatim>\<open>with open(output_file_name, 'w')\<close> block.\<close>

definition run_collection ::
  "options \<Rightarrow> host \<Rightarrow> env \<Rightarrow> nat \<Rightarrow> string \<Rightarrow> sink \<Rightarrow> action" where
  "run_collection opts hst env n incident_id out_file =
     then_do (\<lambda>L. (None, set_output_file out_file L))
    (then_do (with_extra (python env) ''osxcollector_incident_id'' (PStr incident_id)
                (collect_all env n (opt_section_list opts)))
    (then_do (archive_logs env hst n (''./'' @ incident_id))
    (then_do (compress_directory env hst n incident_id ''.'' (''./'' @ incident_id))
             (\<lambda>L. if \<not> debug_mode L
                   then logging_exceptions (python env) n []
                          (host_call (rmtree hst (''./'' @ incident_id))) L
                   else (None, L)))))"

text \<open>
  \<^verbatim>\<open>main\<close>. The two globals it sets are the debug flag of the logger and the root of
  the environment. An exception of \<^verbatim>\<open>strftime\<close>, \<^verbatim>\<open>os.makedirs\<close> or \<^verbatim>\<open>open\<close> is the
  program's.
\<close>

definition main :: "options \<Rightarrow> host \<Rightarrow> env \<Rightarrow> nat \<Rightarrow> action" where
  "main opts hst env n L =
     (if opt_rootpath opts = ''/'' \<and> euid hst \<noteq> 0 \<and> egid hst \<noteq> 0
      then log_error (python env) n (''Must run as root!'' @ newline) (L\<lparr>debug_mode := opt_debug opts\<rparr>)
      else
        (case incident_id_of (timezone env) (opt_incident_prefix opts) of
           Inl e \<Rightarrow> (Some e, L\<lparr>debug_mode := opt_debug opts\<rparr>)
         | Inr incident_id \<Rightarrow>
             (case makedirs hst (''./'' @ incident_id) of
                Some e \<Rightarrow> (Some e, L\<lparr>debug_mode := opt_debug opts\<rparr>)
              | None \<Rightarrow>
                  (case open_w hst (output_name opts incident_id) of
                     Inl e \<Rightarrow> (Some e, L\<lparr>debug_mode := opt_debug opts\<rparr>)
                   | Inr out_file \<Rightarrow>
                       then_do
                         (run_collection opts hst (env\<lparr>root_dir := opt_rootpath opts\<rparr>) n
                            incident_id out_file)
                         (\<lambda>L'. (None, L'\<lparr>stderr := stderr L' @
                                          [Summary (lines_written L') incident_id]\<rparr>))
                         (L\<lparr>debug_mode := opt_debug opts\<rparr>)))))"

text \<open>A host for the worked examples: root, and every call succeeds but the copy of one log.\<close>

definition demo_host :: host where
  "demo_host =
     \<lparr>euid = 0, egid = 0, makedirs = (\<lambda>p. None),
      open_w = (\<lambda>p. Inr \<lparr>written = [], ops = 0, fails = (\<lambda>n. False)\<rparr>),
      copyfile = (\<lambda>src dst. if src = ''/private/var/log/system.log'' then None else Some IOError),
      make_archive = (\<lambda>file_name output_dir target_dir. None),
      rmtree = (\<lambda>p. None)\<rparr>"

section \<open>The logger stays steady\<close>

lemma keeps_host_call [keeps_intros]: "keeps I (host_call r)"
  by (simp add: keeps_def host_call_def)

lemma keeps_archive_logs [keeps_intros]: "keeps (steady ex) (archive_logs env hst n target)"
  unfolding archive_logs_def by (intro keeps_intros)

lemma returns_archive_logs [returns_intros]:
  "total_dumps (python env) \<Longrightarrow> returns (steady ex) (archive_logs env hst (n + 3) target)"
  unfolding archive_logs_def by (intro returns_intros keeps_intros)

lemma returns_compress_directory [returns_intros]:
  "total_dumps (python env) \<Longrightarrow>
     returns (steady ex) (compress_directory env hst (n + 3) file_name output_dir target)"
  unfolding compress_directory_def by (intro returns_intros keeps_intros)

lemma returns_steady_not_debug:
  assumes "returns (steady ex) a"
  shows "returns (steady ex) (\<lambda>L. if \<not> debug_mode L then a L else (None, L))"
  using assms unfolding returns_def by (auto simp: steady_def)

lemma returns_collect_all:
  assumes "total_dumps (python env)" and "fresh collector_keys ex"
  shows "returns (steady ex) (collect_all env (n + 3) section_list)"
  unfolding collect_all_def
  using assms
  by (intro returns_collect keeps_section_method) (simp_all add: collector_keys_def)

text \<open>The body of the \<^verbatim>\<open>with open\<close> block returns normally once the file is healthy.\<close>

lemma run_collection_returns:
  assumes "total_dumps (python env)" and "fresh (''osxcollector_incident_id'' # collector_keys) (extras L)"
    and "\<not> debug_mode L" and "healthy out_file"
  shows "\<exists>L'. run_collection opts hst env (n + 3) incident_id out_file L = (None, L')
     \<and> steady (extras L) L'"
proof -
  have s: "steady (extras L) (set_output_file out_file L)"
    using assms(3,4) by (simp add: steady_def set_output_file_def)
  have "returns (steady (extras L))
     (then_do (with_extra (python env) ''osxcollector_incident_id'' (PStr incident_id)
                (collect_all env (n + 3) (opt_section_list opts)))
     (then_do (archive_logs env hst (n + 3) (''./'' @ incident_id))
     (then_do (compress_directory env hst (n + 3) incident_id ''.'' (''./'' @ incident_id))
              (\<lambda>L. if \<not> debug_mode L
                    then logging_exceptions (python env) (n + 3) []
                           (host_call (rmtree hst (''./'' @ incident_id))) L
                    else (None, L)))))"
    using assms(1,2)
    by (intro returns_then_do returns_with_extra returns_collect_all returns_archive_logs
        returns_compress_directory returns_steady_not_debug returns_logging_exceptions
        keeps_host_call)
      (simp_all add: collector_keys_def)
  from returnsD [OF this s] show ?thesis
    by (simp add: run_collection_def then_do_def)
qed

text \<open>A call of the host in a \<^verbatim>\<open>try\<close> block costs one line when it fails and none when not.\<close>

lemma writes_logged_host_call:
  assumes "total_dumps lib"
  shows "writes (steady ex) (case r of None \<Rightarrow> 0 | Some e \<Rightarrow> 1)
     (logging_exceptions lib (n + 3) m (host_call r))"
proof (cases r)
  case None
  then have "host_call r = skip" by (simp add: host_call_def skip_def fun_eq_iff)
  with None show ?thesis by (simp add: logging_exceptions_try_catch writes_try_catch skip_rules)
next
  case (Some e)
  then have "host_call r = raise e" by (simp add: host_call_def raise_def fun_eq_iff)
  with Some show ?thesis
    by (simp add: logging_exceptions_try_catch writes_log [OF assms] del: One_nat_def)
qed

lemma writes_archive_logs:
  assumes "total_dumps (python env)"
  shows "writes (steady ex)
     (length (filter (\<lambda>file_name.
                copyfile hst (pathjoin (pathjoin (root_dir env) [''private/var/log'']) [file_name])
                  (pathjoin target [file_name]) \<noteq> None)
        (filter (\<lambda>file_name. startswith file_name ''system.'')
           (listdir (disk env) (pathjoin (root_dir env) [''private/var/log''])))))
     (archive_logs env hst (n + 3) target)"
proof -
  let ?copy = "\<lambda>file_name. copyfile hst (pathjoin (pathjoin (root_dir env) [''private/var/log'']) [file_name])
      (pathjoin target [file_name])"
  let ?names = "filter (\<lambda>file_name. startswith file_name ''system.'')
      (listdir (disk env) (pathjoin (root_dir env) [''private/var/log'']))"
  have *: "sum_list (map (\<lambda>file_name. case ?copy file_name of None \<Rightarrow> 0 | Some e \<Rightarrow> 1) names)
      = length (filter (\<lambda>file_name. ?copy file_name \<noteq> None) names)" for names
    by (induction names) (auto split: option.splits)
  have "writes (steady ex)
      (sum_list (map (\<lambda>file_name. case ?copy file_name of None \<Rightarrow> 0 | Some e \<Rightarrow> 1) ?names))
      (for_each (\<lambda>file_name. logging_exceptions (python env) (n + 3) [] (host_call (?copy file_name)))
         ?names)"
    by (rule writes_for_each) (rule writes_logged_host_call [OF assms])
  then show ?thesis unfolding archive_logs_def * .
qed

section \<open>Properties\<close>

text \<open>
  C4: the program comes to its end. When it runs as root, or on another root path,
  the output directory can be made and the output file opened, the file then accepts
  every call, \<^verbatim>\<open>dumps\<close> accepts every record and the \<^verbatim>\<open>-d\<close> option is not given, \<^verbatim>\<open>main\<close>
  returns normally, whatever the file system, the property lists and the data bases
  hold and whichever copies and archives fail; the extras are as at the start, and
  its last words on standard error name the value of \<^verbatim>\<open>Logger.lines_written\<close> and the
  incident.
\<close>

theorem main_returns:
  assumes "total_dumps (python env)" and "\<not> opt_debug opts"
    and "fresh (''osxcollector_incident_id'' # collector_keys) (extras L)"
    and "opt_rootpath opts \<noteq> ''/'' \<or> euid hst = 0 \<or> egid hst = 0"
    and "incident_id_of (timezone env) (opt_incident_prefix opts) = Inr incident_id"
    and "makedirs hst (''./'' @ incident_id) = None"
    and "open_w hst (output_name opts incident_id) = Inr out_file" and "healthy out_file"
  shows "\<exists>L' events. main opts hst env (n + 3) L = (None, L') \<and> extras L' = extras L
     \<and> stderr L' = events @ [Summary (lines_written L') incident_id]"
proof -
  let ?L = "L\<lparr>debug_mode := opt_debug opts\<rparr>"
  from run_collection_returns [of "env\<lparr>root_dir := opt_rootpath opts\<rparr>" ?L out_file opts hst n incident_id]
    assms(1,2,3,8)
  obtain L1 where "run_collection opts hst (env\<lparr>root_dir := opt_rootpath opts\<rparr>) (n + 3) incident_id
      out_file ?L = (None, L1)" "steady (extras L) L1"
    by auto
  with assms(4-7) show ?thesis by (auto simp: main_def steady_def)
qed

theorem main_returns_witness:
  "\<exists>L' events. main default_options demo_host demo_world 3 demo_logger = (None, L')
     \<and> extras L' = extras demo_logger
     \<and> stderr L' = events @ [Summary (lines_written L') ''osxcollect-2014_06_01-00_00_00'']"
proof -
  have "incident_id_of (timezone demo_world) (opt_incident_prefix default_options)
      = Inr ''osxcollect-2014_06_01-00_00_00''"
    by code_simp
  from main_returns [where hst = demo_host and L = demo_logger and n = 0,
      OF demo_world_steady(1) _ _ _ this]
  show ?thesis
    by (simp add: default_options_def demo_host_def demo_logger_def collector_keys_def healthy_def)
qed

text \<open>
  \<^verbatim>\<open>LogFileArchiver.archive_logs\<close> writes one record for every system log that could not
  be copied, and returns normally.
\<close>

theorem archive_logs_one_line_per_failure:
  assumes "total_dumps (python env)" and "\<not> debug_mode L" and "healthy (output_file L)"
  shows "\<exists>L'. archive_logs env hst (n + 3) target L = (None, L')
     \<and> lines_written L' = lines_written L +
         length (filter (\<lambda>file_name.
                    copyfile hst (pathjoin (pathjoin (root_dir env) [''private/var/log'']) [file_name])
                      (pathjoin target [file_name]) \<noteq> None)
            (filter (\<lambda>file_name. startswith file_name ''system.'')
               (listdir (disk env) (pathjoin (root_dir env) [''private/var/log'']))))"
  using writesD [OF writes_archive_logs [OF assms(1), where hst = hst and target = target and n = n]
      steadyI [OF assms(2,3)]]
  by auto

theorem archive_logs_one_line_per_failure_witness:
  "\<exists>L'. archive_logs demo_world demo_host 3 ''./out'' demo_logger = (None, L')
     \<and> lines_written L' = lines_written demo_logger + 1"
proof -
  have "length (filter (\<lambda>file_name.
            copyfile demo_host (pathjoin (pathjoin (root_dir demo_world) [''private/var/log'']) [file_name])
              (pathjoin ''./out'' [file_name]) \<noteq> None)
          (filter (\<lambda>file_name. startswith file_name ''system.'')
            (listdir (disk demo_world) (pathjoin (root_dir demo_world) [''private/var/log''])))) = 1"
    by code_simp
  with archive_logs_one_line_per_failure [where hst = demo_host and n = 0 and target = "''./out''",
      OF demo_world_steady(1,2,3)]
  show ?thesis by simp
qed

end
