(* ===== verification/Spec2Isabelle.thy ===== *)
theory Spec2Isabelle
  imports Program
begin

text \<open>
  A verification development for OS X Collector,
  \<^verbatim>\<open>src/osxcollector/osxcollector.py\<close>: a forensic collector for Python 2 that reads
  property lists, SQLite databases and the file system of a Mac and writes one JSON
  object per line. The program is one module. Its core is four helpers that every
  collected record passes through, and class \<^verbatim>\<open>Collector\<close>, whose eleven sections call
  them:

  \<^item> \<^verbatim>\<open>_normalize_val\<close> turns a raw value into one \<^verbatim>\<open>json.dumps\<close> accepts, and asks
    \<^verbatim>\<open>_value_to_datetime\<close> for a date when the key of the value hints at a time stamp;
  \<^item> \<^verbatim>\<open>_value_to_datetime\<close> tries four readings of a number (microseconds since 1970
    and since 1601, seconds since 1970 and since 2001) and accepts the first that
    falls between 2004 and tomorrow;
  \<^item> \<^verbatim>\<open>DictUtils.get_deep\<close> follows a dotted path into nested dictionaries and lists;
  \<^item> class \<^verbatim>\<open>Logger\<close> writes the records, with the extras that the context manager
    \<^verbatim>\<open>Logger.Extra\<close> holds laid over each of them, and reports exceptions as records;
  \<^item> \<^verbatim>\<open>Collector.collect\<close> runs every section inside \<^verbatim>\<open>Logger.Extra\<close> and passes what a
    section raises to \<^verbatim>\<open>Logger.log_exception\<close>;
  \<^item> the sections walk directories, read property lists through \<^verbatim>\<open>_read_plist\<close> and
    data bases through \<^verbatim>\<open>_log_sqlite_db\<close>, and log one record per file, item or row;
  \<^item> \<^verbatim>\<open>main\<close> checks for root, names the incident, opens the output file, runs the
    collection, and has \<^verbatim>\<open>LogFileArchiver\<close> copy the system logs and compress the result.

  \<^bold>\<open>How Python is modelled.\<close> An exception is a value of the datatype \<open>py_error\<close>, a
  computation that can raise returns \<open>py_error + 'a\<close>, and \<^verbatim>\<open>try/except\<close> is the
  combinator \<open>try_except\<close>, which honours that the two \<^verbatim>\<open>Unicode\<close> errors are
  \<^verbatim>\<open>ValueError\<close>s. A statement that changes state returns the state together with the
  exception it raised, if any, because what was written before an exception stays
  written. Values are the datatype \<open>pyval\<close>, one constructor per run-time type the
  program distinguishes. A dictionary is an association list in insertion order;
  integers are unbounded, as in Python; a float is an exact rational or one of the
  three special values, so the rounding of binary floating point is not modelled. A
  \<^verbatim>\<open>datetime\<close> is a number of microseconds since 0001-01-01, with the calendar algorithm
  of the library. Library functions whose text is not part of the program are
  parameters: \<^verbatim>\<open>json.dumps\<close>, \<^verbatim>\<open>repr\<close> and the formatting of a traceback (\<open>pylib\<close>), the
  local clock and time zone (\<open>clock\<close>), the hash functions (\<open>hashlib\<close>), the file system
  (\<open>filesystem\<close>), the Foundation reader of property lists, SQLite (\<open>cursor\<close>), \<^verbatim>\<open>str\<close>
  and \<^verbatim>\<open>==\<close> on values, the encoding of file names and \<^verbatim>\<open>os.uname\<close>. The record \<open>env\<close>
  collects them, and the theorems about the collector hold for every value of it.
  The file system is a function of the path as the program spells it; paths are not
  normalised, and nothing the program does changes the file system it reads.

  \<^bold>\<open>Theories and the code they model.\<close>
  \<^item> \<open>PyPrelude\<close>: exceptions, results, \<open>try_except\<close>, and the built-ins on byte strings
    and sequences the program calls (\<^verbatim>\<open>lower\<close>, \<^verbatim>\<open>find\<close>, \<^verbatim>\<open>split\<close>, \<^verbatim>\<open>int\<close>, \<^verbatim>\<open>float\<close>,
    indexing with negative indices, \<^verbatim>\<open>dict\<close> look-up), with their lemmas.
  \<^item> \<open>PyValue\<close>: \<open>pyval\<close>, truthiness, the ASCII and UTF-16 codecs as far as
    \<^verbatim>\<open>_normalize_val\<close> reaches them, \<open>json_native\<close>, the parameter record \<open>pylib\<close>, and
    the \<^verbatim>\<open>for\<close> loop \<open>for_each\<close> with its invariant rule.
  \<^item> \<open>PyDatetime\<close>: the part of \<^verbatim>\<open>datetime\<close>, \<^verbatim>\<open>calendar\<close> and \<^verbatim>\<open>time\<close> that is called, and
    the characterisation of the year of a date, \<open>dt_year_ge_iff\<close>.
  \<^item> \<open>DictUtils\<close>: class \<^verbatim>\<open>DictUtils\<close> (\<^verbatim>\<open>_link_path_to_chain\<close>, \<^verbatim>\<open>_get_deep_by_chain\<close>,
    \<^verbatim>\<open>get_deep\<close>) and the contract \<open>lookup_path\<close>. Its theorems: \<open>get_deep\<close> refines
    \<open>lookup_path\<close> when the integer segments are in range; the only exception it can
    raise is \<^verbatim>\<open>IndexError\<close>, and it does raise it on an index out of range; the empty
    tuple and the empty set as paths return the container, not the default.
  \<^item> \<open>Logger\<close>: class \<^verbatim>\<open>Logger\<close> with \<^verbatim>\<open>Logger.Extra\<close> (\<open>log_dict\<close>, \<open>log_exception\<close>,
    \<open>log_error\<close>, \<open>log_warning\<close>, \<open>extra_enter\<close>, \<open>extra_exit\<close>, \<open>with_extra\<close>). The state is
    the record \<open>logger\<close>; the output file is a \<open>sink\<close> that records what was written and
    refuses the calls a fault oracle names. Its theorems: the extras refine a stack
    per key as long as no key is nested in itself; for every key nested in itself
    the inner release deletes it and the outer release raises \<^verbatim>\<open>KeyError\<close>, whatever
    the body did; one line and one count per successful call; a record that cannot be serialised is
    reported; a file that refuses every call makes \<open>log_dict\<close> raise.
  \<^item> \<open>Timestamps\<close>: the constants, the decorators \<^verbatim>\<open>_timestamp_errorhandling\<close> and
    \<^verbatim>\<open>_convert_to_local\<close>, the four converters, \<^verbatim>\<open>_value_to_datetime\<close> and
    \<^verbatim>\<open>_datetime_to_string\<close>. Its theorems: every result is plausible and a whole
    number of seconds; seconds since 1970 win over seconds since 2001; before
    2034-12-29 at most one reading accepts an integer; only numbers and numeric
    strings give a date.
  \<^item> \<open>Normalize\<close>: \<^verbatim>\<open>_normalize_val\<close>, as \<open>normalize_val\<close>, which returns the value and
    what the outer handler reported. Its theorems: the result is \<open>json_native\<close>;
    structure, keys and order are kept; the function is not idempotent on lists; a
    byte string that is not ASCII becomes its \<^verbatim>\<open>repr\<close>; a \<^verbatim>\<open>buffer\<close> is never passed on;
    a hinted time stamp becomes a date string; other numbers stay.
  \<^item> \<open>Files\<close>: \<^verbatim>\<open>_get_homedirs\<close>, \<^verbatim>\<open>listdir\<close>, \<^verbatim>\<open>_relative_path\<close>, \<^verbatim>\<open>pathjoin\<close>,
    \<^verbatim>\<open>_hash_file\<close> (the chunked loop is \<open>read_loop\<close>, a \<^theory_text>\<open>function\<close> with a termination
    proof) and \<^verbatim>\<open>_get_file_info\<close>. Its theorems: hashing in chunks is hashing the
    content; every failure gives three empty strings; \<open>pathjoin\<close> stays below its
    first argument unless an argument begins with two slashes, and such an argument
    discards the root and every argument before it.
  \<^item> \<open>Actions\<close>: statements that act on the logger (\<open>action\<close>) and expressions with
    such an effect (\<open>comp\<close>), with the combinators the methods are built from
    (\<open>then_do\<close>, \<open>with_result\<close>, \<open>try_catch\<close>, \<open>for_each\<close>, \<open>with_extra\<close>) and three
    judgements about them, each with one rule per combinator: \<open>keeps I act\<close> (the
    invariant survives, also when \<open>act\<close> raises), \<open>returns I act\<close> (\<open>act\<close> returns
    normally) and \<open>writes I k act\<close> (and adds \<open>k\<close> to \<^verbatim>\<open>lines_written\<close>). The invariant
    used throughout is \<open>steady ex\<close>: debug mode off, the output file healthy, the
    extras equal to \<open>ex\<close>.
  \<^item> \<open>Collector\<close>: \<^verbatim>\<open>Collector.collect\<close>, \<^verbatim>\<open>_foreach_homedir\<close>, \<^verbatim>\<open>_read_plist\<close> and
    \<^verbatim>\<open>_log_items_in_plist\<close>, with the section methods as parameters. Its theorems: a
    section that raises does not end the collection; records carry the name of
    their section; one line per item of a property list.
  \<^item> \<open>FileTree\<close>: \<^verbatim>\<open>os.path.isdir\<close>, \<^verbatim>\<open>os.path.isfile\<close>, \<^verbatim>\<open>os.walk\<close> (\<open>os_walk\<close>, a
    \<^theory_text>\<open>function\<close> whose termination rests on \<^verbatim>\<open>PATH_MAX\<close>), and \<^verbatim>\<open>pathjoin\<close> and
    \<^verbatim>\<open>_get_file_info\<close> on path components that are \<^verbatim>\<open>unicode\<close> objects
    (\<open>pathjoin_text\<close>, \<open>get_file_info_text\<close>), which agree with the versions of \<open>Files\<close>
    on byte strings.
  \<^item> \<open>Environment\<close>: the record \<open>env\<close>, the list of the keys the collector uses for
    extras, and the environment of the worked examples.
  \<^item> \<open>Sqlite\<close>: \<^verbatim>\<open>_log_sqlite_table\<close> and \<^verbatim>\<open>_log_sqlite_db\<close>. Its theorems: one record
    per row; a table whose name is not ASCII is never read; a failure of \<^verbatim>\<open>connect\<close>
    costs one record, or two when the data base is locked, and is never raised.
  \<^item> \<open>Helpers\<close>: the object as the record \<open>collector\<close> (\<^verbatim>\<open>__init__\<close> is \<open>new_collector\<close>)
    and the helper methods from \<^verbatim>\<open>_log_file_info_for_directory\<close> to
    \<^verbatim>\<open>_log_user_login_items\<close>. Its theorems: one record per file of a tree;
    \<^verbatim>\<open>_log_launch_agents\<close> and \<^verbatim>\<open>_log_startup_items\<close> never raise;
    \<^verbatim>\<open>_log_packages_in_dir\<close> raises \<^verbatim>\<open>UnicodeDecodeError\<close> on a bundle below a directory
    that is not ASCII, and \<^verbatim>\<open>UnboundLocalError\<close> when \<^verbatim>\<open>Info.plist\<close> can be read but is
    not listed under that spelling.
  \<^item> \<open>Sections\<close>: the eleven sections, from \<^verbatim>\<open>_collect_system_info\<close> to
    \<^verbatim>\<open>_collect_mail\<close>, the table of them (\<open>sections\<close>) and \<open>collect_all\<close>, which is
    \<^verbatim>\<open>Collector().collect(section_list)\<close>. Its theorems: every section keeps the logger
    steady; the collection returns normally in every environment; with
    \<^verbatim>\<open>system_info\<close> alone it writes one record.
  \<^item> \<open>Program\<close>: class \<^verbatim>\<open>LogFileArchiver\<close> (\<open>archive_logs\<close>, \<open>compress_directory\<close>) and
    \<^verbatim>\<open>main\<close>, over the records \<open>options\<close> (what \<^verbatim>\<open>OptionParser\<close> returns) and \<open>host\<close> (the
    calls that change the host: \<^verbatim>\<open>os.makedirs\<close>, \<^verbatim>\<open>open\<close>, \<^verbatim>\<open>shutil.copyfile\<close>,
    \<^verbatim>\<open>shutil.make_archive\<close>, \<^verbatim>\<open>shutil.rmtree\<close>, each of which returns or raises). Its
    theorems: \<^verbatim>\<open>main\<close> returns normally and reports \<^verbatim>\<open>lines_written\<close>; one record per
    system log that could not be copied.
  \<^item> This theory: the properties that span the components.

  \<^bold>\<open>Stack frames as fuel.\<close> \<^verbatim>\<open>Logger.log_dict\<close> calls \<^verbatim>\<open>log_exception\<close> when writing fails,
  which calls \<^verbatim>\<open>log_error\<close>, which calls \<^verbatim>\<open>log_dict\<close>. Nothing in the code bounds this;
  the interpreter's recursion limit does. The functions of \<open>Logger\<close> and \<open>Collector\<close>
  take the number of frames left and raise \<^verbatim>\<open>RuntimeError\<close> at zero, which is what
  Python does. The theorems that promise a normal return name the frames they need
  (one for a successful \<open>log_dict\<close>, three more to report an exception); the theorems
  about a broken file hold for every number of frames.

  The methods of \<open>Sqlite\<close>, \<open>Helpers\<close> and \<open>Sections\<close> pass the same number on to every
  call of the logger, so three frames are enough for the whole collection.

  \<^bold>\<open>The walk.\<close> \<open>os_walk\<close> descends into an entry only when its name is not empty, has no
  slash, and the joined path has at most \<^verbatim>\<open>PATH_MAX\<close> (1024) bytes. The operating
  system lists no other names and refuses longer paths, so no directory it can show
  is left out, and the length of the path is a measure for the recursion. Symbolic
  links are not part of the file system value.

  \<^bold>\<open>The object.\<close> \<^verbatim>\<open>self.homedirs\<close> is computed once, in \<open>new_collector\<close>. \<^verbatim>\<open>self.admins\<close> is
  changed by \<^verbatim>\<open>_collect_accounts_system_admins\<close> only, whose model returns the changed
  object to \<open>collect_accounts\<close>; \<open>collect_accounts\<close> itself is a statement, since \<^verbatim>\<open>main\<close>
  uses the object for one call of \<^verbatim>\<open>collect\<close>.

  \<^bold>\<open>Not modelled.\<close> The parsing of the command line by \<^verbatim>\<open>OptionParser\<close>; what the calls
  of the record \<open>host\<close> leave on the disk (the program reads none of it back); closing
  the output file at the end of its \<^verbatim>\<open>with\<close> block; and \<^verbatim>\<open>debugbreak\<close>, which opens an
  interactive debugger: the models take it to return. The text \<^verbatim>\<open>repr\<close>, \<^verbatim>\<open>str\<close> and
  \<^verbatim>\<open>json.dumps\<close> produce is whatever the parameter gives, and so are the rows SQLite
  answers a statement with. Keys of dictionaries are byte strings. The recursion of
  \<open>normalize_val\<close> is not bounded by frames. The context manager of a SQLite
  connection commits on exit, which cannot fail after statements that only read.
\<close>

section \<open>Evaluation\<close>

lemma normalize_demo_plist:
  "normalize_val plain_lib demo_clock demo_plist None =
     (PDict [(''name'', PUnicode [83, 97, 102, 97, 114, 105]),
             (''LastUsedDate'', PStr ''2014-05-13 09:53:20''),
             (''blob'', PUnicode [25185, 25699]),
             (''items'', PList [PInt 1, PStr ''<NSData bytes:3>'', PStr ''<object>''])], [])"
  by code_simp

section \<open>Properties that span the components\<close>

text \<open>
  C25: time stamps inside a property list are found. When a dictionary has an entry
  whose key hints at a time stamp and whose value \<^verbatim>\<open>_value_to_datetime\<close> accepts,
  \<^verbatim>\<open>_normalize_val\<close> of the dictionary has the date string under that key, and the keys
  are those of the dictionary, in order.
\<close>

theorem nested_timestamp_detected:
  assumes "(k, v) \<in> set d" and "key_hints_timestamp (Some k)" and "value_to_datetime clk v = Some t"
  shows "\<exists>d' s. fst (normalize_val lib clk (NSDictionary d) key) = PDict d'
     \<and> map fst d' = map fst d \<and> (k, PStr s) \<in> set d' \<and> strftime t = Inr s"
proof -
  from hinted_date_Some [OF assms(2,3)] obtain s
    where s: "normalize_val lib clk v (Some k) = (PStr s, [])" "strftime t = Inr s"
    by (auto simp: normalize_val_hinted)
  let ?d' = "map (\<lambda>kv. (fst kv, fst (normalize_val lib clk (snd kv) (Some (fst kv))))) d"
  from assms(1) s(1) have "(k, PStr s) \<in> set ?d'" by force
  with s(2) show ?thesis by (auto simp: collect_dict_def comp_def)
qed

theorem nested_timestamp_detected_witness:
  "\<exists>d' s. fst (normalize_val plain_lib demo_clock demo_plist None) = PDict d'
     \<and> map fst d' = [''name'', ''LastUsedDate'', ''blob'', ''items'']
     \<and> (''LastUsedDate'', PStr s) \<in> set d' \<and> strftime 63535571600000000 = Inr s"
proof -
  have "(''LastUsedDate'', PInt 421692800)
      \<in> set [(''name'', PStr ''Safari''), (''LastUsedDate'', PInt 421692800), (''blob'', PBuffer ''abcd''),
             (''items'', NSArray [PInt 1, NSData ''xyz'', NSDate 0])]"
    by simp
  from nested_timestamp_detected [OF this hinted_demo value_to_datetime_demo(4), of plain_lib None]
  show ?thesis unfolding demo_plist_def by simp
qed

text \<open>
  C26: from the file to the output. When \<^verbatim>\<open>_read_plist\<close> returns a property list and
  \<^verbatim>\<open>DictUtils.get_deep\<close> finds a sequence in it, \<^verbatim>\<open>_log_items_in_plist\<close> returns normally
  and writes one line for each item; \<^verbatim>\<open>_read_plist\<close> itself wrote at most one line, the
  report of a failed read. This needs a \<^verbatim>\<open>dumps\<close> that accepts every record, a file
  that accepts every call, and three stack frames.
\<close>

theorem plist_pipeline_one_line_each:
  assumes "total_dumps lib" and "\<not> debug_mode L" and "healthy (output_file L)"
    and "read_plist lib clk (n + 3) fs foundation p L = (Inr plist, L1)"
    and "get_deep plist (PathStr q) (PList []) = Inr v" and "py_iter v = Inr items"
  shows "\<exists>L2 k. log_items_in_plist lib (n + 3) plist q None L1 = (None, L2)
     \<and> lines_written L1 = lines_written L + k \<and> k \<le> 1
     \<and> lines_written L2 = lines_written L1 + length items \<and> extras L2 = extras L"
proof -
  have s: "steady (extras L) L" using assms(2,3) by (simp add: steady_def)
  have "steady (extras L) L1 \<and> (\<exists>k\<le>1. lines_written L1 = lines_written L + k)"
  proof (cases "files fs p = None")
    case True
    with assms(4) s show ?thesis by (simp add: read_plist_def)
  next
    case False
    show ?thesis
    proof (cases "foundation p")
      case (Inr d)
      with False assms(4) s show ?thesis
        by (auto simp: read_plist_def steady_def split: prod.splits)
    next
      case (Inl e)
      from writesD [OF writes_log(2) [OF assms(1)] s, of n e "''_read_plist failed on '' @ p"]
        False Inl assms(4)
      show ?thesis by (auto simp: read_plist_def intro: exI [of _ 1])
    qed
  qed
  then obtain k where "steady (extras L) L1" "lines_written L1 = lines_written L + k" "k \<le> 1" by blast
  with writesD [OF writes_log_items [OF assms(1), where items = items and n = n] this(1)] assms(5,6) show ?thesis
    by (auto simp: log_items_in_plist_def steady_def)
qed

theorem plist_pipeline_one_line_each_witness:
  "\<exists>L2. log_items_in_plist plain_lib 3
       (fst (normalize_val plain_lib demo_clock demo_plist None)) ''items'' None demo_logger = (None, L2)
     \<and> lines_written L2 = 3"
proof -
  let ?plist = "fst (normalize_val plain_lib demo_clock demo_plist None)"
  have 1: "read_plist plain_lib demo_clock (0 + 3) demo_fs (\<lambda>p. Inr demo_plist) ''/etc/hosts'' demo_logger
      = (Inr ?plist, demo_logger)"
    by (simp add: read_plist_def normalize_demo_plist demo_fs_def demo_logger_def)
  have 2: "get_deep ?plist (PathStr ''items'') (PList [])
      = Inr (PList [PInt 1, PStr ''<NSData bytes:3>'', PStr ''<object>''])"
    by (simp add: normalize_demo_plist get_deep_eval)
  from plist_pipeline_one_line_each [OF demo_env(1,4,5) 1 2] show ?thesis
    by (auto simp: demo_logger_def)
qed

end
